theory Spec2Isabelle
  imports Complex_Main
begin

section \<open>Plain (encoded) values\<close>

text \<open>
  The plain data both catalogs talk about.  \<open>JNone\<close> and \<open>JSome\<close> only occur in
  decoded output: they are the two cases of the option an \<open>OptionFromNullishOr\<close> field
  decodes to.  Numbers are rationals: the not-a-number and infinite values of a JavaScript
  number are outside the model.  A string is a list of 8-bit characters.
\<close>

datatype jsval =
    JUndefined
  | JNull
  | JBool bool
  | JNum rat
  | JStr string
  | JArr "jsval list"
  | JObj "(string \<times> jsval) list"
  | JNone
  | JSome jsval

section \<open>Field-scoped errors\<close>

datatype segment = Key string | Index nat

datatype issue = MissingField | TypeMismatch | ConstraintViolation

text \<open>
  An error names the rule class that failed, the path of the value it is about and the
  message the schema declares for it (\<open>None\<close> where the source declares none and the
  library's own wording would be used).
\<close>

datatype error = Error (kind: issue) (path: "segment list") (message: "string option")

section \<open>The validated-schema catalog (bindings.ts)\<close>

subsection \<open>Schema descriptors\<close>

text \<open>
  The arguments of \<open>.pipe(...)\<close> in bindings.ts, each with its message annotation.
\<close>

datatype combinator =
    Schema_nonEmptyString "string option"
  | Schema_minLength nat string
  | Schema_maxLength nat string
  | Schema_startsWith string string
  | Schema_positive string
  | Schema_nonNegative string
  | Schema_between rat rat string
  | Schema_lessThan rat string
  | Schema_toUpperCase
  | Schema_toLowerCase

text \<open>
  The schema constructors bindings.ts uses.  \<open>Schema_Union ms msg\<close> carries the
  \<open>message\<close> annotation with \<open>override: true\<close> when the source gives one;
  \<open>Schema_propertySignature s m\<close> carries the \<open>missingMessage\<close>;
  \<open>Schema_Class name fields\<close> lists the fields in source order.
\<close>

datatype schema =
    Schema_String
  | Schema_Number
  | Schema_Boolean
  | Schema_Literal string
  | pipe schema combinator
  | Schema_Union "schema list" "string option"
  | Schema_Array schema
  | Schema_propertySignature schema string
  | Schema_OptionFromNullishOr schema
  | Schema_Class string "(string \<times> schema) list"

subsection \<open>Case normalisation\<close>

text \<open>
  Modelled from the spec: bindings.ts ends the pipes of its case-normalised fields with
  \<open>Schema.toUpperCase\<close> and \<open>Schema.toLowerCase\<close>, which are declared neither in the
  repository nor by the schema library it imports.  The spec has such a field produce
  its value in upper (lower) case, so the two steps are read as JavaScript's
  \<open>toUpperCase\<close> and \<open>toLowerCase\<close> of a string.  A character is a code unit below 256
  (Latin-1): the letters \<open>a\<close>..\<open>z\<close> and U+00E0..U+00FE (but for the division sign U+00F7)
  have their capital 32 places below, and the sharp s U+00DF becomes the two letters
  \<open>SS\<close>, so upper-casing can lengthen a string.  The capitals of the micro sign U+00B5
  and of U+00FF lie outside the alphabet; the model keeps these two characters, and
  no statement below is about a string that holds one of them.
\<close>

definition upper_char :: "char \<Rightarrow> char" where
  "upper_char c =
     (let n = (of_char c :: nat) in
      if (97 \<le> n \<and> n \<le> 122) \<or> (224 \<le> n \<and> n \<le> 254 \<and> n \<noteq> 247)
      then char_of (n - 32) else c)"

definition upper_chars :: "char \<Rightarrow> string" where
  "upper_chars c = (if c = CHR 0xDF then ''SS'' else [upper_char c])"

definition lower_char :: "char \<Rightarrow> char" where
  "lower_char c =
     (let n = (of_char c :: nat) in
      if (65 \<le> n \<and> n \<le> 90) \<or> (192 \<le> n \<and> n \<le> 222 \<and> n \<noteq> 215)
      then char_of (n + 32) else c)"

text \<open>
  Modelled from the spec: what the step \<open>Schema.toUpperCase\<close>, which is missing from the
  repository and from the library, does to a string: JavaScript's \<open>toUpperCase\<close>.
\<close>

definition toUpperCase :: "string \<Rightarrow> string" where
  "toUpperCase s = concat (map upper_chars s)"

text \<open>
  Modelled from the spec: what the step \<open>Schema.toLowerCase\<close>, missing likewise, does
  to a string: JavaScript's \<open>toLowerCase\<close>.
\<close>

definition toLowerCase :: "string \<Rightarrow> string" where
  "toLowerCase s = map lower_char s"

subsection \<open>Decoding\<close>

definition fails :: "issue \<Rightarrow> segment list \<Rightarrow> string option \<Rightarrow> error list + jsval" where
  "fails k p m = Inl [Error k p m]"

text \<open>
  A filter of the library is a predicate on the value it is handed, written for strings
  (a comparison of \<open>.length\<close>, a prefix test) or for numbers (a comparison).  Handed a
  value of another kind, as happens where bindings.ts pipes a filter onto an
  \<open>OptionFromNullishOr\<close> wrapper and the filter meets the option the wrapper returns,
  the predicate does not hold: the length of such a value is undefined and every
  comparison with it is false.
\<close>

definition on_string :: "jsval \<Rightarrow> (string \<Rightarrow> bool) \<Rightarrow> bool" where
  "on_string v P = (case v of JStr s \<Rightarrow> P s | _ \<Rightarrow> False)"

definition on_number :: "jsval \<Rightarrow> (rat \<Rightarrow> bool) \<Rightarrow> bool" where
  "on_number v P = (case v of JNum x \<Rightarrow> P x | _ \<Rightarrow> False)"

definition require :: "bool \<Rightarrow> segment list \<Rightarrow> string option \<Rightarrow> jsval \<Rightarrow> error list + jsval" where
  "require ok p m v = (if ok then Inr v else fails ConstraintViolation p m)"

text \<open>
  One step of a pipe, on the value the schema before it returned: a filter passes the
  value on or fails with its message; a case step maps a string.
\<close>

primrec check :: "combinator \<Rightarrow> segment list \<Rightarrow> jsval \<Rightarrow> error list + jsval" where
  "check (Schema_nonEmptyString m) p v = require (on_string v (\<lambda>s. 0 < length s)) p m v"
| "check (Schema_minLength n m) p v = require (on_string v (\<lambda>s. n \<le> length s)) p (Some m) v"
| "check (Schema_maxLength n m) p v = require (on_string v (\<lambda>s. length s \<le> n)) p (Some m) v"
| "check (Schema_startsWith pre m) p v =
     require (on_string v (\<lambda>s. take (length pre) s = pre)) p (Some m) v"
| "check (Schema_positive m) p v = require (on_number v (\<lambda>x. 0 < x)) p (Some m) v"
| "check (Schema_nonNegative m) p v = require (on_number v (\<lambda>x. 0 \<le> x)) p (Some m) v"
| "check (Schema_between lo hi m) p v =
     require (on_number v (\<lambda>x. lo \<le> x \<and> x \<le> hi)) p (Some m) v"
| "check (Schema_lessThan n m) p v = require (on_number v (\<lambda>x. x < n)) p (Some m) v"
| "check Schema_toUpperCase p v =
     (case v of JStr s \<Rightarrow> Inr (JStr (toUpperCase s)) | _ \<Rightarrow> fails TypeMismatch p None)"
| "check Schema_toLowerCase p v =
     (case v of JStr s \<Rightarrow> Inr (JStr (toLowerCase s)) | _ \<Rightarrow> fails TypeMismatch p None)"

fun errors_of :: "error list + jsval \<Rightarrow> error list" where
  "errors_of (Inl es) = es"
| "errors_of (Inr v) = []"

fun first_success :: "(error list + jsval) list \<Rightarrow> jsval option" where
  "first_success [] = None"
| "first_success (Inr v # rs) = Some v"
| "first_success (Inl es # rs) = first_success rs"

fun values_of :: "(error list + jsval) list \<Rightarrow> jsval list" where
  "values_of [] = []"
| "values_of (Inr v # rs) = v # values_of rs"
| "values_of (Inl es # rs) = values_of rs"

fun is_ok :: "error list + jsval \<Rightarrow> bool" where
  "is_ok (Inr v) = True"
| "is_ok (Inl es) = False"

text \<open>
  Modelled from the spec: the validation entry point, which decides whether decoding
  stops at the first failing field, is not in the repository.  The spec has it return
  either the normalised instance or the field errors of the whole record, so the
  results of all fields (and of all array items) are collected before reporting.
\<close>

definition collect :: "(error list + jsval) list \<Rightarrow> error list + jsval list" where
  "collect rs =
     (if list_all is_ok rs then Inr (values_of rs) else Inl (concat (map errors_of rs)))"

text \<open>
  \<open>decode s p v\<close> validates the plain value \<open>v\<close> found at path \<open>p\<close> against \<open>s\<close>,
  reading each constructor as the schema library that bindings.ts imports defines it.
  A pipe hands the output of the schema it is written on to its step, and stops when
  that schema fails.  A union takes its first member that accepts; when none does and
  the union carries a message with \<open>override: true\<close>, that one message at the union's
  own path replaces the members' errors (otherwise the members' errors are reported,
  and a union without members accepts nothing).  \<open>OptionFromNullishOr(s, null)\<close> is the
  union of \<open>s\<close>, \<open>null\<close> and \<open>undefined\<close> turned into an option: \<open>null\<close> and \<open>undefined\<close>
  give "no value", a value that \<open>s\<close> accepts is wrapped, and a value that \<open>s\<close> rejects is
  reported with the errors of \<open>s\<close> followed by the mismatches of the other two members.
  A class wants a record and decodes it field by field.
\<close>

text \<open>
  Modelled from the spec: how a class treats a key that the record does not hold is
  decided by the validation entry point, which is not in the repository.  The spec has
  a required field report that it is missing and an optional field decode absence like
  \<open>null\<close>; so an absent key yields the \<open>missingMessage\<close> of a \<open>propertySignature\<close> and
  reads as \<open>undefined\<close> for every other field.
\<close>

fun decode :: "schema \<Rightarrow> segment list \<Rightarrow> jsval \<Rightarrow> error list + jsval" where
  "decode Schema_String p v = (case v of JStr s \<Rightarrow> Inr v | _ \<Rightarrow> fails TypeMismatch p None)"
| "decode Schema_Number p v = (case v of JNum x \<Rightarrow> Inr v | _ \<Rightarrow> fails TypeMismatch p None)"
| "decode Schema_Boolean p v = (case v of JBool b \<Rightarrow> Inr v | _ \<Rightarrow> fails TypeMismatch p None)"
| "decode (Schema_Literal l) p v = (if v = JStr l then Inr v else fails TypeMismatch p None)"
| "decode (pipe s c) p v =
     (case decode s p v of Inl es \<Rightarrow> Inl es | Inr w \<Rightarrow> check c p w)"
| "decode (Schema_Union ms msg) p v =
     (let rs = map (\<lambda>m. decode m p v) ms in
      case first_success rs of
        Some w \<Rightarrow> Inr w
      | None \<Rightarrow>
          (case msg of
             Some m \<Rightarrow> fails ConstraintViolation p (Some m)
           | None \<Rightarrow>
               if ms = [] then fails TypeMismatch p None
               else Inl (concat (map errors_of rs))))"
| "decode (Schema_Array s) p v =
     (case v of
        JArr xs \<Rightarrow>
          (case collect (map (\<lambda>ix. decode s (p @ [Index (fst ix)]) (snd ix)) (enumerate 0 xs)) of
             Inl es \<Rightarrow> Inl es
           | Inr ws \<Rightarrow> Inr (JArr ws))
      | _ \<Rightarrow> fails TypeMismatch p None)"
| "decode (Schema_propertySignature s m) p v = decode s p v"
| "decode (Schema_OptionFromNullishOr s) p v =
     (if v = JNull \<or> v = JUndefined then Inr JNone
      else case decode s p v of
             Inl es \<Rightarrow> Inl (es @ [Error TypeMismatch p None, Error TypeMismatch p None])
           | Inr w \<Rightarrow> Inr (JSome w))"
| "decode (Schema_Class name fields) p v =
     (case v of
        JObj kvs \<Rightarrow>
          (case collect (map (\<lambda>f.
                   case map_of kvs (fst f) of
                     Some x \<Rightarrow> decode (snd f) (p @ [Key (fst f)]) x
                   | None \<Rightarrow>
                       (case snd f of
                          Schema_propertySignature s m \<Rightarrow>
                            fails MissingField (p @ [Key (fst f)]) (Some m)
                        | _ \<Rightarrow> decode (snd f) (p @ [Key (fst f)]) JUndefined)) fields) of
             Inl es \<Rightarrow> Inl es
           | Inr ws \<Rightarrow> Inr (JObj (zip (map fst fields) ws)))
      | _ \<Rightarrow> fails TypeMismatch p None)"

text \<open>What the decoding of a class does for one of its fields, given the record's entries.\<close>

definition decode_field ::
  "(string \<times> jsval) list \<Rightarrow> segment list \<Rightarrow> string \<times> schema \<Rightarrow> error list + jsval" where
  "decode_field kvs p f =
     (case map_of kvs (fst f) of
        Some x \<Rightarrow> decode (snd f) (p @ [Key (fst f)]) x
      | None \<Rightarrow>
          (case snd f of
             Schema_propertySignature s m \<Rightarrow> fails MissingField (p @ [Key (fst f)]) (Some m)
           | _ \<Rightarrow> decode (snd f) (p @ [Key (fst f)]) JUndefined))"

primrec class_name :: "schema \<Rightarrow> string" where
  "class_name (Schema_Class name fields) = name"

primrec class_fields :: "schema \<Rightarrow> (string \<times> schema) list" where
  "class_fields (Schema_Class name fields) = fields"

subsection \<open>The classes\<close>

text \<open>
  The enums and classes of bindings.ts in source order; a class refers to an earlier
  class or enum by its constant.  Many message templates of the file are malformed (a
  stray back-quote follows the field label, as in \<open>`Street` must be at most 200
  characters long`\<close>): a message is transcribed as the text between the back-quote
  that opens it and the end of its annotation object, without a closing back-quote.
  Where the file nests a pipe inside a case step
  (\<open>Schema.toUpperCase.pipe(Schema.minLength(2, ...))\<close>), the steps are taken in the order
  written.
\<close>

definition Address :: schema where
  "Address = Schema_Class ''Address'' [
     (''street'', Schema_propertySignature
        (pipe (pipe (pipe Schema_String
           (Schema_nonEmptyString (Some ''Please enter a value'')))
           (Schema_nonEmptyString (Some ''Street` Please enter a value'')))
           (Schema_maxLength 200 ''Street` must be at most 200 characters long''))
        '''Street' is required''),
     (''city'', Schema_propertySignature
        (pipe (pipe (pipe Schema_String
           (Schema_nonEmptyString (Some ''Please enter a value'')))
           (Schema_nonEmptyString (Some ''City` Please enter a value'')))
           (Schema_maxLength 100 ''City` must be at most 100 characters long''))
        '''City' is required''),
     (''state'', Schema_propertySignature
        (pipe (pipe Schema_String
           (Schema_nonEmptyString (Some ''Please enter a value'')))
           (Schema_maxLength 100 ''State` must be at most 100 characters long''))
        '''State' is required''),
     (''postalCode'', Schema_propertySignature
        (pipe (pipe (pipe Schema_String
           (Schema_nonEmptyString (Some ''Please enter a value'')))
           (Schema_nonEmptyString (Some ''Postal Code` Please enter a value'')))
           (Schema_maxLength 20 ''Postal Code` must be at most 20 characters long''))
        '''Postal Code' is required''),
     (''country'', Schema_propertySignature
        (pipe (pipe (pipe (pipe (pipe Schema_String
           (Schema_nonEmptyString (Some ''Please enter a value'')))
           (Schema_nonEmptyString (Some ''Country` Please enter a value'')))
           (Schema_minLength 2 ''Country` must be at least 2 characters long''))
           (Schema_maxLength 2 ''Country` must be at most 2 characters long''))
           (Schema_toUpperCase))
        '''Country' is required'')]"

definition Role :: schema where
  "Role = Schema_Union [Schema_Literal ''Admin'', Schema_Literal ''Moderator'', Schema_Literal ''User'', Schema_Literal ''Guest''] None"

definition User :: schema where
  "User = Schema_Class ''User'' [
     (''id'', Schema_propertySignature
        (pipe Schema_String
           (Schema_nonEmptyString (Some ''Please enter a value'')))
        '''Id' is required''),
     (''email'', Schema_propertySignature
        (pipe (pipe (pipe Schema_String
           (Schema_nonEmptyString (Some ''Please enter a value'')))
           (Schema_minLength 5 ''Email` must be at least 5 characters long''))
           (Schema_maxLength 255 ''Email` must be at most 255 characters long''))
        '''Email' is required''),
     (''username'', Schema_propertySignature
        (pipe (pipe (pipe Schema_String
           (Schema_nonEmptyString (Some ''Please enter a value'')))
           (Schema_minLength 3 ''Username` must be at least 3 characters long''))
           (Schema_maxLength 50 ''Username` must be at most 50 characters long''))
        '''Username' is required''),
     (''passwordHash'', Schema_propertySignature
        (pipe (pipe Schema_String
           (Schema_nonEmptyString (Some ''Please enter a value'')))
           (Schema_nonEmptyString (Some ''Password Hash` Please enter a value'')))
        '''Password Hash' is required''),
     (''roles'', Schema_propertySignature
        (Schema_Array Role)
        '''Roles' is required''),
     (''isActive'', Schema_propertySignature
        Schema_Boolean
        '''Is Active' is required''),
     (''createdAt'', Schema_propertySignature
        (pipe Schema_String
           (Schema_nonEmptyString (Some ''Please enter a value'')))
        '''Created At' is required''),
     (''updatedAt'', Schema_propertySignature
        (pipe Schema_String
           (Schema_nonEmptyString (Some ''Please enter a value'')))
        '''Updated At' is required'')]"

definition Customer :: schema where
  "Customer = Schema_Class ''Customer'' [
     (''id'', Schema_propertySignature
        (pipe Schema_String
           (Schema_nonEmptyString (Some ''Please enter a value'')))
        '''Id' is required''),
     (''user'', Schema_propertySignature
        (Schema_Union [pipe Schema_String (Schema_nonEmptyString None), User]
           (Some ''Please enter a valid value''))
        '''User' is required''),
     (''shippingAddress'', Schema_OptionFromNullishOr Address),
     (''billingAddress'', Schema_OptionFromNullishOr Address),
     (''phone'', Schema_OptionFromNullishOr (pipe Schema_String
           (Schema_nonEmptyString (Some ''Please enter a value'')))),
     (''createdAt'', Schema_propertySignature
        (pipe Schema_String
           (Schema_nonEmptyString (Some ''Please enter a value'')))
        '''Created At' is required'')]"

definition Tag :: schema where
  "Tag = Schema_Class ''Tag'' [
     (''id'', Schema_propertySignature
        (pipe Schema_String
           (Schema_nonEmptyString (Some ''Please enter a value'')))
        '''Id' is required''),
     (''name'', Schema_propertySignature
        (pipe (pipe (pipe Schema_String
           (Schema_nonEmptyString (Some ''Please enter a value'')))
           (Schema_nonEmptyString (Some ''Name` Please enter a value'')))
           (Schema_maxLength 100 ''Name` must be at most 100 characters long''))
        '''Name' is required''),
     (''slug'', Schema_propertySignature
        (pipe (pipe (pipe (pipe Schema_String
           (Schema_nonEmptyString (Some ''Please enter a value'')))
           (Schema_nonEmptyString (Some ''Slug` Please enter a value'')))
           (Schema_maxLength 100 ''Slug` must be at most 100 characters long''))
           (Schema_toLowerCase))
        '''Slug' is required''),
     (''description'', (pipe (Schema_OptionFromNullishOr (pipe Schema_String
           (Schema_nonEmptyString (Some ''Please enter a value''))))
           (Schema_maxLength 500 ''Description` must be at most 500 characters long''))),
     (''postCount'', Schema_propertySignature
        (pipe Schema_Number
           (Schema_nonNegative ''Post Count` must be a non-negative number''))
        '''Post Count' is required'')]"

definition Author :: schema where
  "Author = Schema_Class ''Author'' [
     (''id'', Schema_propertySignature
        (pipe Schema_String
           (Schema_nonEmptyString (Some ''Please enter a value'')))
        '''Id' is required''),
     (''user'', Schema_propertySignature
        (Schema_Union [pipe Schema_String (Schema_nonEmptyString None), User]
           (Some ''Please enter a valid value''))
        '''User' is required''),
     (''bio'', (pipe (Schema_OptionFromNullishOr (pipe Schema_String
           (Schema_nonEmptyString (Some ''Please enter a value''))))
           (Schema_maxLength 2000 ''Bio` must be at most 2000 characters long''))),
     (''avatarUrl'', Schema_OptionFromNullishOr (pipe Schema_String
           (Schema_nonEmptyString (Some ''Please enter a value'')))),
     (''twitterHandle'', (pipe (pipe (Schema_OptionFromNullishOr (pipe Schema_String
           (Schema_nonEmptyString (Some ''Please enter a value''))))
           (Schema_startsWith ''@'' ''Twitter Handle` must start with \"@\"''))
           (Schema_maxLength 16 ''Twitter Handle` must be at most 16 characters long''))),
     (''githubHandle'', (pipe (Schema_OptionFromNullishOr (pipe Schema_String
           (Schema_nonEmptyString (Some ''Please enter a value''))))
           (Schema_maxLength 39 ''Github Handle` must be at most 39 characters long''))),
     (''createdAt'', Schema_propertySignature
        (pipe Schema_String
           (Schema_nonEmptyString (Some ''Please enter a value'')))
        '''Created At' is required'')]"

definition Post :: schema where
  "Post = Schema_Class ''Post'' [
     (''id'', Schema_propertySignature
        (pipe Schema_String
           (Schema_nonEmptyString (Some ''Please enter a value'')))
        '''Id' is required''),
     (''title'', Schema_propertySignature
        (pipe (pipe (pipe (pipe Schema_String
           (Schema_nonEmptyString (Some ''Please enter a value'')))
           (Schema_nonEmptyString (Some ''Title` Please enter a value'')))
           (Schema_minLength 1 ''Title` must be at least 1 characters long''))
           (Schema_maxLength 200 ''Title` must be at most 200 characters long''))
        '''Title' is required''),
     (''slug'', Schema_propertySignature
        (pipe (pipe (pipe (pipe Schema_String
           (Schema_nonEmptyString (Some ''Please enter a value'')))
           (Schema_nonEmptyString (Some ''Slug` Please enter a value'')))
           (Schema_maxLength 250 ''Slug` must be at most 250 characters long''))
           (Schema_toLowerCase))
        '''Slug' is required''),
     (''content'', Schema_propertySignature
        (pipe (pipe Schema_String
           (Schema_nonEmptyString (Some ''Please enter a value'')))
           (Schema_nonEmptyString (Some ''Content` Please enter a value'')))
        '''Content' is required''),
     (''excerpt'', (pipe (Schema_OptionFromNullishOr (pipe Schema_String
           (Schema_nonEmptyString (Some ''Please enter a value''))))
           (Schema_maxLength 500 ''Excerpt` must be at most 500 characters long''))),
     (''author'', Schema_propertySignature
        (Schema_Union [pipe Schema_String (Schema_nonEmptyString None), Author]
           (Some ''Please enter a valid value''))
        '''Author' is required''),
     (''tags'', Schema_propertySignature
        (Schema_Array (Schema_Union [pipe Schema_String (Schema_nonEmptyString None), Tag]
           (Some ''Please enter a valid value'')))
        '''Tags' is required''),
     (''featuredImage'', Schema_OptionFromNullishOr (pipe Schema_String
           (Schema_nonEmptyString (Some ''Please enter a value'')))),
     (''published'', Schema_propertySignature
        Schema_Boolean
        '''Published' is required''),
     (''publishedAt'', Schema_OptionFromNullishOr (pipe Schema_String
           (Schema_nonEmptyString (Some ''Please enter a value'')))),
     (''viewCount'', Schema_propertySignature
        (pipe Schema_Number
           (Schema_nonNegative ''View Count` must be a non-negative number''))
        '''View Count' is required''),
     (''createdAt'', Schema_propertySignature
        (pipe Schema_String
           (Schema_nonEmptyString (Some ''Please enter a value'')))
        '''Created At' is required''),
     (''updatedAt'', Schema_propertySignature
        (pipe Schema_String
           (Schema_nonEmptyString (Some ''Please enter a value'')))
        '''Updated At' is required'')]"

definition EdgeCaseUser :: schema where
  "EdgeCaseUser = Schema_Class ''EdgeCaseUser'' [
     (''id'', Schema_propertySignature
        (pipe Schema_String
           (Schema_nonEmptyString (Some ''Please enter a value'')))
        '''Id' is required''),
     (''email'', Schema_propertySignature
        (pipe (pipe Schema_String
           (Schema_nonEmptyString (Some ''Please enter a value'')))
           (Schema_maxLength 255 ''Email` must be at most 255 characters long''))
        '''Email' is required''),
     (''username'', Schema_propertySignature
        (pipe (pipe (pipe Schema_String
           (Schema_nonEmptyString (Some ''Please enter a value'')))
           (Schema_minLength 3 ''Username` must be at least 3 characters long''))
           (Schema_maxLength 30 ''Username` must be at most 30 characters long''))
        '''Username' is required''),
     (''createdAt'', Schema_propertySignature
        (pipe Schema_String
           (Schema_nonEmptyString (Some ''Please enter a value'')))
        '''Created At' is required''),
     (''loginCount'', Schema_propertySignature
        (pipe Schema_Number
           (Schema_nonNegative ''Login Count` must be a non-negative number''))
        '''Login Count' is required''),
     (''rating'', (pipe (Schema_OptionFromNullishOr Schema_Number)
           (Schema_between (0) (5) ''Rating` must be between 0 and 5'')))]"

definition EdgeCasePost :: schema where
  "EdgeCasePost = Schema_Class ''EdgeCasePost'' [
     (''id'', Schema_propertySignature
        (pipe Schema_String
           (Schema_nonEmptyString (Some ''Please enter a value'')))
        '''Id' is required''),
     (''author'', Schema_propertySignature
        (Schema_Union [pipe Schema_String (Schema_nonEmptyString None), EdgeCaseUser]
           (Some ''Please enter a valid value''))
        '''Author' is required''),
     (''title'', Schema_propertySignature
        (pipe (pipe (pipe (pipe Schema_String
           (Schema_nonEmptyString (Some ''Please enter a value'')))
           (Schema_nonEmptyString (Some ''Title` Please enter a value'')))
           (Schema_minLength 5 ''Title` must be at least 5 characters long''))
           (Schema_maxLength 200 ''Title` must be at most 200 characters long''))
        '''Title' is required''),
     (''content'', Schema_propertySignature
        (pipe (pipe (pipe Schema_String
           (Schema_nonEmptyString (Some ''Please enter a value'')))
           (Schema_nonEmptyString (Some ''Content` Please enter a value'')))
           (Schema_minLength 10 ''Content` must be at least 10 characters long''))
        '''Content' is required''),
     (''slug'', Schema_propertySignature
        (pipe (pipe (pipe Schema_String
           (Schema_nonEmptyString (Some ''Please enter a value'')))
           (Schema_toLowerCase))
           (Schema_maxLength 100 ''Slug` must be at most 100 characters long''))
        '''Slug' is required''),
     (''createdAt'', Schema_propertySignature
        (pipe Schema_String
           (Schema_nonEmptyString (Some ''Please enter a value'')))
        '''Created At' is required''),
     (''updatedAt'', Schema_OptionFromNullishOr (pipe Schema_String
           (Schema_nonEmptyString (Some ''Please enter a value'')))),
     (''viewCount'', Schema_propertySignature
        (pipe Schema_Number
           (Schema_nonNegative ''View Count` must be a non-negative number''))
        '''View Count' is required''),
     (''likeCount'', Schema_propertySignature
        (pipe Schema_Number
           (Schema_nonNegative ''Like Count` must be a non-negative number''))
        '''Like Count' is required''),
     (''isPublished'', Schema_propertySignature
        Schema_Boolean
        '''Is Published' is required''),
     (''featuredImage'', Schema_OptionFromNullishOr (pipe Schema_String
           (Schema_nonEmptyString (Some ''Please enter a value'')))),
     (''metaDescription'', (pipe (Schema_OptionFromNullishOr (pipe Schema_String
           (Schema_nonEmptyString (Some ''Please enter a value''))))
           (Schema_maxLength 300 ''Meta Description` must be at most 300 characters long'')))]"

definition EdgeCaseComment :: schema where
  "EdgeCaseComment = Schema_Class ''EdgeCaseComment'' [
     (''id'', Schema_propertySignature
        (pipe Schema_String
           (Schema_nonEmptyString (Some ''Please enter a value'')))
        '''Id' is required''),
     (''post'', Schema_propertySignature
        (Schema_Union [pipe Schema_String (Schema_nonEmptyString None), EdgeCasePost]
           (Some ''Please enter a valid value''))
        '''Post' is required''),
     (''author'', Schema_propertySignature
        (Schema_Union [pipe Schema_String (Schema_nonEmptyString None), EdgeCaseUser]
           (Some ''Please enter a valid value''))
        '''Author' is required''),
     (''content'', Schema_propertySignature
        (pipe (pipe (pipe (pipe Schema_String
           (Schema_nonEmptyString (Some ''Please enter a value'')))
           (Schema_nonEmptyString (Some ''Content` Please enter a value'')))
           (Schema_minLength 1 ''Content` must be at least 1 characters long''))
           (Schema_maxLength 10000 ''Content` must be at most 10000 characters long''))
        '''Content' is required''),
     (''createdAt'', Schema_propertySignature
        (pipe Schema_String
           (Schema_nonEmptyString (Some ''Please enter a value'')))
        '''Created At' is required''),
     (''editedAt'', Schema_OptionFromNullishOr (pipe Schema_String
           (Schema_nonEmptyString (Some ''Please enter a value'')))),
     (''likeCount'', Schema_propertySignature
        (pipe Schema_Number
           (Schema_nonNegative ''Like Count` must be a non-negative number''))
        '''Like Count' is required''),
     (''parentCommentId'', Schema_OptionFromNullishOr (pipe Schema_String
           (Schema_nonEmptyString (Some ''Please enter a value'')))),
     (''isApproved'', Schema_propertySignature
        Schema_Boolean
        '''Is Approved' is required''),
     (''authorIp'', Schema_OptionFromNullishOr (pipe Schema_String
           (Schema_nonEmptyString (Some ''Please enter a value''))))]"

definition ValidatedAddress :: schema where
  "ValidatedAddress = Schema_Class ''ValidatedAddress'' [
     (''street'', Schema_propertySignature
        (pipe (pipe (pipe Schema_String
           (Schema_nonEmptyString (Some ''Please enter a value'')))
           (Schema_nonEmptyString (Some ''Street` Please enter a value'')))
           (Schema_maxLength 200 ''Street` must be at most 200 characters long''))
        '''Street' is required''),
     (''city'', Schema_propertySignature
        (pipe (pipe (pipe Schema_String
           (Schema_nonEmptyString (Some ''Please enter a value'')))
           (Schema_nonEmptyString (Some ''City` Please enter a value'')))
           (Schema_maxLength 100 ''City` must be at most 100 characters long''))
        '''City' is required''),
     (''stateCode'', Schema_propertySignature
        (pipe (pipe (pipe (pipe Schema_String
           (Schema_nonEmptyString (Some ''Please enter a value'')))
           (Schema_toUpperCase))
           (Schema_minLength 2 ''State Code` must be at least 2 characters long''))
           (Schema_maxLength 3 ''State Code` must be at most 3 characters long''))
        '''State Code' is required''),
     (''postalCode'', Schema_propertySignature
        (pipe (pipe (pipe Schema_String
           (Schema_nonEmptyString (Some ''Please enter a value'')))
           (Schema_nonEmptyString (Some ''Postal Code` Please enter a value'')))
           (Schema_maxLength 20 ''Postal Code` must be at most 20 characters long''))
        '''Postal Code' is required''),
     (''countryCode'', Schema_propertySignature
        (pipe (pipe (pipe (pipe Schema_String
           (Schema_nonEmptyString (Some ''Please enter a value'')))
           (Schema_toUpperCase))
           (Schema_minLength 2 ''Country Code` must be at least 2 characters long''))
           (Schema_maxLength 2 ''Country Code` must be at most 2 characters long''))
        '''Country Code' is required''),
     (''latitude'', (pipe (Schema_OptionFromNullishOr Schema_Number)
           (Schema_between (-90) (90) ''Latitude` must be between -90 and 90''))),
     (''longitude'', (pipe (Schema_OptionFromNullishOr Schema_Number)
           (Schema_between (-180) (180) ''Longitude` must be between -180 and 180'')))]"

definition ArrayValidationExtremes :: schema where
  "ArrayValidationExtremes = Schema_Class ''ArrayValidationExtremes'' [
     (''id'', Schema_propertySignature
        (pipe Schema_String
           (Schema_nonEmptyString (Some ''Please enter a value'')))
        '''Id' is required''),
     (''tags'', Schema_propertySignature
        (Schema_Array (pipe Schema_String
           (Schema_nonEmptyString (Some ''Please enter a value''))))
        '''Tags' is required''),
     (''validatedEmails'', Schema_propertySignature
        (Schema_Array (pipe Schema_String
           (Schema_nonEmptyString (Some ''Please enter a value''))))
        '''Validated Emails' is required''),
     (''optionalTags'', Schema_OptionFromNullishOr (Schema_Array (pipe Schema_String
           (Schema_nonEmptyString (Some ''Please enter a value''))))),
     (''scores'', Schema_propertySignature
        (Schema_Array Schema_Number)
        '''Scores' is required''),
     (''optionalScores'', Schema_OptionFromNullishOr (Schema_Array Schema_Number)),
     (''measurements'', Schema_propertySignature
        (Schema_Array Schema_Number)
        '''Measurements' is required''),
     (''addresses'', Schema_propertySignature
        (Schema_Array ValidatedAddress)
        '''Addresses' is required''),
     (''backupAddresses'', Schema_OptionFromNullishOr (Schema_Array ValidatedAddress))]"

definition Comment :: schema where
  "Comment = Schema_Class ''Comment'' [
     (''id'', Schema_propertySignature
        (pipe Schema_String
           (Schema_nonEmptyString (Some ''Please enter a value'')))
        '''Id' is required''),
     (''post'', Schema_propertySignature
        (Schema_Union [pipe Schema_String (Schema_nonEmptyString None), Post]
           (Some ''Please enter a valid value''))
        '''Post' is required''),
     (''author'', Schema_propertySignature
        (Schema_Union [pipe Schema_String (Schema_nonEmptyString None), Author]
           (Some ''Please enter a valid value''))
        '''Author' is required''),
     (''content'', Schema_propertySignature
        (pipe (pipe (pipe (pipe Schema_String
           (Schema_nonEmptyString (Some ''Please enter a value'')))
           (Schema_nonEmptyString (Some ''Content` Please enter a value'')))
           (Schema_minLength 1 ''Content` must be at least 1 characters long''))
           (Schema_maxLength 5000 ''Content` must be at most 5000 characters long''))
        '''Content' is required''),
     (''parentCommentId'', Schema_OptionFromNullishOr (pipe Schema_String
           (Schema_nonEmptyString (Some ''Please enter a value'')))),
     (''isApproved'', Schema_propertySignature
        Schema_Boolean
        '''Is Approved' is required''),
     (''createdAt'', Schema_propertySignature
        (pipe Schema_String
           (Schema_nonEmptyString (Some ''Please enter a value'')))
        '''Created At' is required''),
     (''editedAt'', Schema_OptionFromNullishOr (pipe Schema_String
           (Schema_nonEmptyString (Some ''Please enter a value''))))]"

definition CartItem :: schema where
  "CartItem = Schema_Class ''CartItem'' [
     (''productId'', Schema_propertySignature
        (pipe (pipe Schema_String
           (Schema_nonEmptyString (Some ''Please enter a value'')))
           (Schema_nonEmptyString (Some ''Product Id` Please enter a value'')))
        '''Product Id' is required''),
     (''productName'', Schema_propertySignature
        (pipe (pipe (pipe Schema_String
           (Schema_nonEmptyString (Some ''Please enter a value'')))
           (Schema_nonEmptyString (Some ''Product Name` Please enter a value'')))
           (Schema_maxLength 200 ''Product Name` must be at most 200 characters long''))
        '''Product Name' is required''),
     (''quantity'', Schema_propertySignature
        (pipe Schema_Number
           (Schema_positive ''Quantity` must be a positive number''))
        '''Quantity' is required''),
     (''unitPrice'', Schema_propertySignature
        (pipe Schema_Number
           (Schema_positive ''Unit Price` must be a positive number''))
        '''Unit Price' is required'')]"

definition OrderStatus :: schema where
  "OrderStatus = Schema_Union [Schema_Literal ''Pending'', Schema_Literal ''Processing'', Schema_Literal ''Shipped'', Schema_Literal ''Delivered'', Schema_Literal ''Cancelled''] None"

definition Order :: schema where
  "Order = Schema_Class ''Order'' [
     (''id'', Schema_propertySignature
        (pipe Schema_String
           (Schema_nonEmptyString (Some ''Please enter a value'')))
        '''Id' is required''),
     (''customer'', Schema_propertySignature
        (Schema_Union [pipe Schema_String (Schema_nonEmptyString None), Customer]
           (Some ''Please enter a valid value''))
        '''Customer' is required''),
     (''items'', Schema_propertySignature
        (Schema_Array CartItem)
        '''Items' is required''),
     (''subtotal'', Schema_propertySignature
        (pipe Schema_Number
           (Schema_nonNegative ''Subtotal` must be a non-negative number''))
        '''Subtotal' is required''),
     (''tax'', Schema_propertySignature
        (pipe Schema_Number
           (Schema_nonNegative ''Tax` must be a non-negative number''))
        '''Tax' is required''),
     (''shippingCost'', Schema_propertySignature
        (pipe Schema_Number
           (Schema_nonNegative ''Shipping Cost` must be a non-negative number''))
        '''Shipping Cost' is required''),
     (''total'', Schema_propertySignature
        (pipe Schema_Number
           (Schema_positive ''Total` must be a positive number''))
        '''Total' is required''),
     (''status'', Schema_propertySignature
        OrderStatus
        '''Status' is required''),
     (''shippingAddress'', Schema_propertySignature
        Address
        '''Shipping Address' is required''),
     (''notes'', (pipe (Schema_OptionFromNullishOr (pipe Schema_String
           (Schema_nonEmptyString (Some ''Please enter a value''))))
           (Schema_maxLength 1000 ''Notes` must be at most 1000 characters long''))),
     (''createdAt'', Schema_propertySignature
        (pipe Schema_String
           (Schema_nonEmptyString (Some ''Please enter a value'')))
        '''Created At' is required''),
     (''shippedAt'', Schema_OptionFromNullishOr (pipe Schema_String
           (Schema_nonEmptyString (Some ''Please enter a value'')))),
     (''deliveredAt'', Schema_OptionFromNullishOr (pipe Schema_String
           (Schema_nonEmptyString (Some ''Please enter a value''))))]"

definition PaymentStatus :: schema where
  "PaymentStatus = Schema_Union [Schema_Literal ''Pending'', Schema_Literal ''Processing'', Schema_Literal ''Completed'', Schema_Literal ''Failed'', Schema_Literal ''Refunded'', Schema_Literal ''Cancelled''] None"

definition PaymentMethod :: schema where
  "PaymentMethod = Schema_Union [Schema_Literal ''CreditCard'', Schema_Literal ''DebitCard'', Schema_Literal ''BankTransfer'', Schema_Literal ''PayPal'', Schema_Literal ''Crypto'', Schema_Literal ''Cash''] None"

definition ComplexPayment :: schema where
  "ComplexPayment = Schema_Class ''ComplexPayment'' [
     (''id'', Schema_propertySignature
        (pipe Schema_String
           (Schema_nonEmptyString (Some ''Please enter a value'')))
        '''Id' is required''),
     (''user'', Schema_propertySignature
        (Schema_Union [pipe Schema_String (Schema_nonEmptyString None), EdgeCaseUser]
           (Some ''Please enter a valid value''))
        '''User' is required''),
     (''status'', Schema_propertySignature
        PaymentStatus
        '''Status' is required''),
     (''method'', Schema_propertySignature
        PaymentMethod
        '''Method' is required''),
     (''amount'', Schema_propertySignature
        (pipe (pipe Schema_Number
           (Schema_positive ''Amount` must be a positive number''))
           (Schema_lessThan 1000000 ''Amount` must be less than 1000000''))
        '''Amount' is required''),
     (''currency'', Schema_propertySignature
        (pipe (pipe (pipe (pipe Schema_String
           (Schema_nonEmptyString (Some ''Please enter a value'')))
           (Schema_toUpperCase))
           (Schema_minLength 3 ''Currency` must be at least 3 characters long''))
           (Schema_maxLength 3 ''Currency` must be at most 3 characters long''))
        '''Currency' is required''),
     (''fee'', Schema_propertySignature
        (pipe Schema_Number
           (Schema_nonNegative ''Fee` must be a non-negative number''))
        '''Fee' is required''),
     (''tax'', Schema_propertySignature
        (pipe Schema_Number
           (Schema_nonNegative ''Tax` must be a non-negative number''))
        '''Tax' is required''),
     (''total'', Schema_propertySignature
        (pipe Schema_Number
           (Schema_positive ''Total` must be a positive number''))
        '''Total' is required''),
     (''transactionId'', Schema_propertySignature
        (pipe (pipe Schema_String
           (Schema_nonEmptyString (Some ''Please enter a value'')))
           (Schema_minLength 32 ''Transaction Id` must be at least 32 characters long''))
        '''Transaction Id' is required''),
     (''referenceCode'', Schema_OptionFromNullishOr (pipe Schema_String
           (Schema_nonEmptyString (Some ''Please enter a value'')))),
     (''createdAt'', Schema_propertySignature
        (pipe Schema_String
           (Schema_nonEmptyString (Some ''Please enter a value'')))
        '''Created At' is required''),
     (''processedAt'', Schema_OptionFromNullishOr (pipe Schema_String
           (Schema_nonEmptyString (Some ''Please enter a value'')))),
     (''completedAt'', Schema_OptionFromNullishOr (pipe Schema_String
           (Schema_nonEmptyString (Some ''Please enter a value'')))),
     (''billingAddress'', Schema_propertySignature
        ValidatedAddress
        '''Billing Address' is required''),
     (''notes'', (pipe (Schema_OptionFromNullishOr (pipe Schema_String
           (Schema_nonEmptyString (Some ''Please enter a value''))))
           (Schema_maxLength 1000 ''Notes` must be at most 1000 characters long''))),
     (''retryCount'', Schema_propertySignature
        (pipe Schema_Number
           (Schema_nonNegative ''Retry Count` must be a non-negative number''))
        '''Retry Count' is required''),
     (''failureReason'', (pipe (Schema_OptionFromNullishOr (pipe Schema_String
           (Schema_nonEmptyString (Some ''Please enter a value''))))
           (Schema_maxLength 500 ''Failure Reason` must be at most 500 characters long'')))]"

definition Session :: schema where
  "Session = Schema_Class ''Session'' [
     (''id'', Schema_propertySignature
        (pipe Schema_String
           (Schema_nonEmptyString (Some ''Please enter a value'')))
        '''Id' is required''),
     (''user'', Schema_propertySignature
        (Schema_Union [pipe Schema_String (Schema_nonEmptyString None), User]
           (Some ''Please enter a valid value''))
        '''User' is required''),
     (''token'', Schema_propertySignature
        (pipe (pipe (pipe Schema_String
           (Schema_nonEmptyString (Some ''Please enter a value'')))
           (Schema_nonEmptyString (Some ''Token` Please enter a value'')))
           (Schema_minLength 32 ''Token` must be at least 32 characters long''))
        '''Token' is required''),
     (''expiresAt'', Schema_propertySignature
        (pipe Schema_String
           (Schema_nonEmptyString (Some ''Please enter a value'')))
        '''Expires At' is required''),
     (''createdAt'', Schema_propertySignature
        (pipe Schema_String
           (Schema_nonEmptyString (Some ''Please enter a value'')))
        '''Created At' is required'')]"

definition InnerValidated :: schema where
  "InnerValidated = Schema_Class ''InnerValidated'' [
     (''name'', Schema_propertySignature
        (pipe (pipe (pipe Schema_String
           (Schema_nonEmptyString (Some ''Please enter a value'')))
           (Schema_nonEmptyString (Some ''Name` Please enter a value'')))
           (Schema_maxLength 100 ''Name` must be at most 100 characters long''))
        '''Name' is required''),
     (''count'', Schema_propertySignature
        (pipe Schema_Number
           (Schema_positive ''Count` must be a positive number''))
        '''Count' is required''),
     (''optionalEmail'', Schema_OptionFromNullishOr (pipe Schema_String
           (Schema_nonEmptyString (Some ''Please enter a value''))))]"

definition OuterWithNestedValidator :: schema where
  "OuterWithNestedValidator = Schema_Class ''OuterWithNestedValidator'' [
     (''id'', Schema_propertySignature
        (pipe Schema_String
           (Schema_nonEmptyString (Some ''Please enter a value'')))
        '''Id' is required''),
     (''inner'', Schema_propertySignature
        InnerValidated
        '''Inner' is required''),
     (''optionalInner'', Schema_OptionFromNullishOr InnerValidated),
     (''innerList'', Schema_propertySignature
        (Schema_Array InnerValidated)
        '''Inner List' is required'')]"

definition ProductCategory :: schema where
  "ProductCategory = Schema_Union [Schema_Literal ''Electronics'', Schema_Literal ''Clothing'', Schema_Literal ''Books'', Schema_Literal ''Home'', Schema_Literal ''Sports'', Schema_Literal ''Other''] None"

definition Product :: schema where
  "Product = Schema_Class ''Product'' [
     (''id'', Schema_propertySignature
        (pipe Schema_String
           (Schema_nonEmptyString (Some ''Please enter a value'')))
        '''Id' is required''),
     (''name'', Schema_propertySignature
        (pipe (pipe (pipe Schema_String
           (Schema_nonEmptyString (Some ''Please enter a value'')))
           (Schema_nonEmptyString (Some ''Name` Please enter a value'')))
           (Schema_maxLength 200 ''Name` must be at most 200 characters long''))
        '''Name' is required''),
     (''description'', Schema_propertySignature
        (pipe (pipe Schema_String
           (Schema_nonEmptyString (Some ''Please enter a value'')))
           (Schema_maxLength 5000 ''Description` must be at most 5000 characters long''))
        '''Description' is required''),
     (''price'', Schema_propertySignature
        (pipe Schema_Number
           (Schema_positive ''Price` must be a positive number''))
        '''Price' is required''),
     (''stockQuantity'', Schema_propertySignature
        (pipe Schema_Number
           (Schema_nonNegative ''Stock Quantity` must be a non-negative number''))
        '''Stock Quantity' is required''),
     (''category'', Schema_propertySignature
        ProductCategory
        '''Category' is required''),
     (''imageUrl'', Schema_OptionFromNullishOr (pipe Schema_String
           (Schema_nonEmptyString (Some ''Please enter a value'')))),
     (''isAvailable'', Schema_propertySignature
        Schema_Boolean
        '''Is Available' is required''),
     (''createdAt'', Schema_propertySignature
        (pipe Schema_String
           (Schema_nonEmptyString (Some ''Please enter a value'')))
        '''Created At' is required'')]"

definition ValidatedContact :: schema where
  "ValidatedContact = Schema_Class ''ValidatedContact'' [
     (''name'', Schema_propertySignature
        (pipe (pipe (pipe Schema_String
           (Schema_nonEmptyString (Some ''Please enter a value'')))
           (Schema_nonEmptyString (Some ''Name` Please enter a value'')))
           (Schema_maxLength 100 ''Name` must be at most 100 characters long''))
        '''Name' is required''),
     (''email'', Schema_propertySignature
        (pipe Schema_String
           (Schema_nonEmptyString (Some ''Please enter a value'')))
        '''Email' is required''),
     (''phone'', (pipe (Schema_OptionFromNullishOr (pipe Schema_String
           (Schema_nonEmptyString (Some ''Please enter a value''))))
           (Schema_maxLength 20 ''Phone` must be at most 20 characters long''))),
     (''title'', (pipe (Schema_OptionFromNullishOr (pipe Schema_String
           (Schema_nonEmptyString (Some ''Please enter a value''))))
           (Schema_maxLength 100 ''Title` must be at most 100 characters long'')))]"

definition DeepNestedValidation :: schema where
  "DeepNestedValidation = Schema_Class ''DeepNestedValidation'' [
     (''id'', Schema_propertySignature
        (pipe Schema_String
           (Schema_nonEmptyString (Some ''Please enter a value'')))
        '''Id' is required''),
     (''name'', Schema_propertySignature
        (pipe (pipe (pipe Schema_String
           (Schema_nonEmptyString (Some ''Please enter a value'')))
           (Schema_nonEmptyString (Some ''Name` Please enter a value'')))
           (Schema_maxLength 200 ''Name` must be at most 200 characters long''))
        '''Name' is required''),
     (''primaryAddress'', Schema_propertySignature
        ValidatedAddress
        '''Primary Address' is required''),
     (''billingAddress'', Schema_OptionFromNullishOr ValidatedAddress),
     (''shippingAddresses'', Schema_propertySignature
        (Schema_Array ValidatedAddress)
        '''Shipping Addresses' is required''),
     (''primaryContact'', Schema_propertySignature
        ValidatedContact
        '''Primary Contact' is required''),
     (''secondaryContact'', Schema_OptionFromNullishOr ValidatedContact),
     (''additionalContacts'', Schema_propertySignature
        (Schema_Array ValidatedContact)
        '''Additional Contacts' is required''),
     (''totalOrders'', Schema_propertySignature
        (pipe Schema_Number
           (Schema_nonNegative ''Total Orders` must be a non-negative number''))
        '''Total Orders' is required''),
     (''totalSpent'', Schema_propertySignature
        (pipe Schema_Number
           (Schema_nonNegative ''Total Spent` must be a non-negative number''))
        '''Total Spent' is required''),
     (''creditLimit'', (pipe (Schema_OptionFromNullishOr Schema_Number)
           (Schema_positive ''Credit Limit` must be a positive number'')))]"

definition classes :: "schema list" where
  "classes = [Address, User, Customer, Tag, Author,
     Post, EdgeCaseUser, EdgeCasePost, EdgeCaseComment, ValidatedAddress,
     ArrayValidationExtremes, Comment, CartItem, Order, ComplexPayment,
     Session, InnerValidated, OuterWithNestedValidator, Product, ValidatedContact,
     DeepNestedValidation]"


section \<open>The type-and-default catalog (arktype.ts)\<close>

subsection \<open>Type definitions\<close>

text \<open>
  The definitions arktype.ts writes: a keyword or alias (\<open>'string'\<close>, \<open>'customer'\<close>), a
  literal (\<open>['===', 'Admin']\<close>), a union (\<open>[l, '|', r]\<close>), an array (\<open>[d, '[]']\<close>) and an
  object literal of fields.
\<close>

datatype arkdef =
    Keyword string
  | Eq string
  | Or arkdef arkdef
  | ArrayOf arkdef
  | Obj "(string \<times> arkdef) list"

datatype ark_error = Unresolvable string | OutOfFuel

text \<open>
  Modelled from the spec: the scope's keys are capitalised (\<open>Customer\<close>) while the
  fields refer to them with a lower-case initial (\<open>'customer'\<close>); the spec reads these as
  references to the entity of that name, so an alias resolves to the entry whose key,
  with its first letter in lower case, is the alias.  A key written twice in the object
  literal keeps its last definition.
\<close>

definition uncapitalize :: "string \<Rightarrow> string" where
  "uncapitalize s = (case s of [] \<Rightarrow> [] | c # cs \<Rightarrow> lower_char c # cs)"

fun lookup_last :: "(string \<times> 'a) list \<Rightarrow> string \<Rightarrow> 'a option" where
  "lookup_last [] k = None"
| "lookup_last (e # es) k =
     (case lookup_last es k of
        Some v \<Rightarrow> Some v
      | None \<Rightarrow> if fst e = k then Some (snd e) else None)"

definition resolve :: "(string \<times> arkdef) list \<Rightarrow> string \<Rightarrow> arkdef option" where
  "resolve sc a = lookup_last (map (\<lambda>e. (uncapitalize (fst e), snd e)) sc) a"

fun all_allowed :: "(ark_error + bool) list \<Rightarrow> ark_error + bool" where
  "all_allowed [] = Inr True"
| "all_allowed (Inl e # rs) = Inl e"
| "all_allowed (Inr b # rs) = (case all_allowed rs of Inl e \<Rightarrow> Inl e | Inr c \<Rightarrow> Inr (b \<and> c))"

text \<open>
  \<open>allows n sc d v\<close>: does the plain value \<open>v\<close> have the shape \<open>d\<close> in scope \<open>sc\<close>?  Only
  the primitive kind of a value is looked at.  The first argument bounds the nesting
  of definitions and aliases that is followed.  Every key of an object definition is
  required (none is written with the \<open>?\<close> of an optional key): a record that lacks one
  does not have the shape, also where the definition admits \<open>undefined\<close> as a value.
\<close>

fun allows :: "nat \<Rightarrow> (string \<times> arkdef) list \<Rightarrow> arkdef \<Rightarrow> jsval \<Rightarrow> ark_error + bool" where
  "allows 0 sc d v = Inl OutOfFuel"
| "allows (Suc n) sc (Keyword k) v =
     (if k = ''string'' then Inr (case v of JStr s \<Rightarrow> True | _ \<Rightarrow> False)
      else if k = ''number'' then Inr (case v of JNum x \<Rightarrow> True | _ \<Rightarrow> False)
      else if k = ''boolean'' then Inr (case v of JBool b \<Rightarrow> True | _ \<Rightarrow> False)
      else if k = ''undefined'' then Inr (v = JUndefined)
      else if k = ''null'' then Inr (v = JNull)
      else case resolve sc k of
             None \<Rightarrow> Inl (Unresolvable k)
           | Some d \<Rightarrow> allows n sc d v)"
| "allows (Suc n) sc (Eq l) v = Inr (v = JStr l)"
| "allows (Suc n) sc (Or a b) v =
     (case allows n sc a v of
        Inl e \<Rightarrow> Inl e
      | Inr ok \<Rightarrow> if ok then Inr True else allows n sc b v)"
| "allows (Suc n) sc (ArrayOf d) v =
     (case v of
        JArr xs \<Rightarrow> all_allowed (map (allows n sc d) xs)
      | _ \<Rightarrow> Inr False)"
| "allows (Suc n) sc (Obj fields) v =
     (case v of
        JObj kvs \<Rightarrow>
          all_allowed (map (\<lambda>f.
             case map_of kvs (fst f) of
               None \<Rightarrow> Inr False
             | Some x \<Rightarrow> allows n sc (snd f) x) fields)
      | _ \<Rightarrow> Inr False)"

subsection \<open>The scope\<close>

text \<open>
  The entries of \<open>bindings\<close> in source order, repeated keys included: the definition
  written for key \<open>K\<close> is \<open>bindings_K\<close>, and \<open>bindings_K_2\<close> where the key is written a
  second time.
\<close>

definition bindings_Role :: arkdef where
  "bindings_Role =
     Or (Or (Or (Eq ''Admin'') (Eq ''Moderator'')) (Eq ''User'')) (Eq ''Guest'')"

definition bindings_PaymentMethod :: arkdef where
  "bindings_PaymentMethod =
     Or (Or (Or (Or (Or (Eq ''CreditCard'') (Eq ''DebitCard'')) (Eq ''BankTransfer'')) (Eq ''PayPal'')) (Eq ''Crypto'')) (Eq ''Cash'')"

definition bindings_ProductCategory :: arkdef where
  "bindings_ProductCategory =
     Or (Or (Or (Or (Or (Eq ''Electronics'') (Eq ''Clothing'')) (Eq ''Books'')) (Eq ''Home'')) (Eq ''Sports'')) (Eq ''Other'')"

definition bindings_OrderStatus :: arkdef where
  "bindings_OrderStatus =
     Or (Or (Or (Or (Eq ''Pending'') (Eq ''Processing'')) (Eq ''Shipped'')) (Eq ''Delivered'')) (Eq ''Cancelled'')"

definition bindings_PaymentStatus :: arkdef where
  "bindings_PaymentStatus =
     Or (Or (Or (Or (Or (Eq ''Pending'') (Eq ''Processing'')) (Eq ''Completed'')) (Eq ''Failed'')) (Eq ''Refunded'')) (Eq ''Cancelled'')"

definition bindings_MaxValidatorStacking :: arkdef where
  "bindings_MaxValidatorStacking = Obj [
     (''id'', Keyword ''string''),
     (''megaValidatedString'', Keyword ''string''),
     (''optionalMegaValidated'', Or (Or (Keyword ''string'') (Keyword ''undefined'')) (Keyword ''null'')),
     (''megaValidatedNumber'', Keyword ''number''),
     (''megaValidatedU32'', Keyword ''number''),
     (''optionalMegaU32'', Or (Or (Keyword ''number'') (Keyword ''undefined'')) (Keyword ''null'')),
     (''megaValidatedI64'', Keyword ''number''),
     (''optionalMegaI64'', Or (Or (Keyword ''number'') (Keyword ''undefined'')) (Keyword ''null''))]"

definition bindings_Customer :: arkdef where
  "bindings_Customer = Obj [
     (''id'', Keyword ''string''),
     (''user'', Or (Keyword ''user'') (Keyword ''string'')),
     (''shippingAddress'', Or (Or (Keyword ''address'') (Keyword ''undefined'')) (Keyword ''null'')),
     (''billingAddress'', Or (Or (Keyword ''address'') (Keyword ''undefined'')) (Keyword ''null'')),
     (''phone'', Or (Or (Keyword ''string'') (Keyword ''undefined'')) (Keyword ''null'')),
     (''createdAt'', Keyword ''string'')]"

definition bindings_Order :: arkdef where
  "bindings_Order = Obj [
     (''id'', Keyword ''string''),
     (''customer'', Or (Keyword ''customer'') (Keyword ''string'')),
     (''items'', ArrayOf (Keyword ''cartItem'')),
     (''subtotal'', Keyword ''number''),
     (''tax'', Keyword ''number''),
     (''shippingCost'', Keyword ''number''),
     (''total'', Keyword ''number''),
     (''status'', Keyword ''orderStatus''),
     (''shippingAddress'', Keyword ''address''),
     (''notes'', Or (Or (Keyword ''string'') (Keyword ''undefined'')) (Keyword ''null'')),
     (''createdAt'', Keyword ''string''),
     (''shippedAt'', Or (Or (Keyword ''string'') (Keyword ''undefined'')) (Keyword ''null'')),
     (''deliveredAt'', Or (Or (Keyword ''string'') (Keyword ''undefined'')) (Keyword ''null''))]"

definition bindings_ArrayValidationExtremes :: arkdef where
  "bindings_ArrayValidationExtremes = Obj [
     (''id'', Keyword ''string''),
     (''tags'', ArrayOf (Keyword ''string'')),
     (''validatedEmails'', ArrayOf (Keyword ''string'')),
     (''optionalTags'', Or (Or (ArrayOf (Keyword ''string'')) (Keyword ''undefined'')) (Keyword ''null'')),
     (''scores'', ArrayOf (Keyword ''number'')),
     (''optionalScores'', Or (Or (ArrayOf (Keyword ''number'')) (Keyword ''undefined'')) (Keyword ''null'')),
     (''measurements'', ArrayOf (Keyword ''number'')),
     (''addresses'', ArrayOf (Keyword ''validatedAddress'')),
     (''backupAddresses'', Or (Or (ArrayOf (Keyword ''validatedAddress'')) (Keyword ''undefined'')) (Keyword ''null''))]"

definition bindings_DateTimeExtremes :: arkdef where
  "bindings_DateTimeExtremes = Obj [
     (''id'', Keyword ''string''),
     (''createdAt'', Keyword ''string''),
     (''optionalUpdatedAt'', Or (Or (Keyword ''string'') (Keyword ''undefined'')) (Keyword ''null'')),
     (''birthDate'', Keyword ''string''),
     (''optionalExpiryDate'', Or (Or (Keyword ''string'') (Keyword ''undefined'')) (Keyword ''null'')),
     (''startTime'', Keyword ''string''),
     (''optionalEndTime'', Or (Or (Keyword ''string'') (Keyword ''undefined'')) (Keyword ''null'')),
     (''appointment'', Keyword ''string''),
     (''optionalFollowup'', Or (Or (Keyword ''string'') (Keyword ''undefined'')) (Keyword ''null'')),
     (''duration'', Keyword ''string''),
     (''optionalDuration'', Or (Or (Keyword ''string'') (Keyword ''undefined'')) (Keyword ''null'')),
     (''timezone'', Keyword ''string''),
     (''optionalTimezone'', Or (Or (Keyword ''string'') (Keyword ''undefined'')) (Keyword ''null'')),
     (''deadline'', Keyword ''string''),
     (''optionalTargetDate'', Or (Or (Keyword ''string'') (Keyword ''undefined'')) (Keyword ''null''))]"

definition bindings_NetworkTypes :: arkdef where
  "bindings_NetworkTypes = Obj [
     (''id'', Keyword ''string''),
     (''ipAddress'', Keyword ''string''),
     (''optionalIp'', Or (Or (Keyword ''string'') (Keyword ''undefined'')) (Keyword ''null'')),
     (''macAddress'', Keyword ''string''),
     (''optionalMac'', Or (Or (Keyword ''string'') (Keyword ''undefined'')) (Keyword ''null'')),
     (''internalApiUrl'', Keyword ''string''),
     (''optionalStorageUrl'', Or (Or (Keyword ''string'') (Keyword ''undefined'')) (Keyword ''null'')),
     (''userAgent'', Keyword ''string''),
     (''optionalUserAgent'', Or (Or (Keyword ''string'') (Keyword ''undefined'')) (Keyword ''null''))]"

definition bindings_NetworkTypes_2 :: arkdef where
  "bindings_NetworkTypes_2 = Obj [
     (''id'', Keyword ''string''),
     (''ipAddress'', Keyword ''string''),
     (''optionalIp'', Or (Or (Keyword ''string'') (Keyword ''undefined'')) (Keyword ''null'')),
     (''macAddress'', Keyword ''string''),
     (''optionalMac'', Or (Or (Keyword ''string'') (Keyword ''undefined'')) (Keyword ''null'')),
     (''internalApiUrl'', Keyword ''string''),
     (''optionalStorageUrl'', Or (Or (Keyword ''string'') (Keyword ''undefined'')) (Keyword ''null'')),
     (''userAgent'', Keyword ''string''),
     (''optionalUserAgent'', Or (Or (Keyword ''string'') (Keyword ''undefined'')) (Keyword ''null''))]"

definition bindings_Session :: arkdef where
  "bindings_Session = Obj [
     (''id'', Keyword ''string''),
     (''user'', Or (Keyword ''user'') (Keyword ''string'')),
     (''token'', Keyword ''string''),
     (''expiresAt'', Keyword ''string''),
     (''createdAt'', Keyword ''string'')]"

definition bindings_ComplexStringValidation :: arkdef where
  "bindings_ComplexStringValidation = Obj [
     (''id'', Keyword ''string''),
     (''optionalUuid'', Or (Or (Keyword ''string'') (Keyword ''undefined'')) (Keyword ''null'')),
     (''optionalIp'', Or (Or (Keyword ''string'') (Keyword ''undefined'')) (Keyword ''null'')),
     (''optionalIpv4'', Or (Or (Keyword ''string'') (Keyword ''undefined'')) (Keyword ''null'')),
     (''optionalDigits'', Or (Or (Keyword ''string'') (Keyword ''undefined'')) (Keyword ''null'')),
     (''optionalHex'', Or (Or (Keyword ''string'') (Keyword ''undefined'')) (Keyword ''null'')),
     (''optionalAlpha'', Or (Or (Keyword ''string'') (Keyword ''undefined'')) (Keyword ''null'')),
     (''optionalAlphanumeric'', Or (Or (Keyword ''string'') (Keyword ''undefined'')) (Keyword ''null'')),
     (''optionalDomain'', Or (Or (Keyword ''string'') (Keyword ''undefined'')) (Keyword ''null'')),
     (''optionalWithAt'', Or (Or (Keyword ''string'') (Keyword ''undefined'')) (Keyword ''null''))]"

definition bindings_FloatValidation :: arkdef where
  "bindings_FloatValidation = Obj [
     (''id'', Keyword ''string''),
     (''positiveFloat'', Keyword ''number''),
     (''nonNegativeFloat'', Keyword ''number''),
     (''normalized'', Keyword ''number''),
     (''optionalPositiveFloat'', Or (Or (Keyword ''number'') (Keyword ''undefined'')) (Keyword ''null''))]"

definition bindings_NonEmptyOptionString :: arkdef where
  "bindings_NonEmptyOptionString = Obj [
     (''id'', Keyword ''string''),
     (''optionalNonEmpty'', Or (Or (Keyword ''string'') (Keyword ''undefined'')) (Keyword ''null'')),
     (''optionalMinThree'', Or (Or (Keyword ''string'') (Keyword ''undefined'')) (Keyword ''null''))]"

definition bindings_ComplexIdentifiers :: arkdef where
  "bindings_ComplexIdentifiers = Obj [
     (''id'', Keyword ''string''),
     (''uuidField'', Keyword ''string''),
     (''optionalUuid'', Or (Or (Keyword ''string'') (Keyword ''undefined'')) (Keyword ''null'')),
     (''hexId32'', Keyword ''string''),
     (''optionalHexId'', Or (Or (Keyword ''string'') (Keyword ''undefined'')) (Keyword ''null'')),
     (''base64Token'', Keyword ''string''),
     (''optionalBase64Token'', Or (Or (Keyword ''string'') (Keyword ''undefined'')) (Keyword ''null'')),
     (''version'', Keyword ''string''),
     (''optionalVersion'', Or (Or (Keyword ''string'') (Keyword ''undefined'')) (Keyword ''null'')),
     (''sha256Hash'', Keyword ''string''),
     (''optionalHash'', Or (Or (Keyword ''string'') (Keyword ''undefined'')) (Keyword ''null''))]"

definition bindings_Post :: arkdef where
  "bindings_Post = Obj [
     (''id'', Keyword ''string''),
     (''title'', Keyword ''string''),
     (''slug'', Keyword ''string''),
     (''content'', Keyword ''string''),
     (''excerpt'', Or (Or (Keyword ''string'') (Keyword ''undefined'')) (Keyword ''null'')),
     (''author'', Or (Keyword ''author'') (Keyword ''string'')),
     (''tags'', ArrayOf (Or (Keyword ''tag'') (Keyword ''string''))),
     (''featuredImage'', Or (Or (Keyword ''string'') (Keyword ''undefined'')) (Keyword ''null'')),
     (''published'', Keyword ''boolean''),
     (''publishedAt'', Or (Or (Keyword ''string'') (Keyword ''undefined'')) (Keyword ''null'')),
     (''viewCount'', Keyword ''number''),
     (''createdAt'', Keyword ''string''),
     (''updatedAt'', Keyword ''string'')]"

definition bindings_KitchenSinkString :: arkdef where
  "bindings_KitchenSinkString = Obj [
     (''id'', Keyword ''string''),
     (''strictUsername'', Keyword ''string''),
     (''optionalStrictUsername'', Or (Or (Keyword ''string'') (Keyword ''undefined'')) (Keyword ''null'')),
     (''validatedEmail'', Keyword ''string''),
     (''optionalValidatedEmail'', Or (Or (Keyword ''string'') (Keyword ''undefined'')) (Keyword ''null'')),
     (''apiEndpoint'', Keyword ''string''),
     (''optionalCdnUrl'', Or (Or (Keyword ''string'') (Keyword ''undefined'')) (Keyword ''null''))]"

definition bindings_ComplexIdentifiers_2 :: arkdef where
  "bindings_ComplexIdentifiers_2 = Obj [
     (''id'', Keyword ''string''),
     (''uuidField'', Keyword ''string''),
     (''optionalUuid'', Or (Or (Keyword ''string'') (Keyword ''undefined'')) (Keyword ''null'')),
     (''hexId32'', Keyword ''string''),
     (''optionalHexId'', Or (Or (Keyword ''string'') (Keyword ''undefined'')) (Keyword ''null'')),
     (''base64Token'', Keyword ''string''),
     (''optionalBase64Token'', Or (Or (Keyword ''string'') (Keyword ''undefined'')) (Keyword ''null'')),
     (''version'', Keyword ''string''),
     (''optionalVersion'', Or (Or (Keyword ''string'') (Keyword ''undefined'')) (Keyword ''null'')),
     (''sha256Hash'', Keyword ''string''),
     (''optionalHash'', Or (Or (Keyword ''string'') (Keyword ''undefined'')) (Keyword ''null''))]"

definition bindings_MultipleNumberValidators :: arkdef where
  "bindings_MultipleNumberValidators = Obj [
     (''id'', Keyword ''string''),
     (''boundedPositive'', Keyword ''number''),
     (''optionalByte'', Or (Or (Keyword ''number'') (Keyword ''undefined'')) (Keyword ''null'')),
     (''percentage'', Keyword ''number'')]"

definition bindings_BusinessExtremes :: arkdef where
  "bindings_BusinessExtremes = Obj [
     (''id'', Keyword ''string''),
     (''companyName'', Keyword ''string''),
     (''jobTitle'', Keyword ''string''),
     (''optionalParentCompany'', Or (Or (Keyword ''string'') (Keyword ''undefined'')) (Keyword ''null'')),
     (''productName'', Keyword ''string''),
     (''sku'', Keyword ''string''),
     (''optionalVariantName'', Or (Or (Keyword ''string'') (Keyword ''undefined'')) (Keyword ''null'')),
     (''optionalVariantSku'', Or (Or (Keyword ''string'') (Keyword ''undefined'')) (Keyword ''null'')),
     (''price'', Keyword ''number''),
     (''optionalDiscount'', Or (Or (Keyword ''number'') (Keyword ''undefined'')) (Keyword ''null'')),
     (''quantity'', Keyword ''number''),
     (''optionalMinQuantity'', Or (Or (Keyword ''number'') (Keyword ''undefined'')) (Keyword ''null'')),
     (''testCardNumber'', Keyword ''string''),
     (''optionalBackupCard'', Or (Or (Keyword ''string'') (Keyword ''undefined'')) (Keyword ''null''))]"

definition bindings_DeepNestedValidation :: arkdef where
  "bindings_DeepNestedValidation = Obj [
     (''id'', Keyword ''string''),
     (''name'', Keyword ''string''),
     (''primaryAddress'', Keyword ''validatedAddress''),
     (''billingAddress'', Or (Or (Keyword ''validatedAddress'') (Keyword ''undefined'')) (Keyword ''null'')),
     (''shippingAddresses'', ArrayOf (Keyword ''validatedAddress'')),
     (''primaryContact'', Keyword ''validatedContact''),
     (''secondaryContact'', Or (Or (Keyword ''validatedContact'') (Keyword ''undefined'')) (Keyword ''null'')),
     (''additionalContacts'', ArrayOf (Keyword ''validatedContact'')),
     (''totalOrders'', Keyword ''number''),
     (''totalSpent'', Keyword ''number''),
     (''creditLimit'', Or (Or (Keyword ''number'') (Keyword ''undefined'')) (Keyword ''null''))]"

definition bindings_EdgeCasePost :: arkdef where
  "bindings_EdgeCasePost = Obj [
     (''id'', Keyword ''string''),
     (''author'', Or (Keyword ''edgeCaseUser'') (Keyword ''string'')),
     (''title'', Keyword ''string''),
     (''content'', Keyword ''string''),
     (''slug'', Keyword ''string''),
     (''createdAt'', Keyword ''string''),
     (''updatedAt'', Or (Or (Keyword ''string'') (Keyword ''undefined'')) (Keyword ''null'')),
     (''viewCount'', Keyword ''number''),
     (''likeCount'', Keyword ''number''),
     (''isPublished'', Keyword ''boolean''),
     (''featuredImage'', Or (Or (Keyword ''string'') (Keyword ''undefined'')) (Keyword ''null'')),
     (''metaDescription'', Or (Or (Keyword ''string'') (Keyword ''undefined'')) (Keyword ''null''))]"

definition bindings_OptionalIntegerValidation :: arkdef where
  "bindings_OptionalIntegerValidation = Obj [
     (''id'', Keyword ''string''),
     (''optionalPositiveU32'', Or (Or (Keyword ''number'') (Keyword ''undefined'')) (Keyword ''null'')),
     (''optionalNonNegativeI32'', Or (Or (Keyword ''number'') (Keyword ''undefined'')) (Keyword ''null'')),
     (''optionalPositiveU64'', Or (Or (Keyword ''number'') (Keyword ''undefined'')) (Keyword ''null'')),
     (''optionalNegativeI64'', Or (Or (Keyword ''number'') (Keyword ''undefined'')) (Keyword ''null''))]"

definition bindings_EdgeCasePost_2 :: arkdef where
  "bindings_EdgeCasePost_2 = Obj [
     (''id'', Keyword ''string''),
     (''author'', Or (Keyword ''edgeCaseUser'') (Keyword ''string'')),
     (''title'', Keyword ''string''),
     (''content'', Keyword ''string''),
     (''slug'', Keyword ''string''),
     (''createdAt'', Keyword ''string''),
     (''updatedAt'', Or (Or (Keyword ''string'') (Keyword ''undefined'')) (Keyword ''null'')),
     (''viewCount'', Keyword ''number''),
     (''likeCount'', Keyword ''number''),
     (''isPublished'', Keyword ''boolean''),
     (''featuredImage'', Or (Or (Keyword ''string'') (Keyword ''undefined'')) (Keyword ''null'')),
     (''metaDescription'', Or (Or (Keyword ''string'') (Keyword ''undefined'')) (Keyword ''null''))]"

definition bindings_Product :: arkdef where
  "bindings_Product = Obj [
     (''id'', Keyword ''string''),
     (''name'', Keyword ''string''),
     (''description'', Keyword ''string''),
     (''price'', Keyword ''number''),
     (''stockQuantity'', Keyword ''number''),
     (''category'', Keyword ''productCategory''),
     (''imageUrl'', Or (Or (Keyword ''string'') (Keyword ''undefined'')) (Keyword ''null'')),
     (''isAvailable'', Keyword ''boolean''),
     (''createdAt'', Keyword ''string'')]"

definition bindings_ExtremeIntegerValidation :: arkdef where
  "bindings_ExtremeIntegerValidation = Obj [
     (''id'', Keyword ''string''),
     (''constrainedU8'', Keyword ''number''),
     (''optionalConstrainedU8'', Or (Or (Keyword ''number'') (Keyword ''undefined'')) (Keyword ''null'')),
     (''boundedU16'', Keyword ''number''),
     (''optionalBoundedU16'', Or (Or (Keyword ''number'') (Keyword ''undefined'')) (Keyword ''null'')),
     (''percentageU32'', Keyword ''number''),
     (''optionalPercentageU32'', Or (Or (Keyword ''number'') (Keyword ''undefined'')) (Keyword ''null'')),
     (''largeU64'', Keyword ''number''),
     (''optionalLargeU64'', Or (Or (Keyword ''number'') (Keyword ''undefined'')) (Keyword ''null'')),
     (''negativeI8'', Keyword ''number''),
     (''optionalNegativeI8'', Or (Or (Keyword ''number'') (Keyword ''undefined'')) (Keyword ''null'')),
     (''nonPositiveI16'', Keyword ''number''),
     (''optionalNonPositiveI16'', Or (Or (Keyword ''number'') (Keyword ''undefined'')) (Keyword ''null'')),
     (''boundedI32'', Keyword ''number''),
     (''optionalBoundedI32'', Or (Or (Keyword ''number'') (Keyword ''undefined'')) (Keyword ''null'')),
     (''constrainedI64'', Keyword ''number''),
     (''optionalNonNegativeI64'', Or (Or (Keyword ''number'') (Keyword ''undefined'')) (Keyword ''null'')),
     (''boundedUsize'', Keyword ''number''),
     (''optionalBoundedUsize'', Or (Or (Keyword ''number'') (Keyword ''undefined'')) (Keyword ''null'')),
     (''boundedIsize'', Keyword ''number''),
     (''optionalPositiveIsize'', Or (Or (Keyword ''number'') (Keyword ''undefined'')) (Keyword ''null''))]"

definition bindings_User :: arkdef where
  "bindings_User = Obj [
     (''id'', Keyword ''string''),
     (''email'', Keyword ''string''),
     (''username'', Keyword ''string''),
     (''passwordHash'', Keyword ''string''),
     (''roles'', ArrayOf (Keyword ''role'')),
     (''isActive'', Keyword ''boolean''),
     (''createdAt'', Keyword ''string''),
     (''updatedAt'', Keyword ''string'')]"

definition bindings_Tag :: arkdef where
  "bindings_Tag = Obj [
     (''id'', Keyword ''string''),
     (''name'', Keyword ''string''),
     (''slug'', Keyword ''string''),
     (''description'', Or (Or (Keyword ''string'') (Keyword ''undefined'')) (Keyword ''null'')),
     (''postCount'', Keyword ''number'')]"

definition bindings_EdgeCaseUser :: arkdef where
  "bindings_EdgeCaseUser = Obj [
     (''id'', Keyword ''string''),
     (''email'', Keyword ''string''),
     (''username'', Keyword ''string''),
     (''createdAt'', Keyword ''string''),
     (''loginCount'', Keyword ''number''),
     (''rating'', Or (Or (Keyword ''number'') (Keyword ''undefined'')) (Keyword ''null''))]"

definition bindings_ValidatedAddress :: arkdef where
  "bindings_ValidatedAddress = Obj [
     (''street'', Keyword ''string''),
     (''city'', Keyword ''string''),
     (''stateCode'', Keyword ''string''),
     (''postalCode'', Keyword ''string''),
     (''countryCode'', Keyword ''string''),
     (''latitude'', Or (Or (Keyword ''number'') (Keyword ''undefined'')) (Keyword ''null'')),
     (''longitude'', Or (Or (Keyword ''number'') (Keyword ''undefined'')) (Keyword ''null''))]"

definition bindings_PersonalInfoExtremes :: arkdef where
  "bindings_PersonalInfoExtremes = Obj [
     (''id'', Keyword ''string''),
     (''firstName'', Keyword ''string''),
     (''lastName'', Keyword ''string''),
     (''fullName'', Keyword ''string''),
     (''optionalNickname'', Or (Or (Keyword ''string'') (Keyword ''undefined'')) (Keyword ''null'')),
     (''phone'', Keyword ''string''),
     (''optionalMobile'', Or (Or (Keyword ''string'') (Keyword ''undefined'')) (Keyword ''null'')),
     (''email'', Keyword ''string''),
     (''optionalWorkEmail'', Or (Or (Keyword ''string'') (Keyword ''undefined'')) (Keyword ''null'')),
     (''street'', Keyword ''string''),
     (''city'', Keyword ''string''),
     (''state'', Keyword ''string''),
     (''postalCode'', Keyword ''string''),
     (''country'', Keyword ''string''),
     (''optionalStreet'', Or (Or (Keyword ''string'') (Keyword ''undefined'')) (Keyword ''null'')),
     (''optionalCity'', Or (Or (Keyword ''string'') (Keyword ''undefined'')) (Keyword ''null''))]"

definition bindings_DeepNestedValidation_2 :: arkdef where
  "bindings_DeepNestedValidation_2 = Obj [
     (''id'', Keyword ''string''),
     (''name'', Keyword ''string''),
     (''primaryAddress'', Keyword ''validatedAddress''),
     (''billingAddress'', Or (Or (Keyword ''validatedAddress'') (Keyword ''undefined'')) (Keyword ''null'')),
     (''shippingAddresses'', ArrayOf (Keyword ''validatedAddress'')),
     (''primaryContact'', Keyword ''validatedContact''),
     (''secondaryContact'', Or (Or (Keyword ''validatedContact'') (Keyword ''undefined'')) (Keyword ''null'')),
     (''additionalContacts'', ArrayOf (Keyword ''validatedContact'')),
     (''totalOrders'', Keyword ''number''),
     (''totalSpent'', Keyword ''number''),
     (''creditLimit'', Or (Or (Keyword ''number'') (Keyword ''undefined'')) (Keyword ''null''))]"

definition bindings_OptionalIntegerValidation_2 :: arkdef where
  "bindings_OptionalIntegerValidation_2 = Obj [
     (''id'', Keyword ''string''),
     (''optionalPositiveU32'', Or (Or (Keyword ''number'') (Keyword ''undefined'')) (Keyword ''null'')),
     (''optionalNonNegativeI32'', Or (Or (Keyword ''number'') (Keyword ''undefined'')) (Keyword ''null'')),
     (''optionalPositiveU64'', Or (Or (Keyword ''number'') (Keyword ''undefined'')) (Keyword ''null'')),
     (''optionalNegativeI64'', Or (Or (Keyword ''number'') (Keyword ''undefined'')) (Keyword ''null''))]"

definition bindings_Comment :: arkdef where
  "bindings_Comment = Obj [
     (''id'', Keyword ''string''),
     (''post'', Or (Keyword ''post'') (Keyword ''string'')),
     (''author'', Or (Keyword ''author'') (Keyword ''string'')),
     (''content'', Keyword ''string''),
     (''parentCommentId'', Or (Or (Keyword ''string'') (Keyword ''undefined'')) (Keyword ''null'')),
     (''isApproved'', Keyword ''boolean''),
     (''createdAt'', Keyword ''string''),
     (''editedAt'', Or (Or (Keyword ''string'') (Keyword ''undefined'')) (Keyword ''null''))]"

definition bindings_ComplexPayment :: arkdef where
  "bindings_ComplexPayment = Obj [
     (''id'', Keyword ''string''),
     (''user'', Or (Keyword ''edgeCaseUser'') (Keyword ''string'')),
     (''status'', Keyword ''paymentStatus''),
     (''method'', Keyword ''paymentMethod''),
     (''amount'', Keyword ''number''),
     (''currency'', Keyword ''string''),
     (''fee'', Keyword ''number''),
     (''tax'', Keyword ''number''),
     (''total'', Keyword ''number''),
     (''transactionId'', Keyword ''string''),
     (''referenceCode'', Or (Or (Keyword ''string'') (Keyword ''undefined'')) (Keyword ''null'')),
     (''createdAt'', Keyword ''string''),
     (''processedAt'', Or (Or (Keyword ''string'') (Keyword ''undefined'')) (Keyword ''null'')),
     (''completedAt'', Or (Or (Keyword ''string'') (Keyword ''undefined'')) (Keyword ''null'')),
     (''billingAddress'', Keyword ''validatedAddress''),
     (''notes'', Or (Or (Keyword ''string'') (Keyword ''undefined'')) (Keyword ''null'')),
     (''retryCount'', Keyword ''number''),
     (''failureReason'', Or (Or (Keyword ''string'') (Keyword ''undefined'')) (Keyword ''null''))]"

definition bindings_FloatValidation_2 :: arkdef where
  "bindings_FloatValidation_2 = Obj [
     (''id'', Keyword ''string''),
     (''positiveFloat'', Keyword ''number''),
     (''nonNegativeFloat'', Keyword ''number''),
     (''normalized'', Keyword ''number''),
     (''optionalPositiveFloat'', Or (Or (Keyword ''number'') (Keyword ''undefined'')) (Keyword ''null''))]"

definition bindings_Session_2 :: arkdef where
  "bindings_Session_2 = Obj [
     (''id'', Keyword ''string''),
     (''user'', Or (Keyword ''user'') (Keyword ''string'')),
     (''token'', Keyword ''string''),
     (''expiresAt'', Keyword ''string''),
     (''createdAt'', Keyword ''string'')]"

definition bindings_ExtremeIntegerValidation_2 :: arkdef where
  "bindings_ExtremeIntegerValidation_2 = Obj [
     (''id'', Keyword ''string''),
     (''constrainedU8'', Keyword ''number''),
     (''optionalConstrainedU8'', Or (Or (Keyword ''number'') (Keyword ''undefined'')) (Keyword ''null'')),
     (''boundedU16'', Keyword ''number''),
     (''optionalBoundedU16'', Or (Or (Keyword ''number'') (Keyword ''undefined'')) (Keyword ''null'')),
     (''percentageU32'', Keyword ''number''),
     (''optionalPercentageU32'', Or (Or (Keyword ''number'') (Keyword ''undefined'')) (Keyword ''null'')),
     (''largeU64'', Keyword ''number''),
     (''optionalLargeU64'', Or (Or (Keyword ''number'') (Keyword ''undefined'')) (Keyword ''null'')),
     (''negativeI8'', Keyword ''number''),
     (''optionalNegativeI8'', Or (Or (Keyword ''number'') (Keyword ''undefined'')) (Keyword ''null'')),
     (''nonPositiveI16'', Keyword ''number''),
     (''optionalNonPositiveI16'', Or (Or (Keyword ''number'') (Keyword ''undefined'')) (Keyword ''null'')),
     (''boundedI32'', Keyword ''number''),
     (''optionalBoundedI32'', Or (Or (Keyword ''number'') (Keyword ''undefined'')) (Keyword ''null'')),
     (''constrainedI64'', Keyword ''number''),
     (''optionalNonNegativeI64'', Or (Or (Keyword ''number'') (Keyword ''undefined'')) (Keyword ''null'')),
     (''boundedUsize'', Keyword ''number''),
     (''optionalBoundedUsize'', Or (Or (Keyword ''number'') (Keyword ''undefined'')) (Keyword ''null'')),
     (''boundedIsize'', Keyword ''number''),
     (''optionalPositiveIsize'', Or (Or (Keyword ''number'') (Keyword ''undefined'')) (Keyword ''null''))]"

definition bindings_CaseValidation :: arkdef where
  "bindings_CaseValidation = Obj [
     (''id'', Keyword ''string''),
     (''optionalLowercase'', Or (Or (Keyword ''string'') (Keyword ''undefined'')) (Keyword ''null'')),
     (''optionalUppercase'', Or (Or (Keyword ''string'') (Keyword ''undefined'')) (Keyword ''null'')),
     (''optionalCapitalized'', Or (Or (Keyword ''string'') (Keyword ''undefined'')) (Keyword ''null'')),
     (''optionalUncapitalized'', Or (Or (Keyword ''string'') (Keyword ''undefined'')) (Keyword ''null'')),
     (''optionalTrimmed'', Or (Or (Keyword ''string'') (Keyword ''undefined'')) (Keyword ''null''))]"

definition bindings_IntegerBounds :: arkdef where
  "bindings_IntegerBounds = Obj [
     (''id'', Keyword ''string''),
     (''percentage'', Keyword ''number''),
     (''aboveZero'', Keyword ''number''),
     (''underThousand'', Keyword ''number''),
     (''optionalByteValue'', Or (Or (Keyword ''number'') (Keyword ''undefined'')) (Keyword ''null'')),
     (''optionalBounded'', Or (Or (Keyword ''number'') (Keyword ''undefined'')) (Keyword ''null''))]"

definition bindings_MultiValidatorOptionalString :: arkdef where
  "bindings_MultiValidatorOptionalString = Obj [
     (''id'', Keyword ''string''),
     (''username'', Or (Or (Keyword ''string'') (Keyword ''undefined'')) (Keyword ''null'')),
     (''email'', Or (Or (Keyword ''string'') (Keyword ''undefined'')) (Keyword ''null'')),
     (''website'', Or (Or (Keyword ''string'') (Keyword ''undefined'')) (Keyword ''null''))]"

definition bindings_InnerValidated :: arkdef where
  "bindings_InnerValidated = Obj [
     (''name'', Keyword ''string''),
     (''count'', Keyword ''number''),
     (''optionalEmail'', Or (Or (Keyword ''string'') (Keyword ''undefined'')) (Keyword ''null''))]"

definition bindings_Address :: arkdef where
  "bindings_Address = Obj [
     (''street'', Keyword ''string''),
     (''city'', Keyword ''string''),
     (''state'', Keyword ''string''),
     (''postalCode'', Keyword ''string''),
     (''country'', Keyword ''string'')]"

definition bindings_EdgeCaseComment :: arkdef where
  "bindings_EdgeCaseComment = Obj [
     (''id'', Keyword ''string''),
     (''post'', Or (Keyword ''edgeCasePost'') (Keyword ''string'')),
     (''author'', Or (Keyword ''edgeCaseUser'') (Keyword ''string'')),
     (''content'', Keyword ''string''),
     (''createdAt'', Keyword ''string''),
     (''editedAt'', Or (Or (Keyword ''string'') (Keyword ''undefined'')) (Keyword ''null'')),
     (''likeCount'', Keyword ''number''),
     (''parentCommentId'', Or (Or (Keyword ''string'') (Keyword ''undefined'')) (Keyword ''null'')),
     (''isApproved'', Keyword ''boolean''),
     (''authorIp'', Or (Or (Keyword ''string'') (Keyword ''undefined'')) (Keyword ''null''))]"

definition bindings_ExtremeFloatValidation :: arkdef where
  "bindings_ExtremeFloatValidation = Obj [
     (''id'', Keyword ''string''),
     (''multiConstrainedF32'', Keyword ''number''),
     (''optionalF32'', Or (Or (Keyword ''number'') (Keyword ''undefined'')) (Keyword ''null'')),
     (''normalizedF64'', Keyword ''number''),
     (''optionalNormalizedF64'', Or (Or (Keyword ''number'') (Keyword ''undefined'')) (Keyword ''null'')),
     (''negativeF64'', Keyword ''number''),
     (''optionalNegativeF64'', Or (Or (Keyword ''number'') (Keyword ''undefined'')) (Keyword ''null'')),
     (''currencyAmount'', Keyword ''number''),
     (''optionalCurrency'', Or (Or (Keyword ''number'') (Keyword ''undefined'')) (Keyword ''null'')),
     (''percentage'', Keyword ''number''),
     (''optionalPercentage'', Or (Or (Keyword ''number'') (Keyword ''undefined'')) (Keyword ''null'')),
     (''latitude'', Keyword ''number''),
     (''longitude'', Keyword ''number''),
     (''optionalLatitude'', Or (Or (Keyword ''number'') (Keyword ''undefined'')) (Keyword ''null'')),
     (''optionalLongitude'', Or (Or (Keyword ''number'') (Keyword ''undefined'')) (Keyword ''null''))]"

definition bindings_BusinessExtremes_2 :: arkdef where
  "bindings_BusinessExtremes_2 = Obj [
     (''id'', Keyword ''string''),
     (''companyName'', Keyword ''string''),
     (''jobTitle'', Keyword ''string''),
     (''optionalParentCompany'', Or (Or (Keyword ''string'') (Keyword ''undefined'')) (Keyword ''null'')),
     (''productName'', Keyword ''string''),
     (''sku'', Keyword ''string''),
     (''optionalVariantName'', Or (Or (Keyword ''string'') (Keyword ''undefined'')) (Keyword ''null'')),
     (''optionalVariantSku'', Or (Or (Keyword ''string'') (Keyword ''undefined'')) (Keyword ''null'')),
     (''price'', Keyword ''number''),
     (''optionalDiscount'', Or (Or (Keyword ''number'') (Keyword ''undefined'')) (Keyword ''null'')),
     (''quantity'', Keyword ''number''),
     (''optionalMinQuantity'', Or (Or (Keyword ''number'') (Keyword ''undefined'')) (Keyword ''null'')),
     (''testCardNumber'', Keyword ''string''),
     (''optionalBackupCard'', Or (Or (Keyword ''string'') (Keyword ''undefined'')) (Keyword ''null''))]"

definition bindings_Post_2 :: arkdef where
  "bindings_Post_2 = Obj [
     (''id'', Keyword ''string''),
     (''title'', Keyword ''string''),
     (''slug'', Keyword ''string''),
     (''content'', Keyword ''string''),
     (''excerpt'', Or (Or (Keyword ''string'') (Keyword ''undefined'')) (Keyword ''null'')),
     (''author'', Or (Keyword ''author'') (Keyword ''string'')),
     (''tags'', ArrayOf (Or (Keyword ''tag'') (Keyword ''string''))),
     (''featuredImage'', Or (Or (Keyword ''string'') (Keyword ''undefined'')) (Keyword ''null'')),
     (''published'', Keyword ''boolean''),
     (''publishedAt'', Or (Or (Keyword ''string'') (Keyword ''undefined'')) (Keyword ''null'')),
     (''viewCount'', Keyword ''number''),
     (''createdAt'', Keyword ''string''),
     (''updatedAt'', Keyword ''string'')]"

definition bindings_Customer_2 :: arkdef where
  "bindings_Customer_2 = Obj [
     (''id'', Keyword ''string''),
     (''user'', Or (Keyword ''user'') (Keyword ''string'')),
     (''shippingAddress'', Or (Or (Keyword ''address'') (Keyword ''undefined'')) (Keyword ''null'')),
     (''billingAddress'', Or (Or (Keyword ''address'') (Keyword ''undefined'')) (Keyword ''null'')),
     (''phone'', Or (Or (Keyword ''string'') (Keyword ''undefined'')) (Keyword ''null'')),
     (''createdAt'', Keyword ''string'')]"

definition bindings_MaxValidatorStacking_2 :: arkdef where
  "bindings_MaxValidatorStacking_2 = Obj [
     (''id'', Keyword ''string''),
     (''megaValidatedString'', Keyword ''string''),
     (''optionalMegaValidated'', Or (Or (Keyword ''string'') (Keyword ''undefined'')) (Keyword ''null'')),
     (''megaValidatedNumber'', Keyword ''number''),
     (''megaValidatedU32'', Keyword ''number''),
     (''optionalMegaU32'', Or (Or (Keyword ''number'') (Keyword ''undefined'')) (Keyword ''null'')),
     (''megaValidatedI64'', Keyword ''number''),
     (''optionalMegaI64'', Or (Or (Keyword ''number'') (Keyword ''undefined'')) (Keyword ''null''))]"

definition bindings_User_2 :: arkdef where
  "bindings_User_2 = Obj [
     (''id'', Keyword ''string''),
     (''email'', Keyword ''string''),
     (''username'', Keyword ''string''),
     (''passwordHash'', Keyword ''string''),
     (''roles'', ArrayOf (Keyword ''role'')),
     (''isActive'', Keyword ''boolean''),
     (''createdAt'', Keyword ''string''),
     (''updatedAt'', Keyword ''string'')]"

definition bindings_Product_2 :: arkdef where
  "bindings_Product_2 = Obj [
     (''id'', Keyword ''string''),
     (''name'', Keyword ''string''),
     (''description'', Keyword ''string''),
     (''price'', Keyword ''number''),
     (''stockQuantity'', Keyword ''number''),
     (''category'', Keyword ''productCategory''),
     (''imageUrl'', Or (Or (Keyword ''string'') (Keyword ''undefined'')) (Keyword ''null'')),
     (''isAvailable'', Keyword ''boolean''),
     (''createdAt'', Keyword ''string'')]"

definition bindings_Author :: arkdef where
  "bindings_Author = Obj [
     (''id'', Keyword ''string''),
     (''user'', Or (Keyword ''user'') (Keyword ''string'')),
     (''bio'', Or (Or (Keyword ''string'') (Keyword ''undefined'')) (Keyword ''null'')),
     (''avatarUrl'', Or (Or (Keyword ''string'') (Keyword ''undefined'')) (Keyword ''null'')),
     (''twitterHandle'', Or (Or (Keyword ''string'') (Keyword ''undefined'')) (Keyword ''null'')),
     (''githubHandle'', Or (Or (Keyword ''string'') (Keyword ''undefined'')) (Keyword ''null'')),
     (''createdAt'', Keyword ''string'')]"

definition bindings_Order_2 :: arkdef where
  "bindings_Order_2 = Obj [
     (''id'', Keyword ''string''),
     (''customer'', Or (Keyword ''customer'') (Keyword ''string'')),
     (''items'', ArrayOf (Keyword ''cartItem'')),
     (''subtotal'', Keyword ''number''),
     (''tax'', Keyword ''number''),
     (''shippingCost'', Keyword ''number''),
     (''total'', Keyword ''number''),
     (''status'', Keyword ''orderStatus''),
     (''shippingAddress'', Keyword ''address''),
     (''notes'', Or (Or (Keyword ''string'') (Keyword ''undefined'')) (Keyword ''null'')),
     (''createdAt'', Keyword ''string''),
     (''shippedAt'', Or (Or (Keyword ''string'') (Keyword ''undefined'')) (Keyword ''null'')),
     (''deliveredAt'', Or (Or (Keyword ''string'') (Keyword ''undefined'')) (Keyword ''null''))]"

definition bindings_Tag_2 :: arkdef where
  "bindings_Tag_2 = Obj [
     (''id'', Keyword ''string''),
     (''name'', Keyword ''string''),
     (''slug'', Keyword ''string''),
     (''description'', Or (Or (Keyword ''string'') (Keyword ''undefined'')) (Keyword ''null'')),
     (''postCount'', Keyword ''number'')]"

definition bindings_Comment_2 :: arkdef where
  "bindings_Comment_2 = Obj [
     (''id'', Keyword ''string''),
     (''post'', Or (Keyword ''post'') (Keyword ''string'')),
     (''author'', Or (Keyword ''author'') (Keyword ''string'')),
     (''content'', Keyword ''string''),
     (''parentCommentId'', Or (Or (Keyword ''string'') (Keyword ''undefined'')) (Keyword ''null'')),
     (''isApproved'', Keyword ''boolean''),
     (''createdAt'', Keyword ''string''),
     (''editedAt'', Or (Or (Keyword ''string'') (Keyword ''undefined'')) (Keyword ''null''))]"

definition bindings_CaseValidation_2 :: arkdef where
  "bindings_CaseValidation_2 = Obj [
     (''id'', Keyword ''string''),
     (''optionalLowercase'', Or (Or (Keyword ''string'') (Keyword ''undefined'')) (Keyword ''null'')),
     (''optionalUppercase'', Or (Or (Keyword ''string'') (Keyword ''undefined'')) (Keyword ''null'')),
     (''optionalCapitalized'', Or (Or (Keyword ''string'') (Keyword ''undefined'')) (Keyword ''null'')),
     (''optionalUncapitalized'', Or (Or (Keyword ''string'') (Keyword ''undefined'')) (Keyword ''null'')),
     (''optionalTrimmed'', Or (Or (Keyword ''string'') (Keyword ''undefined'')) (Keyword ''null''))]"

definition bindings_ValidatedContact :: arkdef where
  "bindings_ValidatedContact = Obj [
     (''name'', Keyword ''string''),
     (''email'', Keyword ''string''),
     (''phone'', Or (Or (Keyword ''string'') (Keyword ''undefined'')) (Keyword ''null'')),
     (''title'', Or (Or (Keyword ''string'') (Keyword ''undefined'')) (Keyword ''null''))]"

definition bindings_NonEmptyOptionString_2 :: arkdef where
  "bindings_NonEmptyOptionString_2 = Obj [
     (''id'', Keyword ''string''),
     (''optionalNonEmpty'', Or (Or (Keyword ''string'') (Keyword ''undefined'')) (Keyword ''null'')),
     (''optionalMinThree'', Or (Or (Keyword ''string'') (Keyword ''undefined'')) (Keyword ''null''))]"

definition bindings_MultiValidatorOptionalString_2 :: arkdef where
  "bindings_MultiValidatorOptionalString_2 = Obj [
     (''id'', Keyword ''string''),
     (''username'', Or (Or (Keyword ''string'') (Keyword ''undefined'')) (Keyword ''null'')),
     (''email'', Or (Or (Keyword ''string'') (Keyword ''undefined'')) (Keyword ''null'')),
     (''website'', Or (Or (Keyword ''string'') (Keyword ''undefined'')) (Keyword ''null''))]"

definition bindings_Author_2 :: arkdef where
  "bindings_Author_2 = Obj [
     (''id'', Keyword ''string''),
     (''user'', Or (Keyword ''user'') (Keyword ''string'')),
     (''bio'', Or (Or (Keyword ''string'') (Keyword ''undefined'')) (Keyword ''null'')),
     (''avatarUrl'', Or (Or (Keyword ''string'') (Keyword ''undefined'')) (Keyword ''null'')),
     (''twitterHandle'', Or (Or (Keyword ''string'') (Keyword ''undefined'')) (Keyword ''null'')),
     (''githubHandle'', Or (Or (Keyword ''string'') (Keyword ''undefined'')) (Keyword ''null'')),
     (''createdAt'', Keyword ''string'')]"

definition bindings_ComplexPayment_2 :: arkdef where
  "bindings_ComplexPayment_2 = Obj [
     (''id'', Keyword ''string''),
     (''user'', Or (Keyword ''edgeCaseUser'') (Keyword ''string'')),
     (''status'', Keyword ''paymentStatus''),
     (''method'', Keyword ''paymentMethod''),
     (''amount'', Keyword ''number''),
     (''currency'', Keyword ''string''),
     (''fee'', Keyword ''number''),
     (''tax'', Keyword ''number''),
     (''total'', Keyword ''number''),
     (''transactionId'', Keyword ''string''),
     (''referenceCode'', Or (Or (Keyword ''string'') (Keyword ''undefined'')) (Keyword ''null'')),
     (''createdAt'', Keyword ''string''),
     (''processedAt'', Or (Or (Keyword ''string'') (Keyword ''undefined'')) (Keyword ''null'')),
     (''completedAt'', Or (Or (Keyword ''string'') (Keyword ''undefined'')) (Keyword ''null'')),
     (''billingAddress'', Keyword ''validatedAddress''),
     (''notes'', Or (Or (Keyword ''string'') (Keyword ''undefined'')) (Keyword ''null'')),
     (''retryCount'', Keyword ''number''),
     (''failureReason'', Or (Or (Keyword ''string'') (Keyword ''undefined'')) (Keyword ''null''))]"

definition bindings_AllIntegerTypes :: arkdef where
  "bindings_AllIntegerTypes = Obj [
     (''id'', Keyword ''string''),
     (''positiveU8'', Keyword ''number''),
     (''positiveU16'', Keyword ''number''),
     (''positiveU32'', Keyword ''number''),
     (''positiveU64'', Keyword ''number''),
     (''nonNegativeUsize'', Keyword ''number''),
     (''positiveI8'', Keyword ''number''),
     (''positiveI16'', Keyword ''number''),
     (''positiveI32'', Keyword ''number''),
     (''positiveI64'', Keyword ''number''),
     (''nonNegativeIsize'', Keyword ''number'')]"

definition bindings_DateTimeExtremes_2 :: arkdef where
  "bindings_DateTimeExtremes_2 = Obj [
     (''id'', Keyword ''string''),
     (''createdAt'', Keyword ''string''),
     (''optionalUpdatedAt'', Or (Or (Keyword ''string'') (Keyword ''undefined'')) (Keyword ''null'')),
     (''birthDate'', Keyword ''string''),
     (''optionalExpiryDate'', Or (Or (Keyword ''string'') (Keyword ''undefined'')) (Keyword ''null'')),
     (''startTime'', Keyword ''string''),
     (''optionalEndTime'', Or (Or (Keyword ''string'') (Keyword ''undefined'')) (Keyword ''null'')),
     (''appointment'', Keyword ''string''),
     (''optionalFollowup'', Or (Or (Keyword ''string'') (Keyword ''undefined'')) (Keyword ''null'')),
     (''duration'', Keyword ''string''),
     (''optionalDuration'', Or (Or (Keyword ''string'') (Keyword ''undefined'')) (Keyword ''null'')),
     (''timezone'', Keyword ''string''),
     (''optionalTimezone'', Or (Or (Keyword ''string'') (Keyword ''undefined'')) (Keyword ''null'')),
     (''deadline'', Keyword ''string''),
     (''optionalTargetDate'', Or (Or (Keyword ''string'') (Keyword ''undefined'')) (Keyword ''null''))]"

definition bindings_PersonalInfoExtremes_2 :: arkdef where
  "bindings_PersonalInfoExtremes_2 = Obj [
     (''id'', Keyword ''string''),
     (''firstName'', Keyword ''string''),
     (''lastName'', Keyword ''string''),
     (''fullName'', Keyword ''string''),
     (''optionalNickname'', Or (Or (Keyword ''string'') (Keyword ''undefined'')) (Keyword ''null'')),
     (''phone'', Keyword ''string''),
     (''optionalMobile'', Or (Or (Keyword ''string'') (Keyword ''undefined'')) (Keyword ''null'')),
     (''email'', Keyword ''string''),
     (''optionalWorkEmail'', Or (Or (Keyword ''string'') (Keyword ''undefined'')) (Keyword ''null'')),
     (''street'', Keyword ''string''),
     (''city'', Keyword ''string''),
     (''state'', Keyword ''string''),
     (''postalCode'', Keyword ''string''),
     (''country'', Keyword ''string''),
     (''optionalStreet'', Or (Or (Keyword ''string'') (Keyword ''undefined'')) (Keyword ''null'')),
     (''optionalCity'', Or (Or (Keyword ''string'') (Keyword ''undefined'')) (Keyword ''null''))]"

definition bindings_ExtremeFloatValidation_2 :: arkdef where
  "bindings_ExtremeFloatValidation_2 = Obj [
     (''id'', Keyword ''string''),
     (''multiConstrainedF32'', Keyword ''number''),
     (''optionalF32'', Or (Or (Keyword ''number'') (Keyword ''undefined'')) (Keyword ''null'')),
     (''normalizedF64'', Keyword ''number''),
     (''optionalNormalizedF64'', Or (Or (Keyword ''number'') (Keyword ''undefined'')) (Keyword ''null'')),
     (''negativeF64'', Keyword ''number''),
     (''optionalNegativeF64'', Or (Or (Keyword ''number'') (Keyword ''undefined'')) (Keyword ''null'')),
     (''currencyAmount'', Keyword ''number''),
     (''optionalCurrency'', Or (Or (Keyword ''number'') (Keyword ''undefined'')) (Keyword ''null'')),
     (''percentage'', Keyword ''number''),
     (''optionalPercentage'', Or (Or (Keyword ''number'') (Keyword ''undefined'')) (Keyword ''null'')),
     (''latitude'', Keyword ''number''),
     (''longitude'', Keyword ''number''),
     (''optionalLatitude'', Or (Or (Keyword ''number'') (Keyword ''undefined'')) (Keyword ''null'')),
     (''optionalLongitude'', Or (Or (Keyword ''number'') (Keyword ''undefined'')) (Keyword ''null''))]"

definition bindings_ComplexStringValidation_2 :: arkdef where
  "bindings_ComplexStringValidation_2 = Obj [
     (''id'', Keyword ''string''),
     (''optionalUuid'', Or (Or (Keyword ''string'') (Keyword ''undefined'')) (Keyword ''null'')),
     (''optionalIp'', Or (Or (Keyword ''string'') (Keyword ''undefined'')) (Keyword ''null'')),
     (''optionalIpv4'', Or (Or (Keyword ''string'') (Keyword ''undefined'')) (Keyword ''null'')),
     (''optionalDigits'', Or (Or (Keyword ''string'') (Keyword ''undefined'')) (Keyword ''null'')),
     (''optionalHex'', Or (Or (Keyword ''string'') (Keyword ''undefined'')) (Keyword ''null'')),
     (''optionalAlpha'', Or (Or (Keyword ''string'') (Keyword ''undefined'')) (Keyword ''null'')),
     (''optionalAlphanumeric'', Or (Or (Keyword ''string'') (Keyword ''undefined'')) (Keyword ''null'')),
     (''optionalDomain'', Or (Or (Keyword ''string'') (Keyword ''undefined'')) (Keyword ''null'')),
     (''optionalWithAt'', Or (Or (Keyword ''string'') (Keyword ''undefined'')) (Keyword ''null''))]"

definition bindings_OuterWithNestedValidator :: arkdef where
  "bindings_OuterWithNestedValidator = Obj [
     (''id'', Keyword ''string''),
     (''inner'', Keyword ''innerValidated''),
     (''optionalInner'', Or (Or (Keyword ''innerValidated'') (Keyword ''undefined'')) (Keyword ''null'')),
     (''innerList'', ArrayOf (Keyword ''innerValidated''))]"

definition bindings_EdgeCaseUser_2 :: arkdef where
  "bindings_EdgeCaseUser_2 = Obj [
     (''id'', Keyword ''string''),
     (''email'', Keyword ''string''),
     (''username'', Keyword ''string''),
     (''createdAt'', Keyword ''string''),
     (''loginCount'', Keyword ''number''),
     (''rating'', Or (Or (Keyword ''number'') (Keyword ''undefined'')) (Keyword ''null''))]"

definition bindings_KitchenSinkString_2 :: arkdef where
  "bindings_KitchenSinkString_2 = Obj [
     (''id'', Keyword ''string''),
     (''strictUsername'', Keyword ''string''),
     (''optionalStrictUsername'', Or (Or (Keyword ''string'') (Keyword ''undefined'')) (Keyword ''null'')),
     (''validatedEmail'', Keyword ''string''),
     (''optionalValidatedEmail'', Or (Or (Keyword ''string'') (Keyword ''undefined'')) (Keyword ''null'')),
     (''apiEndpoint'', Keyword ''string''),
     (''optionalCdnUrl'', Or (Or (Keyword ''string'') (Keyword ''undefined'')) (Keyword ''null''))]"

definition bindings_ArrayValidationExtremes_2 :: arkdef where
  "bindings_ArrayValidationExtremes_2 = Obj [
     (''id'', Keyword ''string''),
     (''tags'', ArrayOf (Keyword ''string'')),
     (''validatedEmails'', ArrayOf (Keyword ''string'')),
     (''optionalTags'', Or (Or (ArrayOf (Keyword ''string'')) (Keyword ''undefined'')) (Keyword ''null'')),
     (''scores'', ArrayOf (Keyword ''number'')),
     (''optionalScores'', Or (Or (ArrayOf (Keyword ''number'')) (Keyword ''undefined'')) (Keyword ''null'')),
     (''measurements'', ArrayOf (Keyword ''number'')),
     (''addresses'', ArrayOf (Keyword ''validatedAddress'')),
     (''backupAddresses'', Or (Or (ArrayOf (Keyword ''validatedAddress'')) (Keyword ''undefined'')) (Keyword ''null''))]"

definition bindings_IntegerBounds_2 :: arkdef where
  "bindings_IntegerBounds_2 = Obj [
     (''id'', Keyword ''string''),
     (''percentage'', Keyword ''number''),
     (''aboveZero'', Keyword ''number''),
     (''underThousand'', Keyword ''number''),
     (''optionalByteValue'', Or (Or (Keyword ''number'') (Keyword ''undefined'')) (Keyword ''null'')),
     (''optionalBounded'', Or (Or (Keyword ''number'') (Keyword ''undefined'')) (Keyword ''null''))]"

definition bindings_OuterWithNestedValidator_2 :: arkdef where
  "bindings_OuterWithNestedValidator_2 = Obj [
     (''id'', Keyword ''string''),
     (''inner'', Keyword ''innerValidated''),
     (''optionalInner'', Or (Or (Keyword ''innerValidated'') (Keyword ''undefined'')) (Keyword ''null'')),
     (''innerList'', ArrayOf (Keyword ''innerValidated''))]"

definition bindings_EdgeCaseComment_2 :: arkdef where
  "bindings_EdgeCaseComment_2 = Obj [
     (''id'', Keyword ''string''),
     (''post'', Or (Keyword ''edgeCasePost'') (Keyword ''string'')),
     (''author'', Or (Keyword ''edgeCaseUser'') (Keyword ''string'')),
     (''content'', Keyword ''string''),
     (''createdAt'', Keyword ''string''),
     (''editedAt'', Or (Or (Keyword ''string'') (Keyword ''undefined'')) (Keyword ''null'')),
     (''likeCount'', Keyword ''number''),
     (''parentCommentId'', Or (Or (Keyword ''string'') (Keyword ''undefined'')) (Keyword ''null'')),
     (''isApproved'', Keyword ''boolean''),
     (''authorIp'', Or (Or (Keyword ''string'') (Keyword ''undefined'')) (Keyword ''null''))]"

definition bindings_MultipleNumberValidators_2 :: arkdef where
  "bindings_MultipleNumberValidators_2 = Obj [
     (''id'', Keyword ''string''),
     (''boundedPositive'', Keyword ''number''),
     (''optionalByte'', Or (Or (Keyword ''number'') (Keyword ''undefined'')) (Keyword ''null'')),
     (''percentage'', Keyword ''number'')]"

definition bindings_AllIntegerTypes_2 :: arkdef where
  "bindings_AllIntegerTypes_2 = Obj [
     (''id'', Keyword ''string''),
     (''positiveU8'', Keyword ''number''),
     (''positiveU16'', Keyword ''number''),
     (''positiveU32'', Keyword ''number''),
     (''positiveU64'', Keyword ''number''),
     (''nonNegativeUsize'', Keyword ''number''),
     (''positiveI8'', Keyword ''number''),
     (''positiveI16'', Keyword ''number''),
     (''positiveI32'', Keyword ''number''),
     (''positiveI64'', Keyword ''number''),
     (''nonNegativeIsize'', Keyword ''number'')]"

definition bindings_CartItem :: arkdef where
  "bindings_CartItem = Obj [
     (''productId'', Keyword ''string''),
     (''productName'', Keyword ''string''),
     (''quantity'', Keyword ''number''),
     (''unitPrice'', Keyword ''number'')]"

definition bindings :: "(string \<times> arkdef) list" where
  "bindings = [
     (''Role'', bindings_Role),
     (''PaymentMethod'', bindings_PaymentMethod),
     (''ProductCategory'', bindings_ProductCategory),
     (''OrderStatus'', bindings_OrderStatus),
     (''PaymentStatus'', bindings_PaymentStatus),
     (''MaxValidatorStacking'', bindings_MaxValidatorStacking),
     (''Customer'', bindings_Customer),
     (''Order'', bindings_Order),
     (''ArrayValidationExtremes'', bindings_ArrayValidationExtremes),
     (''DateTimeExtremes'', bindings_DateTimeExtremes),
     (''NetworkTypes'', bindings_NetworkTypes),
     (''NetworkTypes'', bindings_NetworkTypes_2),
     (''Session'', bindings_Session),
     (''ComplexStringValidation'', bindings_ComplexStringValidation),
     (''FloatValidation'', bindings_FloatValidation),
     (''NonEmptyOptionString'', bindings_NonEmptyOptionString),
     (''ComplexIdentifiers'', bindings_ComplexIdentifiers),
     (''Post'', bindings_Post),
     (''KitchenSinkString'', bindings_KitchenSinkString),
     (''ComplexIdentifiers'', bindings_ComplexIdentifiers_2),
     (''MultipleNumberValidators'', bindings_MultipleNumberValidators),
     (''BusinessExtremes'', bindings_BusinessExtremes),
     (''DeepNestedValidation'', bindings_DeepNestedValidation),
     (''EdgeCasePost'', bindings_EdgeCasePost),
     (''OptionalIntegerValidation'', bindings_OptionalIntegerValidation),
     (''EdgeCasePost'', bindings_EdgeCasePost_2),
     (''Product'', bindings_Product),
     (''ExtremeIntegerValidation'', bindings_ExtremeIntegerValidation),
     (''User'', bindings_User),
     (''Tag'', bindings_Tag),
     (''EdgeCaseUser'', bindings_EdgeCaseUser),
     (''ValidatedAddress'', bindings_ValidatedAddress),
     (''PersonalInfoExtremes'', bindings_PersonalInfoExtremes),
     (''DeepNestedValidation'', bindings_DeepNestedValidation_2),
     (''OptionalIntegerValidation'', bindings_OptionalIntegerValidation_2),
     (''Comment'', bindings_Comment),
     (''ComplexPayment'', bindings_ComplexPayment),
     (''FloatValidation'', bindings_FloatValidation_2),
     (''Session'', bindings_Session_2),
     (''ExtremeIntegerValidation'', bindings_ExtremeIntegerValidation_2),
     (''CaseValidation'', bindings_CaseValidation),
     (''IntegerBounds'', bindings_IntegerBounds),
     (''MultiValidatorOptionalString'', bindings_MultiValidatorOptionalString),
     (''InnerValidated'', bindings_InnerValidated),
     (''Address'', bindings_Address),
     (''EdgeCaseComment'', bindings_EdgeCaseComment),
     (''ExtremeFloatValidation'', bindings_ExtremeFloatValidation),
     (''BusinessExtremes'', bindings_BusinessExtremes_2),
     (''Post'', bindings_Post_2),
     (''Customer'', bindings_Customer_2),
     (''MaxValidatorStacking'', bindings_MaxValidatorStacking_2),
     (''User'', bindings_User_2),
     (''Product'', bindings_Product_2),
     (''Author'', bindings_Author),
     (''Order'', bindings_Order_2),
     (''Tag'', bindings_Tag_2),
     (''Comment'', bindings_Comment_2),
     (''CaseValidation'', bindings_CaseValidation_2),
     (''ValidatedContact'', bindings_ValidatedContact),
     (''NonEmptyOptionString'', bindings_NonEmptyOptionString_2),
     (''MultiValidatorOptionalString'', bindings_MultiValidatorOptionalString_2),
     (''Author'', bindings_Author_2),
     (''ComplexPayment'', bindings_ComplexPayment_2),
     (''AllIntegerTypes'', bindings_AllIntegerTypes),
     (''DateTimeExtremes'', bindings_DateTimeExtremes_2),
     (''PersonalInfoExtremes'', bindings_PersonalInfoExtremes_2),
     (''ExtremeFloatValidation'', bindings_ExtremeFloatValidation_2),
     (''ComplexStringValidation'', bindings_ComplexStringValidation_2),
     (''OuterWithNestedValidator'', bindings_OuterWithNestedValidator),
     (''EdgeCaseUser'', bindings_EdgeCaseUser_2),
     (''KitchenSinkString'', bindings_KitchenSinkString_2),
     (''ArrayValidationExtremes'', bindings_ArrayValidationExtremes_2),
     (''IntegerBounds'', bindings_IntegerBounds_2),
     (''OuterWithNestedValidator'', bindings_OuterWithNestedValidator_2),
     (''EdgeCaseComment'', bindings_EdgeCaseComment_2),
     (''MultipleNumberValidators'', bindings_MultipleNumberValidators_2),
     (''AllIntegerTypes'', bindings_AllIntegerTypes_2),
     (''CartItem'', bindings_CartItem)]"


text \<open>
  \<open>validator\<close> re-exports the scope: \<open>validator n name v\<close> checks \<open>v\<close> against the entry
  called \<open>name\<close>.
\<close>

definition validator :: "nat \<Rightarrow> string \<Rightarrow> jsval \<Rightarrow> ark_error + bool" where
  "validator n name v =
     (case lookup_last bindings name of
        None \<Rightarrow> Inl (Unresolvable name)
      | Some d \<Rightarrow> allows n bindings d v)"

subsection \<open>The default instances\<close>

text \<open>
  The \<open>default...\<close> constants in source order.  A constant the file declares twice has
  its second declaration under the name with suffix \<open>_2\<close>.  Where the source opens a
  string literal that its line never closes (\<open>status: '"Delivered",\<close>), the value is
  the text after the opening quote up to the end of the line.
\<close>

definition defaultMaxValidatorStacking :: jsval where
  "defaultMaxValidatorStacking = JObj [
     (''id'', JStr ''''),
     (''megaValidatedString'', JStr ''''),
     (''optionalMegaValidated'', JNull),
     (''megaValidatedNumber'', JNum 0),
     (''megaValidatedU32'', JNum 0),
     (''optionalMegaU32'', JNull),
     (''megaValidatedI64'', JNum 0),
     (''optionalMegaI64'', JNull)]"

definition defaultCustomer :: jsval where
  "defaultCustomer = JObj [
     (''id'', JStr ''''),
     (''user'', JStr ''''),
     (''shippingAddress'', JNull),
     (''billingAddress'', JNull),
     (''phone'', JNull),
     (''createdAt'', JStr '''')]"

definition defaultOrder :: jsval where
  "defaultOrder = JObj [
     (''id'', JStr ''''),
     (''customer'', JStr ''''),
     (''items'', JArr []),
     (''subtotal'', JNum 0),
     (''tax'', JNum 0),
     (''shippingCost'', JNum 0),
     (''total'', JNum 0),
     (''status'', JStr ''\"Delivered\",''),
     (''shippingAddress'', JObj [(''street'', JStr ''''), (''city'', JStr ''''), (''state'', JStr ''''), (''postalCode'', JStr ''''), (''country'', JStr '''')]),
     (''notes'', JNull),
     (''createdAt'', JStr ''''),
     (''shippedAt'', JNull),
     (''deliveredAt'', JNull)]"

definition defaultArrayValidationExtremes :: jsval where
  "defaultArrayValidationExtremes = JObj [
     (''id'', JStr ''''),
     (''tags'', JArr []),
     (''validatedEmails'', JArr []),
     (''optionalTags'', JNull),
     (''scores'', JArr []),
     (''optionalScores'', JNull),
     (''measurements'', JArr []),
     (''addresses'', JArr []),
     (''backupAddresses'', JNull)]"

definition defaultDateTimeExtremes :: jsval where
  "defaultDateTimeExtremes = JObj [
     (''id'', JStr ''''),
     (''createdAt'', JStr ''''),
     (''optionalUpdatedAt'', JNull),
     (''birthDate'', JStr ''''),
     (''optionalExpiryDate'', JNull),
     (''startTime'', JStr ''''),
     (''optionalEndTime'', JNull),
     (''appointment'', JStr ''''),
     (''optionalFollowup'', JNull),
     (''duration'', JStr ''''),
     (''optionalDuration'', JNull),
     (''timezone'', JStr ''''),
     (''optionalTimezone'', JNull),
     (''deadline'', JStr ''''),
     (''optionalTargetDate'', JNull)]"

definition defaultNetworkTypes :: jsval where
  "defaultNetworkTypes = JObj [
     (''id'', JStr ''''),
     (''ipAddress'', JStr ''''),
     (''optionalIp'', JNull),
     (''macAddress'', JStr ''''),
     (''optionalMac'', JNull),
     (''internalApiUrl'', JStr ''''),
     (''optionalStorageUrl'', JNull),
     (''userAgent'', JStr ''''),
     (''optionalUserAgent'', JNull)]"

definition defaultNetworkTypes_2 :: jsval where
  "defaultNetworkTypes_2 = JObj [
     (''id'', JStr ''''),
     (''ipAddress'', JStr ''''),
     (''optionalIp'', JNull),
     (''macAddress'', JStr ''''),
     (''optionalMac'', JNull),
     (''internalApiUrl'', JStr ''''),
     (''optionalStorageUrl'', JNull),
     (''userAgent'', JStr ''''),
     (''optionalUserAgent'', JNull)]"

definition defaultSession :: jsval where
  "defaultSession = JObj [
     (''id'', JStr ''''),
     (''user'', JStr ''''),
     (''token'', JStr ''''),
     (''expiresAt'', JStr ''''),
     (''createdAt'', JStr '''')]"

definition defaultComplexStringValidation :: jsval where
  "defaultComplexStringValidation = JObj [
     (''id'', JStr ''''),
     (''optionalUuid'', JNull),
     (''optionalIp'', JNull),
     (''optionalIpv4'', JNull),
     (''optionalDigits'', JNull),
     (''optionalHex'', JNull),
     (''optionalAlpha'', JNull),
     (''optionalAlphanumeric'', JNull),
     (''optionalDomain'', JNull),
     (''optionalWithAt'', JNull)]"

definition defaultFloatValidation :: jsval where
  "defaultFloatValidation = JObj [
     (''id'', JStr ''''),
     (''positiveFloat'', JNum 0),
     (''nonNegativeFloat'', JNum 0),
     (''normalized'', JNum 0),
     (''optionalPositiveFloat'', JNull)]"

definition defaultNonEmptyOptionString :: jsval where
  "defaultNonEmptyOptionString = JObj [
     (''id'', JStr ''''),
     (''optionalNonEmpty'', JNull),
     (''optionalMinThree'', JNull)]"

definition defaultComplexIdentifiers :: jsval where
  "defaultComplexIdentifiers = JObj [
     (''id'', JStr ''''),
     (''uuidField'', JStr ''''),
     (''optionalUuid'', JNull),
     (''hexId32'', JStr ''''),
     (''optionalHexId'', JNull),
     (''base64Token'', JStr ''''),
     (''optionalBase64Token'', JNull),
     (''version'', JStr ''''),
     (''optionalVersion'', JNull),
     (''sha256Hash'', JStr ''''),
     (''optionalHash'', JNull)]"

definition defaultPost :: jsval where
  "defaultPost = JObj [
     (''id'', JStr ''''),
     (''title'', JStr ''''),
     (''slug'', JStr ''''),
     (''content'', JStr ''''),
     (''excerpt'', JNull),
     (''author'', JStr ''''),
     (''tags'', JArr []),
     (''featuredImage'', JNull),
     (''published'', JBool False),
     (''publishedAt'', JNull),
     (''viewCount'', JNum 0),
     (''createdAt'', JStr ''''),
     (''updatedAt'', JStr '''')]"

definition defaultKitchenSinkString :: jsval where
  "defaultKitchenSinkString = JObj [
     (''id'', JStr ''''),
     (''strictUsername'', JStr ''''),
     (''optionalStrictUsername'', JNull),
     (''validatedEmail'', JStr ''''),
     (''optionalValidatedEmail'', JNull),
     (''apiEndpoint'', JStr ''''),
     (''optionalCdnUrl'', JNull)]"

definition defaultComplexIdentifiers_2 :: jsval where
  "defaultComplexIdentifiers_2 = JObj [
     (''id'', JStr ''''),
     (''uuidField'', JStr ''''),
     (''optionalUuid'', JNull),
     (''hexId32'', JStr ''''),
     (''optionalHexId'', JNull),
     (''base64Token'', JStr ''''),
     (''optionalBase64Token'', JNull),
     (''version'', JStr ''''),
     (''optionalVersion'', JNull),
     (''sha256Hash'', JStr ''''),
     (''optionalHash'', JNull)]"

definition defaultMultipleNumberValidators :: jsval where
  "defaultMultipleNumberValidators = JObj [
     (''id'', JStr ''''),
     (''boundedPositive'', JNum 0),
     (''optionalByte'', JNull),
     (''percentage'', JNum 0)]"

definition defaultBusinessExtremes :: jsval where
  "defaultBusinessExtremes = JObj [
     (''id'', JStr ''''),
     (''companyName'', JStr ''''),
     (''jobTitle'', JStr ''''),
     (''optionalParentCompany'', JNull),
     (''productName'', JStr ''''),
     (''sku'', JStr ''''),
     (''optionalVariantName'', JNull),
     (''optionalVariantSku'', JNull),
     (''price'', JNum 0),
     (''optionalDiscount'', JNull),
     (''quantity'', JNum 0),
     (''optionalMinQuantity'', JNull),
     (''testCardNumber'', JStr ''''),
     (''optionalBackupCard'', JNull)]"

definition defaultDeepNestedValidation :: jsval where
  "defaultDeepNestedValidation = JObj [
     (''id'', JStr ''''),
     (''name'', JStr ''''),
     (''primaryAddress'', JObj [(''street'', JStr ''''), (''city'', JStr ''''), (''stateCode'', JStr ''''), (''postalCode'', JStr ''''), (''countryCode'', JStr ''''), (''latitude'', JNull), (''longitude'', JNull)]),
     (''billingAddress'', JNull),
     (''shippingAddresses'', JArr []),
     (''primaryContact'', JObj [(''name'', JStr ''''), (''email'', JStr ''''), (''phone'', JNull), (''title'', JNull)]),
     (''secondaryContact'', JNull),
     (''additionalContacts'', JArr []),
     (''totalOrders'', JNum 0),
     (''totalSpent'', JNum 0),
     (''creditLimit'', JNull)]"

definition defaultEdgeCasePost :: jsval where
  "defaultEdgeCasePost = JObj [
     (''id'', JStr ''''),
     (''author'', JStr ''''),
     (''title'', JStr ''''),
     (''content'', JStr ''''),
     (''slug'', JStr ''''),
     (''createdAt'', JStr ''''),
     (''updatedAt'', JNull),
     (''viewCount'', JNum 0),
     (''likeCount'', JNum 0),
     (''isPublished'', JBool False),
     (''featuredImage'', JNull),
     (''metaDescription'', JNull)]"

definition defaultOptionalIntegerValidation :: jsval where
  "defaultOptionalIntegerValidation = JObj [
     (''id'', JStr ''''),
     (''optionalPositiveU32'', JNull),
     (''optionalNonNegativeI32'', JNull),
     (''optionalPositiveU64'', JNull),
     (''optionalNegativeI64'', JNull)]"

definition defaultEdgeCasePost_2 :: jsval where
  "defaultEdgeCasePost_2 = JObj [
     (''id'', JStr ''''),
     (''author'', JStr ''''),
     (''title'', JStr ''''),
     (''content'', JStr ''''),
     (''slug'', JStr ''''),
     (''createdAt'', JStr ''''),
     (''updatedAt'', JNull),
     (''viewCount'', JNum 0),
     (''likeCount'', JNum 0),
     (''isPublished'', JBool False),
     (''featuredImage'', JNull),
     (''metaDescription'', JNull)]"

definition defaultProduct :: jsval where
  "defaultProduct = JObj [
     (''id'', JStr ''''),
     (''name'', JStr ''''),
     (''description'', JStr ''''),
     (''price'', JNum 0),
     (''stockQuantity'', JNum 0),
     (''category'', JStr ''\"Sports\",''),
     (''imageUrl'', JNull),
     (''isAvailable'', JBool False),
     (''createdAt'', JStr '''')]"

definition defaultExtremeIntegerValidation :: jsval where
  "defaultExtremeIntegerValidation = JObj [
     (''id'', JStr ''''),
     (''constrainedU8'', JNum 0),
     (''optionalConstrainedU8'', JNull),
     (''boundedU16'', JNum 0),
     (''optionalBoundedU16'', JNull),
     (''percentageU32'', JNum 0),
     (''optionalPercentageU32'', JNull),
     (''largeU64'', JNum 0),
     (''optionalLargeU64'', JNull),
     (''negativeI8'', JNum 0),
     (''optionalNegativeI8'', JNull),
     (''nonPositiveI16'', JNum 0),
     (''optionalNonPositiveI16'', JNull),
     (''boundedI32'', JNum 0),
     (''optionalBoundedI32'', JNull),
     (''constrainedI64'', JNum 0),
     (''optionalNonNegativeI64'', JNull),
     (''boundedUsize'', JNum 0),
     (''optionalBoundedUsize'', JNull),
     (''boundedIsize'', JNum 0),
     (''optionalPositiveIsize'', JNull)]"

definition defaultUser :: jsval where
  "defaultUser = JObj [
     (''id'', JStr ''''),
     (''email'', JStr ''''),
     (''username'', JStr ''''),
     (''passwordHash'', JStr ''''),
     (''roles'', JArr []),
     (''isActive'', JBool False),
     (''createdAt'', JStr ''''),
     (''updatedAt'', JStr '''')]"

definition defaultTag :: jsval where
  "defaultTag = JObj [
     (''id'', JStr ''''),
     (''name'', JStr ''''),
     (''slug'', JStr ''''),
     (''description'', JNull),
     (''postCount'', JNum 0)]"

definition defaultEdgeCaseUser :: jsval where
  "defaultEdgeCaseUser = JObj [
     (''id'', JStr ''''),
     (''email'', JStr ''''),
     (''username'', JStr ''''),
     (''createdAt'', JStr ''''),
     (''loginCount'', JNum 0),
     (''rating'', JNull)]"

definition defaultValidatedAddress :: jsval where
  "defaultValidatedAddress = JObj [
     (''street'', JStr ''''),
     (''city'', JStr ''''),
     (''stateCode'', JStr ''''),
     (''postalCode'', JStr ''''),
     (''countryCode'', JStr ''''),
     (''latitude'', JNull),
     (''longitude'', JNull)]"

definition defaultPersonalInfoExtremes :: jsval where
  "defaultPersonalInfoExtremes = JObj [
     (''id'', JStr ''''),
     (''firstName'', JStr ''''),
     (''lastName'', JStr ''''),
     (''fullName'', JStr ''''),
     (''optionalNickname'', JNull),
     (''phone'', JStr ''''),
     (''optionalMobile'', JNull),
     (''email'', JStr ''''),
     (''optionalWorkEmail'', JNull),
     (''street'', JStr ''''),
     (''city'', JStr ''''),
     (''state'', JStr ''''),
     (''postalCode'', JStr ''''),
     (''country'', JStr ''''),
     (''optionalStreet'', JNull),
     (''optionalCity'', JNull)]"

definition defaultDeepNestedValidation_2 :: jsval where
  "defaultDeepNestedValidation_2 = JObj [
     (''id'', JStr ''''),
     (''name'', JStr ''''),
     (''primaryAddress'', JObj [(''street'', JStr ''''), (''city'', JStr ''''), (''stateCode'', JStr ''''), (''postalCode'', JStr ''''), (''countryCode'', JStr ''''), (''latitude'', JNull), (''longitude'', JNull)]),
     (''billingAddress'', JNull),
     (''shippingAddresses'', JArr []),
     (''primaryContact'', JObj [(''name'', JStr ''''), (''email'', JStr ''''), (''phone'', JNull), (''title'', JNull)]),
     (''secondaryContact'', JNull),
     (''additionalContacts'', JArr []),
     (''totalOrders'', JNum 0),
     (''totalSpent'', JNum 0),
     (''creditLimit'', JNull)]"

definition defaultOptionalIntegerValidation_2 :: jsval where
  "defaultOptionalIntegerValidation_2 = JObj [
     (''id'', JStr ''''),
     (''optionalPositiveU32'', JNull),
     (''optionalNonNegativeI32'', JNull),
     (''optionalPositiveU64'', JNull),
     (''optionalNegativeI64'', JNull)]"

definition defaultComment :: jsval where
  "defaultComment = JObj [
     (''id'', JStr ''''),
     (''post'', JStr ''''),
     (''author'', JStr ''''),
     (''content'', JStr ''''),
     (''parentCommentId'', JNull),
     (''isApproved'', JBool False),
     (''createdAt'', JStr ''''),
     (''editedAt'', JNull)]"

definition defaultComplexPayment :: jsval where
  "defaultComplexPayment = JObj [
     (''id'', JStr ''''),
     (''user'', JStr ''''),
     (''status'', JStr ''\"Refunded\",''),
     (''method'', JStr ''\"DebitCard\",''),
     (''amount'', JNum 0),
     (''currency'', JStr ''''),
     (''fee'', JNum 0),
     (''tax'', JNum 0),
     (''total'', JNum 0),
     (''transactionId'', JStr ''''),
     (''referenceCode'', JNull),
     (''createdAt'', JStr ''''),
     (''processedAt'', JNull),
     (''completedAt'', JNull),
     (''billingAddress'', JObj [(''street'', JStr ''''), (''city'', JStr ''''), (''stateCode'', JStr ''''), (''postalCode'', JStr ''''), (''countryCode'', JStr ''''), (''latitude'', JNull), (''longitude'', JNull)]),
     (''notes'', JNull),
     (''retryCount'', JNum 0),
     (''failureReason'', JNull)]"

definition defaultFloatValidation_2 :: jsval where
  "defaultFloatValidation_2 = JObj [
     (''id'', JStr ''''),
     (''positiveFloat'', JNum 0),
     (''nonNegativeFloat'', JNum 0),
     (''normalized'', JNum 0),
     (''optionalPositiveFloat'', JNull)]"

definition defaultSession_2 :: jsval where
  "defaultSession_2 = JObj [
     (''id'', JStr ''''),
     (''user'', JStr ''''),
     (''token'', JStr ''''),
     (''expiresAt'', JStr ''''),
     (''createdAt'', JStr '''')]"

definition defaultExtremeIntegerValidation_2 :: jsval where
  "defaultExtremeIntegerValidation_2 = JObj [
     (''id'', JStr ''''),
     (''constrainedU8'', JNum 0),
     (''optionalConstrainedU8'', JNull),
     (''boundedU16'', JNum 0),
     (''optionalBoundedU16'', JNull),
     (''percentageU32'', JNum 0),
     (''optionalPercentageU32'', JNull),
     (''largeU64'', JNum 0),
     (''optionalLargeU64'', JNull),
     (''negativeI8'', JNum 0),
     (''optionalNegativeI8'', JNull),
     (''nonPositiveI16'', JNum 0),
     (''optionalNonPositiveI16'', JNull),
     (''boundedI32'', JNum 0),
     (''optionalBoundedI32'', JNull),
     (''constrainedI64'', JNum 0),
     (''optionalNonNegativeI64'', JNull),
     (''boundedUsize'', JNum 0),
     (''optionalBoundedUsize'', JNull),
     (''boundedIsize'', JNum 0),
     (''optionalPositiveIsize'', JNull)]"

definition defaultCaseValidation :: jsval where
  "defaultCaseValidation = JObj [
     (''id'', JStr ''''),
     (''optionalLowercase'', JNull),
     (''optionalUppercase'', JNull),
     (''optionalCapitalized'', JNull),
     (''optionalUncapitalized'', JNull),
     (''optionalTrimmed'', JNull)]"

definition defaultIntegerBounds :: jsval where
  "defaultIntegerBounds = JObj [
     (''id'', JStr ''''),
     (''percentage'', JNum 0),
     (''aboveZero'', JNum 0),
     (''underThousand'', JNum 0),
     (''optionalByteValue'', JNull),
     (''optionalBounded'', JNull)]"

definition defaultMultiValidatorOptionalString :: jsval where
  "defaultMultiValidatorOptionalString = JObj [
     (''id'', JStr ''''),
     (''username'', JNull),
     (''email'', JNull),
     (''website'', JNull)]"

definition defaultInnerValidated :: jsval where
  "defaultInnerValidated = JObj [
     (''name'', JStr ''''),
     (''count'', JNum 0),
     (''optionalEmail'', JNull)]"

definition defaultAddress :: jsval where
  "defaultAddress = JObj [
     (''street'', JStr ''''),
     (''city'', JStr ''''),
     (''state'', JStr ''''),
     (''postalCode'', JStr ''''),
     (''country'', JStr '''')]"

definition defaultEdgeCaseComment :: jsval where
  "defaultEdgeCaseComment = JObj [
     (''id'', JStr ''''),
     (''post'', JStr ''''),
     (''author'', JStr ''''),
     (''content'', JStr ''''),
     (''createdAt'', JStr ''''),
     (''editedAt'', JNull),
     (''likeCount'', JNum 0),
     (''parentCommentId'', JNull),
     (''isApproved'', JBool False),
     (''authorIp'', JNull)]"

definition defaultExtremeFloatValidation :: jsval where
  "defaultExtremeFloatValidation = JObj [
     (''id'', JStr ''''),
     (''multiConstrainedF32'', JNum 0),
     (''optionalF32'', JNull),
     (''normalizedF64'', JNum 0),
     (''optionalNormalizedF64'', JNull),
     (''negativeF64'', JNum 0),
     (''optionalNegativeF64'', JNull),
     (''currencyAmount'', JNum 0),
     (''optionalCurrency'', JNull),
     (''percentage'', JNum 0),
     (''optionalPercentage'', JNull),
     (''latitude'', JNum 0),
     (''longitude'', JNum 0),
     (''optionalLatitude'', JNull),
     (''optionalLongitude'', JNull)]"

definition defaultBusinessExtremes_2 :: jsval where
  "defaultBusinessExtremes_2 = JObj [
     (''id'', JStr ''''),
     (''companyName'', JStr ''''),
     (''jobTitle'', JStr ''''),
     (''optionalParentCompany'', JNull),
     (''productName'', JStr ''''),
     (''sku'', JStr ''''),
     (''optionalVariantName'', JNull),
     (''optionalVariantSku'', JNull),
     (''price'', JNum 0),
     (''optionalDiscount'', JNull),
     (''quantity'', JNum 0),
     (''optionalMinQuantity'', JNull),
     (''testCardNumber'', JStr ''''),
     (''optionalBackupCard'', JNull)]"

definition defaultPost_2 :: jsval where
  "defaultPost_2 = JObj [
     (''id'', JStr ''''),
     (''title'', JStr ''''),
     (''slug'', JStr ''''),
     (''content'', JStr ''''),
     (''excerpt'', JNull),
     (''author'', JStr ''''),
     (''tags'', JArr []),
     (''featuredImage'', JNull),
     (''published'', JBool False),
     (''publishedAt'', JNull),
     (''viewCount'', JNum 0),
     (''createdAt'', JStr ''''),
     (''updatedAt'', JStr '''')]"

definition defaultCustomer_2 :: jsval where
  "defaultCustomer_2 = JObj [
     (''id'', JStr ''''),
     (''user'', JStr ''''),
     (''shippingAddress'', JNull),
     (''billingAddress'', JNull),
     (''phone'', JNull),
     (''createdAt'', JStr '''')]"

definition defaultMaxValidatorStacking_2 :: jsval where
  "defaultMaxValidatorStacking_2 = JObj [
     (''id'', JStr ''''),
     (''megaValidatedString'', JStr ''''),
     (''optionalMegaValidated'', JNull),
     (''megaValidatedNumber'', JNum 0),
     (''megaValidatedU32'', JNum 0),
     (''optionalMegaU32'', JNull),
     (''megaValidatedI64'', JNum 0),
     (''optionalMegaI64'', JNull)]"

definition defaultUser_2 :: jsval where
  "defaultUser_2 = JObj [
     (''id'', JStr ''''),
     (''email'', JStr ''''),
     (''username'', JStr ''''),
     (''passwordHash'', JStr ''''),
     (''roles'', JArr []),
     (''isActive'', JBool False),
     (''createdAt'', JStr ''''),
     (''updatedAt'', JStr '''')]"

definition defaultProduct_2 :: jsval where
  "defaultProduct_2 = JObj [
     (''id'', JStr ''''),
     (''name'', JStr ''''),
     (''description'', JStr ''''),
     (''price'', JNum 0),
     (''stockQuantity'', JNum 0),
     (''category'', JStr ''\"Electronics\",''),
     (''imageUrl'', JNull),
     (''isAvailable'', JBool False),
     (''createdAt'', JStr '''')]"

definition defaultAuthor :: jsval where
  "defaultAuthor = JObj [
     (''id'', JStr ''''),
     (''user'', JStr ''''),
     (''bio'', JNull),
     (''avatarUrl'', JNull),
     (''twitterHandle'', JNull),
     (''githubHandle'', JNull),
     (''createdAt'', JStr '''')]"

definition defaultOrder_2 :: jsval where
  "defaultOrder_2 = JObj [
     (''id'', JStr ''''),
     (''customer'', JStr ''''),
     (''items'', JArr []),
     (''subtotal'', JNum 0),
     (''tax'', JNum 0),
     (''shippingCost'', JNum 0),
     (''total'', JNum 0),
     (''status'', JStr ''\"Shipped\",''),
     (''shippingAddress'', JObj [(''street'', JStr ''''), (''city'', JStr ''''), (''state'', JStr ''''), (''postalCode'', JStr ''''), (''country'', JStr '''')]),
     (''notes'', JNull),
     (''createdAt'', JStr ''''),
     (''shippedAt'', JNull),
     (''deliveredAt'', JNull)]"

definition defaultTag_2 :: jsval where
  "defaultTag_2 = JObj [
     (''id'', JStr ''''),
     (''name'', JStr ''''),
     (''slug'', JStr ''''),
     (''description'', JNull),
     (''postCount'', JNum 0)]"

definition defaultComment_2 :: jsval where
  "defaultComment_2 = JObj [
     (''id'', JStr ''''),
     (''post'', JStr ''''),
     (''author'', JStr ''''),
     (''content'', JStr ''''),
     (''parentCommentId'', JNull),
     (''isApproved'', JBool False),
     (''createdAt'', JStr ''''),
     (''editedAt'', JNull)]"

definition defaultCaseValidation_2 :: jsval where
  "defaultCaseValidation_2 = JObj [
     (''id'', JStr ''''),
     (''optionalLowercase'', JNull),
     (''optionalUppercase'', JNull),
     (''optionalCapitalized'', JNull),
     (''optionalUncapitalized'', JNull),
     (''optionalTrimmed'', JNull)]"

definition defaultValidatedContact :: jsval where
  "defaultValidatedContact = JObj [
     (''name'', JStr ''''),
     (''email'', JStr ''''),
     (''phone'', JNull),
     (''title'', JNull)]"

definition defaultNonEmptyOptionString_2 :: jsval where
  "defaultNonEmptyOptionString_2 = JObj [
     (''id'', JStr ''''),
     (''optionalNonEmpty'', JNull),
     (''optionalMinThree'', JNull)]"

definition defaultMultiValidatorOptionalString_2 :: jsval where
  "defaultMultiValidatorOptionalString_2 = JObj [
     (''id'', JStr ''''),
     (''username'', JNull),
     (''email'', JNull),
     (''website'', JNull)]"

definition defaultAuthor_2 :: jsval where
  "defaultAuthor_2 = JObj [
     (''id'', JStr ''''),
     (''user'', JStr ''''),
     (''bio'', JNull),
     (''avatarUrl'', JNull),
     (''twitterHandle'', JNull),
     (''githubHandle'', JNull),
     (''createdAt'', JStr '''')]"

definition defaultComplexPayment_2 :: jsval where
  "defaultComplexPayment_2 = JObj [
     (''id'', JStr ''''),
     (''user'', JStr ''''),
     (''status'', JStr ''\"Cancelled\",''),
     (''method'', JStr ''\"Cash\",''),
     (''amount'', JNum 0),
     (''currency'', JStr ''''),
     (''fee'', JNum 0),
     (''tax'', JNum 0),
     (''total'', JNum 0),
     (''transactionId'', JStr ''''),
     (''referenceCode'', JNull),
     (''createdAt'', JStr ''''),
     (''processedAt'', JNull),
     (''completedAt'', JNull),
     (''billingAddress'', JObj [(''street'', JStr ''''), (''city'', JStr ''''), (''stateCode'', JStr ''''), (''postalCode'', JStr ''''), (''countryCode'', JStr ''''), (''latitude'', JNull), (''longitude'', JNull)]),
     (''notes'', JNull),
     (''retryCount'', JNum 0),
     (''failureReason'', JNull)]"

definition defaultAllIntegerTypes :: jsval where
  "defaultAllIntegerTypes = JObj [
     (''id'', JStr ''''),
     (''positiveU8'', JNum 0),
     (''positiveU16'', JNum 0),
     (''positiveU32'', JNum 0),
     (''positiveU64'', JNum 0),
     (''nonNegativeUsize'', JNum 0),
     (''positiveI8'', JNum 0),
     (''positiveI16'', JNum 0),
     (''positiveI32'', JNum 0),
     (''positiveI64'', JNum 0),
     (''nonNegativeIsize'', JNum 0)]"

definition defaultDateTimeExtremes_2 :: jsval where
  "defaultDateTimeExtremes_2 = JObj [
     (''id'', JStr ''''),
     (''createdAt'', JStr ''''),
     (''optionalUpdatedAt'', JNull),
     (''birthDate'', JStr ''''),
     (''optionalExpiryDate'', JNull),
     (''startTime'', JStr ''''),
     (''optionalEndTime'', JNull),
     (''appointment'', JStr ''''),
     (''optionalFollowup'', JNull),
     (''duration'', JStr ''''),
     (''optionalDuration'', JNull),
     (''timezone'', JStr ''''),
     (''optionalTimezone'', JNull),
     (''deadline'', JStr ''''),
     (''optionalTargetDate'', JNull)]"

definition defaultPersonalInfoExtremes_2 :: jsval where
  "defaultPersonalInfoExtremes_2 = JObj [
     (''id'', JStr ''''),
     (''firstName'', JStr ''''),
     (''lastName'', JStr ''''),
     (''fullName'', JStr ''''),
     (''optionalNickname'', JNull),
     (''phone'', JStr ''''),
     (''optionalMobile'', JNull),
     (''email'', JStr ''''),
     (''optionalWorkEmail'', JNull),
     (''street'', JStr ''''),
     (''city'', JStr ''''),
     (''state'', JStr ''''),
     (''postalCode'', JStr ''''),
     (''country'', JStr ''''),
     (''optionalStreet'', JNull),
     (''optionalCity'', JNull)]"

definition defaultExtremeFloatValidation_2 :: jsval where
  "defaultExtremeFloatValidation_2 = JObj [
     (''id'', JStr ''''),
     (''multiConstrainedF32'', JNum 0),
     (''optionalF32'', JNull),
     (''normalizedF64'', JNum 0),
     (''optionalNormalizedF64'', JNull),
     (''negativeF64'', JNum 0),
     (''optionalNegativeF64'', JNull),
     (''currencyAmount'', JNum 0),
     (''optionalCurrency'', JNull),
     (''percentage'', JNum 0),
     (''optionalPercentage'', JNull),
     (''latitude'', JNum 0),
     (''longitude'', JNum 0),
     (''optionalLatitude'', JNull),
     (''optionalLongitude'', JNull)]"

definition defaultComplexStringValidation_2 :: jsval where
  "defaultComplexStringValidation_2 = JObj [
     (''id'', JStr ''''),
     (''optionalUuid'', JNull),
     (''optionalIp'', JNull),
     (''optionalIpv4'', JNull),
     (''optionalDigits'', JNull),
     (''optionalHex'', JNull),
     (''optionalAlpha'', JNull),
     (''optionalAlphanumeric'', JNull),
     (''optionalDomain'', JNull),
     (''optionalWithAt'', JNull)]"

definition defaultOuterWithNestedValidator :: jsval where
  "defaultOuterWithNestedValidator = JObj [
     (''id'', JStr ''''),
     (''inner'', JObj [(''name'', JStr ''''), (''count'', JNum 0), (''optionalEmail'', JNull)]),
     (''optionalInner'', JNull),
     (''innerList'', JArr [])]"

definition defaultEdgeCaseUser_2 :: jsval where
  "defaultEdgeCaseUser_2 = JObj [
     (''id'', JStr ''''),
     (''email'', JStr ''''),
     (''username'', JStr ''''),
     (''createdAt'', JStr ''''),
     (''loginCount'', JNum 0),
     (''rating'', JNull)]"

definition defaultKitchenSinkString_2 :: jsval where
  "defaultKitchenSinkString_2 = JObj [
     (''id'', JStr ''''),
     (''strictUsername'', JStr ''''),
     (''optionalStrictUsername'', JNull),
     (''validatedEmail'', JStr ''''),
     (''optionalValidatedEmail'', JNull),
     (''apiEndpoint'', JStr ''''),
     (''optionalCdnUrl'', JNull)]"

definition defaultArrayValidationExtremes_2 :: jsval where
  "defaultArrayValidationExtremes_2 = JObj [
     (''id'', JStr ''''),
     (''tags'', JArr []),
     (''validatedEmails'', JArr []),
     (''optionalTags'', JNull),
     (''scores'', JArr []),
     (''optionalScores'', JNull),
     (''measurements'', JArr []),
     (''addresses'', JArr []),
     (''backupAddresses'', JNull)]"

definition defaultIntegerBounds_2 :: jsval where
  "defaultIntegerBounds_2 = JObj [
     (''id'', JStr ''''),
     (''percentage'', JNum 0),
     (''aboveZero'', JNum 0),
     (''underThousand'', JNum 0),
     (''optionalByteValue'', JNull),
     (''optionalBounded'', JNull)]"

definition defaultOuterWithNestedValidator_2 :: jsval where
  "defaultOuterWithNestedValidator_2 = JObj [
     (''id'', JStr ''''),
     (''inner'', JObj [(''name'', JStr ''''), (''count'', JNum 0), (''optionalEmail'', JNull)]),
     (''optionalInner'', JNull),
     (''innerList'', JArr [])]"

definition defaultEdgeCaseComment_2 :: jsval where
  "defaultEdgeCaseComment_2 = JObj [
     (''id'', JStr ''''),
     (''post'', JStr ''''),
     (''author'', JStr ''''),
     (''content'', JStr ''''),
     (''createdAt'', JStr ''''),
     (''editedAt'', JNull),
     (''likeCount'', JNum 0),
     (''parentCommentId'', JNull),
     (''isApproved'', JBool False),
     (''authorIp'', JNull)]"

definition defaultMultipleNumberValidators_2 :: jsval where
  "defaultMultipleNumberValidators_2 = JObj [
     (''id'', JStr ''''),
     (''boundedPositive'', JNum 0),
     (''optionalByte'', JNull),
     (''percentage'', JNum 0)]"

definition defaultAllIntegerTypes_2 :: jsval where
  "defaultAllIntegerTypes_2 = JObj [
     (''id'', JStr ''''),
     (''positiveU8'', JNum 0),
     (''positiveU16'', JNum 0),
     (''positiveU32'', JNum 0),
     (''positiveU64'', JNum 0),
     (''nonNegativeUsize'', JNum 0),
     (''positiveI8'', JNum 0),
     (''positiveI16'', JNum 0),
     (''positiveI32'', JNum 0),
     (''positiveI64'', JNum 0),
     (''nonNegativeIsize'', JNum 0)]"

definition defaultCartItem :: jsval where
  "defaultCartItem = JObj [
     (''productId'', JStr ''''),
     (''productName'', JStr ''''),
     (''quantity'', JNum 0),
     (''unitPrice'', JNum 0)]"

definition defaults :: "(string \<times> string \<times> jsval) list" where
  "defaults = [
     (''defaultMaxValidatorStacking'', ''MaxValidatorStacking'', defaultMaxValidatorStacking),
     (''defaultCustomer'', ''Customer'', defaultCustomer),
     (''defaultOrder'', ''Order'', defaultOrder),
     (''defaultArrayValidationExtremes'', ''ArrayValidationExtremes'', defaultArrayValidationExtremes),
     (''defaultDateTimeExtremes'', ''DateTimeExtremes'', defaultDateTimeExtremes),
     (''defaultNetworkTypes'', ''NetworkTypes'', defaultNetworkTypes),
     (''defaultNetworkTypes'', ''NetworkTypes'', defaultNetworkTypes_2),
     (''defaultSession'', ''Session'', defaultSession),
     (''defaultComplexStringValidation'', ''ComplexStringValidation'', defaultComplexStringValidation),
     (''defaultFloatValidation'', ''FloatValidation'', defaultFloatValidation),
     (''defaultNonEmptyOptionString'', ''NonEmptyOptionString'', defaultNonEmptyOptionString),
     (''defaultComplexIdentifiers'', ''ComplexIdentifiers'', defaultComplexIdentifiers),
     (''defaultPost'', ''Post'', defaultPost),
     (''defaultKitchenSinkString'', ''KitchenSinkString'', defaultKitchenSinkString),
     (''defaultComplexIdentifiers'', ''ComplexIdentifiers'', defaultComplexIdentifiers_2),
     (''defaultMultipleNumberValidators'', ''MultipleNumberValidators'', defaultMultipleNumberValidators),
     (''defaultBusinessExtremes'', ''BusinessExtremes'', defaultBusinessExtremes),
     (''defaultDeepNestedValidation'', ''DeepNestedValidation'', defaultDeepNestedValidation),
     (''defaultEdgeCasePost'', ''EdgeCasePost'', defaultEdgeCasePost),
     (''defaultOptionalIntegerValidation'', ''OptionalIntegerValidation'', defaultOptionalIntegerValidation),
     (''defaultEdgeCasePost'', ''EdgeCasePost'', defaultEdgeCasePost_2),
     (''defaultProduct'', ''Product'', defaultProduct),
     (''defaultExtremeIntegerValidation'', ''ExtremeIntegerValidation'', defaultExtremeIntegerValidation),
     (''defaultUser'', ''User'', defaultUser),
     (''defaultTag'', ''Tag'', defaultTag),
     (''defaultEdgeCaseUser'', ''EdgeCaseUser'', defaultEdgeCaseUser),
     (''defaultValidatedAddress'', ''ValidatedAddress'', defaultValidatedAddress),
     (''defaultPersonalInfoExtremes'', ''PersonalInfoExtremes'', defaultPersonalInfoExtremes),
     (''defaultDeepNestedValidation'', ''DeepNestedValidation'', defaultDeepNestedValidation_2),
     (''defaultOptionalIntegerValidation'', ''OptionalIntegerValidation'', defaultOptionalIntegerValidation_2),
     (''defaultComment'', ''Comment'', defaultComment),
     (''defaultComplexPayment'', ''ComplexPayment'', defaultComplexPayment),
     (''defaultFloatValidation'', ''FloatValidation'', defaultFloatValidation_2),
     (''defaultSession'', ''Session'', defaultSession_2),
     (''defaultExtremeIntegerValidation'', ''ExtremeIntegerValidation'', defaultExtremeIntegerValidation_2),
     (''defaultCaseValidation'', ''CaseValidation'', defaultCaseValidation),
     (''defaultIntegerBounds'', ''IntegerBounds'', defaultIntegerBounds),
     (''defaultMultiValidatorOptionalString'', ''MultiValidatorOptionalString'', defaultMultiValidatorOptionalString),
     (''defaultInnerValidated'', ''InnerValidated'', defaultInnerValidated),
     (''defaultAddress'', ''Address'', defaultAddress),
     (''defaultEdgeCaseComment'', ''EdgeCaseComment'', defaultEdgeCaseComment),
     (''defaultExtremeFloatValidation'', ''ExtremeFloatValidation'', defaultExtremeFloatValidation),
     (''defaultBusinessExtremes'', ''BusinessExtremes'', defaultBusinessExtremes_2),
     (''defaultPost'', ''Post'', defaultPost_2),
     (''defaultCustomer'', ''Customer'', defaultCustomer_2),
     (''defaultMaxValidatorStacking'', ''MaxValidatorStacking'', defaultMaxValidatorStacking_2),
     (''defaultUser'', ''User'', defaultUser_2),
     (''defaultProduct'', ''Product'', defaultProduct_2),
     (''defaultAuthor'', ''Author'', defaultAuthor),
     (''defaultOrder'', ''Order'', defaultOrder_2),
     (''defaultTag'', ''Tag'', defaultTag_2),
     (''defaultComment'', ''Comment'', defaultComment_2),
     (''defaultCaseValidation'', ''CaseValidation'', defaultCaseValidation_2),
     (''defaultValidatedContact'', ''ValidatedContact'', defaultValidatedContact),
     (''defaultNonEmptyOptionString'', ''NonEmptyOptionString'', defaultNonEmptyOptionString_2),
     (''defaultMultiValidatorOptionalString'', ''MultiValidatorOptionalString'', defaultMultiValidatorOptionalString_2),
     (''defaultAuthor'', ''Author'', defaultAuthor_2),
     (''defaultComplexPayment'', ''ComplexPayment'', defaultComplexPayment_2),
     (''defaultAllIntegerTypes'', ''AllIntegerTypes'', defaultAllIntegerTypes),
     (''defaultDateTimeExtremes'', ''DateTimeExtremes'', defaultDateTimeExtremes_2),
     (''defaultPersonalInfoExtremes'', ''PersonalInfoExtremes'', defaultPersonalInfoExtremes_2),
     (''defaultExtremeFloatValidation'', ''ExtremeFloatValidation'', defaultExtremeFloatValidation_2),
     (''defaultComplexStringValidation'', ''ComplexStringValidation'', defaultComplexStringValidation_2),
     (''defaultOuterWithNestedValidator'', ''OuterWithNestedValidator'', defaultOuterWithNestedValidator),
     (''defaultEdgeCaseUser'', ''EdgeCaseUser'', defaultEdgeCaseUser_2),
     (''defaultKitchenSinkString'', ''KitchenSinkString'', defaultKitchenSinkString_2),
     (''defaultArrayValidationExtremes'', ''ArrayValidationExtremes'', defaultArrayValidationExtremes_2),
     (''defaultIntegerBounds'', ''IntegerBounds'', defaultIntegerBounds_2),
     (''defaultOuterWithNestedValidator'', ''OuterWithNestedValidator'', defaultOuterWithNestedValidator_2),
     (''defaultEdgeCaseComment'', ''EdgeCaseComment'', defaultEdgeCaseComment_2),
     (''defaultMultipleNumberValidators'', ''MultipleNumberValidators'', defaultMultipleNumberValidators_2),
     (''defaultAllIntegerTypes'', ''AllIntegerTypes'', defaultAllIntegerTypes_2),
     (''defaultCartItem'', ''CartItem'', defaultCartItem)]"

section \<open>Notions the claims use\<close>

text \<open>
  A non-empty list of errors all of whose paths lie at or below \<open>p\<close>.
\<close>

definition scoped :: "segment list \<Rightarrow> error list \<Rightarrow> bool" where
  "scoped p es = (es \<noteq> [] \<and> list_all (\<lambda>e. take (length p) (path e) = p) es)"

text \<open>
  A field schema in which a step is piped onto an \<open>OptionFromNullishOr\<close> wrapper, so
  that the step meets the option the wrapper returns
  (\<open>Schema.OptionFromNullishOr(..., null).pipe(Schema.maxLength(500, ...))\<close>).
\<close>

fun wrapper_piped :: "schema \<Rightarrow> bool" where
  "wrapper_piped (pipe (Schema_OptionFromNullishOr s) c) = True"
| "wrapper_piped (pipe s c) = wrapper_piped s"
| "wrapper_piped s = False"



fun has_case :: "schema \<Rightarrow> bool" where
  "has_case (pipe s c) = (c = Schema_toUpperCase \<or> c = Schema_toLowerCase \<or> has_case s)"
| "has_case (Schema_propertySignature s m) = has_case s"
| "has_case (Schema_OptionFromNullishOr s) = has_case s"
| "has_case s = False"




text \<open>
  A reference field: a required field whose schema is the union of a non-empty
  identifier string and a class, with the union's override message.
\<close>

fun reference_target :: "schema \<Rightarrow> (schema \<times> string) option" where
  "reference_target
     (Schema_propertySignature
        (Schema_Union [pipe Schema_String (Schema_nonEmptyString None), T] (Some m)) mm) =
     Some (T, m)"
| "reference_target s = None"

text \<open>The field names of an object definition, and the definitions a scope key is given.\<close>

fun obj_keys :: "arkdef \<Rightarrow> string list option" where
  "obj_keys (Obj fields) = Some (map fst fields)"
| "obj_keys d = None"

definition entries_named :: "string \<Rightarrow> arkdef list" where
  "entries_named n = map snd (filter (\<lambda>e. fst e = n) bindings)"

text \<open>The value a record holds under a key (\<open>undefined\<close> when the key is absent).\<close>

fun field_of :: "jsval \<Rightarrow> string \<Rightarrow> jsval" where
  "field_of (JObj kvs) k = (case map_of kvs k of Some v \<Rightarrow> v | None \<Rightarrow> JUndefined)"
| "field_of v k = JUndefined"

text \<open>The class bindings.ts declares under a name, if any.\<close>

definition class_named :: "string \<Rightarrow> schema option" where
  "class_named n = find (\<lambda>C. class_name C = n) classes"

text \<open>
  Example records for the claim about optional fields: a customer with the given
  \<open>phone\<close> (and no addresses), what it decodes to, and a tag with the given description.
\<close>

definition customer_record :: "jsval \<Rightarrow> jsval" where
  "customer_record phone =
     JObj [(''id'', JStr ''c1''), (''user'', JStr ''u1''), (''shippingAddress'', JNull),
           (''billingAddress'', JNull), (''phone'', phone), (''createdAt'', JStr ''2024-01-01'')]"

definition customer_decoded :: "jsval \<Rightarrow> jsval" where
  "customer_decoded phone =
     JObj [(''id'', JStr ''c1''), (''user'', JStr ''u1''), (''shippingAddress'', JNone),
           (''billingAddress'', JNone), (''phone'', phone), (''createdAt'', JStr ''2024-01-01'')]"

definition tag_record :: "jsval \<Rightarrow> jsval" where
  "tag_record description =
     JObj [(''id'', JStr ''t1''), (''name'', JStr ''News''), (''slug'', JStr ''news''),
           (''description'', description), (''postCount'', JNum 0)]"

section \<open>Evaluation lemmas\<close>

lemmas decode_eval = collect_def fails_def on_string_def on_number_def require_def
  toUpperCase_def toLowerCase_def upper_chars_def upper_char_def lower_char_def char_of_def bit_0

section \<open>General facts about decoding\<close>

lemma decode_Class:
  "decode (Schema_Class n fs) p (JObj kvs) =
     (case collect (map (decode_field kvs p) fs) of
        Inl es \<Rightarrow> Inl es
      | Inr ws \<Rightarrow> Inr (JObj (zip (map fst fs) ws)))"
  by (simp add: decode_field_def [abs_def])

lemma collect_Inl:
  "collect rs = Inl es \<longleftrightarrow> \<not> list_all is_ok rs \<and> es = concat (map errors_of rs)"
  by (auto simp: collect_def)

lemma collect_Inr:
  "collect rs = Inr ws \<longleftrightarrow> list_all is_ok rs \<and> ws = values_of rs"
  by (auto simp: collect_def)

lemma not_ok_cases: "\<not> is_ok r \<Longrightarrow> \<exists>es. r = Inl es"
  by (cases r) simp_all

lemma first_success_None: "first_success rs = None \<Longrightarrow> r \<in> set rs \<Longrightarrow> \<exists>es. r = Inl es"
  by (induction rs rule: first_success.induct) auto

lemma check_Inl: "check c p w = Inl es \<Longrightarrow> \<exists>k m. es = [Error k p m]"
  by (cases c) (auto simp: require_def fails_def split: jsval.splits if_splits)

lemma scoped_single [simp]: "scoped p [Error k p m]"
  by (simp add: scoped_def)

lemma scoped_snoc: "scoped p es \<Longrightarrow> scoped p (es @ [Error k p m, Error k' p m'])"
  by (simp add: scoped_def)

lemma scoped_append: "scoped (p @ q) es \<Longrightarrow> scoped p es"
  by (auto simp: scoped_def list_all_iff) (metis append_eq_conv_conj take_take min.absorb1 length_append le_add1)

lemma scoped_concat:
  assumes "rs \<noteq> []" and "\<And>r. r \<in> set rs \<Longrightarrow> \<exists>es. r = Inl es \<and> scoped p es"
  shows "scoped p (concat (map errors_of rs))"
proof -
  from assms(1) obtain r rs' where rs: "rs = r # rs'" by (cases rs) auto
  with assms(2) obtain es where "r = Inl es" "scoped p es" by auto
  then have "concat (map errors_of rs) \<noteq> []" using rs by (auto simp: scoped_def)
  moreover have "list_all (\<lambda>e. take (length p) (path e) = p) (concat (map errors_of rs))"
    using assms(2) by (fastforce simp: list_all_iff scoped_def)
  ultimately show ?thesis by (simp add: scoped_def)
qed

lemma scoped_collect:
  assumes "collect rs = Inl es"
    and "\<And>r fes. r \<in> set rs \<Longrightarrow> r = Inl fes \<Longrightarrow> scoped p fes"
  shows "scoped p es"
proof -
  from assms(1) have bad: "\<not> list_all is_ok rs" and es: "es = concat (map errors_of rs)"
    by (simp_all add: collect_Inl)
  from bad obtain r where r: "r \<in> set rs" "\<not> is_ok r" by (auto simp: list_all_iff)
  then obtain fes where fes: "r = Inl fes" by (auto dest: not_ok_cases)
  with r assms(2) have "scoped p fes" by blast
  then have "fes \<noteq> []" by (simp add: scoped_def)
  with r fes have "es \<noteq> []" unfolding es by force
  moreover have "list_all (\<lambda>e. take (length p) (path e) = p) es"
    unfolding es list_all_iff
  proof
    fix e assume "e \<in> set (concat (map errors_of rs))"
    then obtain r' where r': "r' \<in> set rs" "e \<in> set (errors_of r')" by auto
    from r'(2) obtain fes' where "r' = Inl fes'" by (cases r') auto
    with r' assms(2) show "take (length p) (path e) = p"
      by (fastforce simp: scoped_def list_all_iff)
  qed
  ultimately show ?thesis by (simp add: scoped_def)
qed

lemma decode_scoped: "decode s p v = Inl es \<Longrightarrow> scoped p es"
proof (induction s p v arbitrary: es rule: decode.induct)
  case (1 p v)
  then show ?case by (auto simp: fails_def split: jsval.splits)
next
  case (2 p v)
  then show ?case by (auto simp: fails_def split: jsval.splits)
next
  case (3 p v)
  then show ?case by (auto simp: fails_def split: jsval.splits)
next
  case (4 l p v)
  then show ?case by (auto simp: fails_def split: if_splits)
next
  case (5 s c p v)
  then show ?case by (auto split: sum.splits dest: check_Inl)
next
  case (6 ms msg p v)
  let ?rs = "map (\<lambda>m. decode m p v) ms"
  from "6.prems" have none: "first_success ?rs = None"
    by (auto simp: Let_def split: option.splits)
  show ?case
  proof (cases msg)
    case (Some m)
    with "6.prems" none show ?thesis by (auto simp: Let_def fails_def)
  next
    case None
    show ?thesis
    proof (cases "ms = []")
      case True
      with "6.prems" none None show ?thesis by (auto simp: Let_def fails_def)
    next
      case False
      with "6.prems" none None have es: "es = concat (map errors_of ?rs)"
        by (simp add: Let_def)
      have "scoped p (concat (map errors_of ?rs))"
      proof (rule scoped_concat)
        show "?rs \<noteq> []" using False by simp
      next
        fix r assume r: "r \<in> set ?rs"
        then obtain m where m: "m \<in> set ms" "r = decode m p v" by auto
        from first_success_None [OF none r] obtain fes where fes: "r = Inl fes" by blast
        with m have "decode m p v = Inl fes" by simp
        with m(1) "6.IH" have "scoped p fes" by blast
        with fes show "\<exists>es. r = Inl es \<and> scoped p es" by blast
      qed
      then show ?thesis by (simp add: es)
    qed
  qed
next
  case (7 s p v)
  show ?case
  proof (cases v)
    case (JArr xs)
    with "7.prems" have c:
      "collect (map (\<lambda>ix. decode s (p @ [Index (fst ix)]) (snd ix)) (enumerate 0 xs)) = Inl es"
      by (auto split: sum.splits)
    show ?thesis
    proof (rule scoped_collect [OF c])
      fix r fes
      assume "r \<in> set (map (\<lambda>ix. decode s (p @ [Index (fst ix)]) (snd ix)) (enumerate 0 xs))"
        and "r = Inl fes"
      then obtain ix where "ix \<in> set (enumerate 0 xs)"
        "decode s (p @ [Index (fst ix)]) (snd ix) = Inl fes" by auto
      with "7.IH" JArr have "scoped (p @ [Index (fst ix)]) fes" by blast
      then show "scoped p fes" by (rule scoped_append)
    qed
  qed (use "7.prems" in \<open>auto simp: fails_def\<close>)
next
  case (8 s m p v)
  then show ?case by simp
next
  case (9 s p v)
  then show ?case by (auto split: if_splits sum.splits intro: scoped_snoc)
next
  case (10 name fields p v)
  show ?case
  proof (cases v)
    case (JObj kvs)
    with "10.prems" have c: "collect (map (decode_field kvs p) fields) = Inl es"
      by (auto simp: decode_Class simp del: decode.simps(10) split: sum.splits)
    show ?thesis
    proof (rule scoped_collect [OF c])
      fix r fes
      assume "r \<in> set (map (decode_field kvs p) fields)" and r: "r = Inl fes"
      then obtain f where f: "f \<in> set fields" "decode_field kvs p f = Inl fes" by auto
      have "scoped (p @ [Key (fst f)]) fes"
      proof (cases "map_of kvs (fst f)")
        case (Some x)
        with f JObj show ?thesis using "10.IH" by (simp add: decode_field_def)
      next
        case None
        show ?thesis
        proof (cases "\<exists>s m. snd f = Schema_propertySignature s m")
          case True
          with f None show ?thesis by (auto simp: decode_field_def fails_def)
        next
          case False
          with f None have "decode (snd f) (p @ [Key (fst f)]) JUndefined = Inl fes"
            by (auto simp: decode_field_def split: schema.splits)
          with f None False JObj show ?thesis
            using "10.IH" by (cases "snd f") (simp_all del: decode.simps)
        qed
      qed
      then show "scoped p fes" by (rule scoped_append)
    qed
  qed (use "10.prems" in \<open>auto simp: fails_def\<close>)
qed

subsection \<open>Fields of a class\<close>

lemma failing_field_reported:
  assumes "f \<in> set fs" and "decode_field kvs p f = Inl fes"
  shows "\<exists>es. decode (Schema_Class n fs) p (JObj kvs) = Inl es \<and> set fes \<subseteq> set es"
proof -
  from assms have "\<not> list_all is_ok (map (decode_field kvs p) fs)"
    by (force simp: list_all_iff)
  then have "collect (map (decode_field kvs p) fs) = Inl (concat (map errors_of (map (decode_field kvs p) fs)))"
    by (simp add: collect_def)
  moreover have "set fes \<subseteq> set (concat (map errors_of (map (decode_field kvs p) fs)))"
    using assms by force
  ultimately show ?thesis by (simp add: decode_Class del: decode.simps(10))
qed

lemma decode_field_scoped:
  assumes "decode_field kvs p f = Inl fes"
  shows "scoped (p @ [Key (fst f)]) fes"
proof (cases "map_of kvs (fst f)")
  case (Some x)
  with assms show ?thesis by (simp add: decode_field_def decode_scoped)
next
  case None
  show ?thesis
  proof (cases "\<exists>s m. snd f = Schema_propertySignature s m")
    case True
    with assms None show ?thesis by (auto simp: decode_field_def fails_def)
  next
    case False
    with assms None have "decode (snd f) (p @ [Key (fst f)]) JUndefined = Inl fes"
      by (auto simp: decode_field_def split: schema.splits)
    then show ?thesis by (rule decode_scoped)
  qed
qed

subsection \<open>Steps piped onto a wrapper\<close>

lemma check_option:
  "\<not> is_ok (check c p JNone)"
  "\<not> is_ok (check c p (JSome w))"
  by (cases c; simp add: require_def fails_def on_string_def on_number_def)+

lemma wrapper_output:
  "decode (Schema_OptionFromNullishOr s) p v = Inr w \<Longrightarrow> w = JNone \<or> (\<exists>u. w = JSome u)"
  by (auto split: if_splits sum.splits)

lemma wrapper_piped_rejects: "wrapper_piped f \<Longrightarrow> \<not> is_ok (decode f p v)"
proof (induction f rule: wrapper_piped.induct)
  case (1 s c)
  show ?case
  proof (cases "decode (Schema_OptionFromNullishOr s) p v")
    case (Inl es)
    then show ?thesis by (simp del: decode.simps(9))
  next
    case (Inr w)
    from wrapper_output [OF Inr] check_option [of c p] Inr show ?thesis
      by (auto simp del: decode.simps(9))
  qed
qed (auto split: sum.splits)

lemma wrapper_piped_field:
  assumes "wrapper_piped f"
  shows "\<not> is_ok (decode_field kvs p (k, f))"
proof -
  from assms have "\<not> (\<exists>s m. f = Schema_propertySignature s m)" by auto
  with wrapper_piped_rejects [OF assms] show ?thesis
    by (cases f) (auto simp: decode_field_def simp del: decode.simps split: option.splits)
qed

lemma class_with_wrapper_piped_field:
  assumes "(k, f) \<in> set fs" and "wrapper_piped f"
  shows "\<not> is_ok (decode (Schema_Class n fs) p v)"
proof (cases v)
  case (JObj kvs)
  from wrapper_piped_field [OF assms(2), of kvs p k]
  obtain fes where "decode_field kvs p (k, f) = Inl fes"
    by (cases "decode_field kvs p (k, f)") simp_all
  from failing_field_reported [OF assms(1) this] JObj show ?thesis by auto
qed (simp_all add: fails_def)

subsection \<open>Reference unions and literal unions\<close>

lemma reference_field:
  fixes T :: schema and m :: string
  defines "R \<equiv> Schema_Union [pipe Schema_String (Schema_nonEmptyString None), T] (Some m)"
  shows "s \<noteq> [] \<Longrightarrow> decode R p (JStr s) = Inr (JStr s)"
    and "decode R p (JObj kvs) =
          (case decode T p (JObj kvs) of
             Inr w \<Rightarrow> Inr w
           | Inl es \<Rightarrow> Inl [Error ConstraintViolation p (Some m)])"
    and "decode R p (JStr []) =
          (case decode T p (JStr []) of
             Inr w \<Rightarrow> Inr w
           | Inl es \<Rightarrow> Inl [Error ConstraintViolation p (Some m)])"
  by (auto simp: R_def Let_def fails_def on_string_def require_def split: sum.splits)

lemma class_rejects_string: "decode (Schema_Class n fs) p (JStr s) = Inl [Error TypeMismatch p None]"
  by (simp add: fails_def)

lemma first_success_literals:
  "first_success (map (\<lambda>m. decode m p (JStr s)) (map Schema_Literal ls)) =
     (if s \<in> set ls then Some (JStr s) else None)"
  by (induction ls) (auto simp: fails_def)

lemma decode_literal_union:
  "is_ok (decode (Schema_Union (map Schema_Literal ls) None) p (JStr s)) = (s \<in> set ls)"
  by (simp add: first_success_literals Let_def fails_def del: map_map)

lemma decode_literal_union_value:
  "decode (Schema_Union (map Schema_Literal ls) None) p (JStr s) = Inr w \<Longrightarrow> w = JStr s"
  by (simp add: first_success_literals Let_def fails_def del: map_map split: if_splits)

subsection \<open>Case normalisation\<close>



















lemma reference_target_Some:
  "reference_target f = Some (T, m) \<Longrightarrow>
   \<exists>mm. f = Schema_propertySignature
     (Schema_Union [pipe Schema_String (Schema_nonEmptyString None), T] (Some m)) mm"
  by (erule reference_target.elims) auto

lemma decode_literal_union_iff:
  "(decode (Schema_Union (map Schema_Literal ls) None) p (JStr s) = Inr (JStr s)) = (s \<in> set ls)"
  by (simp add: first_success_literals Let_def fails_def del: map_map)

lemma entries_named_iff: "d \<in> set (entries_named n) \<longleftrightarrow> (n, d) \<in> set bindings"
  by (force simp: entries_named_def)

lemma class_rejects_all:
  assumes "map fst (filter (\<lambda>f. wrapper_piped (snd f)) fs) = k # ks"
  shows "\<not> is_ok (decode (Schema_Class n fs) p v)"
proof -
  from assms have "filter (\<lambda>f. wrapper_piped (snd f)) fs \<noteq> []" by auto
  then obtain f where f: "f \<in> set fs" "wrapper_piped (snd f)"
    by (auto simp: filter_empty_conv)
  from f(1) have "(fst f, snd f) \<in> set fs" by simp
  from class_with_wrapper_piped_field [OF this f(2)] show ?thesis .
qed

section \<open>Facts about the two catalogs\<close>

lemmas eval_rules =
  fst_conv snd_conv prod.inject list.inject list.distinct char.inject simp_thms
  option.case option.inject option.distinct sum.case sum.inject sum.distinct
  if_True if_False list.map filter.simps list_all_Nil_iff list_all_Cons_iff list.case
  jsval.inject jsval.distinct jsval.case map_of.simps fun_upd_apply

lemmas enum_defs =
  Role_def OrderStatus_def PaymentStatus_def PaymentMethod_def ProductCategory_def

lemmas bindings_defs =
  bindings_Role_def bindings_PaymentMethod_def bindings_ProductCategory_def
  bindings_OrderStatus_def bindings_PaymentStatus_def bindings_MaxValidatorStacking_def
  bindings_Customer_def bindings_Order_def bindings_ArrayValidationExtremes_def
  bindings_DateTimeExtremes_def bindings_NetworkTypes_def bindings_NetworkTypes_2_def
  bindings_Session_def bindings_ComplexStringValidation_def
  bindings_FloatValidation_def bindings_NonEmptyOptionString_def
  bindings_ComplexIdentifiers_def bindings_Post_def bindings_KitchenSinkString_def
  bindings_ComplexIdentifiers_2_def bindings_MultipleNumberValidators_def
  bindings_BusinessExtremes_def bindings_DeepNestedValidation_def
  bindings_EdgeCasePost_def bindings_OptionalIntegerValidation_def
  bindings_EdgeCasePost_2_def bindings_Product_def
  bindings_ExtremeIntegerValidation_def bindings_User_def bindings_Tag_def
  bindings_EdgeCaseUser_def bindings_ValidatedAddress_def
  bindings_PersonalInfoExtremes_def bindings_DeepNestedValidation_2_def
  bindings_OptionalIntegerValidation_2_def bindings_Comment_def
  bindings_ComplexPayment_def bindings_FloatValidation_2_def bindings_Session_2_def
  bindings_ExtremeIntegerValidation_2_def bindings_CaseValidation_def
  bindings_IntegerBounds_def bindings_MultiValidatorOptionalString_def
  bindings_InnerValidated_def bindings_Address_def bindings_EdgeCaseComment_def
  bindings_ExtremeFloatValidation_def bindings_BusinessExtremes_2_def
  bindings_Post_2_def bindings_Customer_2_def bindings_MaxValidatorStacking_2_def
  bindings_User_2_def bindings_Product_2_def bindings_Author_def bindings_Order_2_def
  bindings_Tag_2_def bindings_Comment_2_def bindings_CaseValidation_2_def
  bindings_ValidatedContact_def bindings_NonEmptyOptionString_2_def
  bindings_MultiValidatorOptionalString_2_def bindings_Author_2_def
  bindings_ComplexPayment_2_def bindings_AllIntegerTypes_def
  bindings_DateTimeExtremes_2_def bindings_PersonalInfoExtremes_2_def
  bindings_ExtremeFloatValidation_2_def bindings_ComplexStringValidation_2_def
  bindings_OuterWithNestedValidator_def bindings_EdgeCaseUser_2_def
  bindings_KitchenSinkString_2_def bindings_ArrayValidationExtremes_2_def
  bindings_IntegerBounds_2_def bindings_OuterWithNestedValidator_2_def
  bindings_EdgeCaseComment_2_def bindings_MultipleNumberValidators_2_def
  bindings_AllIntegerTypes_2_def bindings_CartItem_def

lemmas defaults_defs =
  defaultMaxValidatorStacking_def defaultCustomer_def defaultOrder_def
  defaultArrayValidationExtremes_def defaultDateTimeExtremes_def
  defaultNetworkTypes_def defaultNetworkTypes_2_def defaultSession_def
  defaultComplexStringValidation_def defaultFloatValidation_def
  defaultNonEmptyOptionString_def defaultComplexIdentifiers_def defaultPost_def
  defaultKitchenSinkString_def defaultComplexIdentifiers_2_def
  defaultMultipleNumberValidators_def defaultBusinessExtremes_def
  defaultDeepNestedValidation_def defaultEdgeCasePost_def
  defaultOptionalIntegerValidation_def defaultEdgeCasePost_2_def defaultProduct_def
  defaultExtremeIntegerValidation_def defaultUser_def defaultTag_def
  defaultEdgeCaseUser_def defaultValidatedAddress_def defaultPersonalInfoExtremes_def
  defaultDeepNestedValidation_2_def defaultOptionalIntegerValidation_2_def
  defaultComment_def defaultComplexPayment_def defaultFloatValidation_2_def
  defaultSession_2_def defaultExtremeIntegerValidation_2_def defaultCaseValidation_def
  defaultIntegerBounds_def defaultMultiValidatorOptionalString_def
  defaultInnerValidated_def defaultAddress_def defaultEdgeCaseComment_def
  defaultExtremeFloatValidation_def defaultBusinessExtremes_2_def defaultPost_2_def
  defaultCustomer_2_def defaultMaxValidatorStacking_2_def defaultUser_2_def
  defaultProduct_2_def defaultAuthor_def defaultOrder_2_def defaultTag_2_def
  defaultComment_2_def defaultCaseValidation_2_def defaultValidatedContact_def
  defaultNonEmptyOptionString_2_def defaultMultiValidatorOptionalString_2_def
  defaultAuthor_2_def defaultComplexPayment_2_def defaultAllIntegerTypes_def
  defaultDateTimeExtremes_2_def defaultPersonalInfoExtremes_2_def
  defaultExtremeFloatValidation_2_def defaultComplexStringValidation_2_def
  defaultOuterWithNestedValidator_def defaultEdgeCaseUser_2_def
  defaultKitchenSinkString_2_def defaultArrayValidationExtremes_2_def
  defaultIntegerBounds_2_def defaultOuterWithNestedValidator_2_def
  defaultEdgeCaseComment_2_def defaultMultipleNumberValidators_2_def
  defaultAllIntegerTypes_2_def defaultCartItem_def

subsection \<open>The classes of bindings.ts\<close>

lemma all_classes:
  assumes "P Address"
  assumes "P User"
  assumes "P Customer"
  assumes "P Tag"
  assumes "P Author"
  assumes "P Post"
  assumes "P EdgeCaseUser"
  assumes "P EdgeCasePost"
  assumes "P EdgeCaseComment"
  assumes "P ValidatedAddress"
  assumes "P ArrayValidationExtremes"
  assumes "P Comment"
  assumes "P CartItem"
  assumes "P Order"
  assumes "P ComplexPayment"
  assumes "P Session"
  assumes "P InnerValidated"
  assumes "P OuterWithNestedValidator"
  assumes "P Product"
  assumes "P ValidatedContact"
  assumes "P DeepNestedValidation"
  shows "\<forall>C \<in> set classes. P C"
  using assms by (simp add: classes_def)

lemma class_shapes:
  "Address = Schema_Class ''Address'' (class_fields Address)"
  "User = Schema_Class ''User'' (class_fields User)"
  "Customer = Schema_Class ''Customer'' (class_fields Customer)"
  "Tag = Schema_Class ''Tag'' (class_fields Tag)"
  "Author = Schema_Class ''Author'' (class_fields Author)"
  "Post = Schema_Class ''Post'' (class_fields Post)"
  "EdgeCaseUser = Schema_Class ''EdgeCaseUser'' (class_fields EdgeCaseUser)"
  "EdgeCasePost = Schema_Class ''EdgeCasePost'' (class_fields EdgeCasePost)"
  "EdgeCaseComment = Schema_Class ''EdgeCaseComment'' (class_fields EdgeCaseComment)"
  "ValidatedAddress = Schema_Class ''ValidatedAddress'' (class_fields ValidatedAddress)"
  "ArrayValidationExtremes = Schema_Class ''ArrayValidationExtremes'' (class_fields ArrayValidationExtremes)"
  "Comment = Schema_Class ''Comment'' (class_fields Comment)"
  "CartItem = Schema_Class ''CartItem'' (class_fields CartItem)"
  "Order = Schema_Class ''Order'' (class_fields Order)"
  "ComplexPayment = Schema_Class ''ComplexPayment'' (class_fields ComplexPayment)"
  "Session = Schema_Class ''Session'' (class_fields Session)"
  "InnerValidated = Schema_Class ''InnerValidated'' (class_fields InnerValidated)"
  "OuterWithNestedValidator = Schema_Class ''OuterWithNestedValidator'' (class_fields OuterWithNestedValidator)"
  "Product = Schema_Class ''Product'' (class_fields Product)"
  "ValidatedContact = Schema_Class ''ValidatedContact'' (class_fields ValidatedContact)"
  "DeepNestedValidation = Schema_Class ''DeepNestedValidation'' (class_fields DeepNestedValidation)"
  apply (simp add: Address_def)
  apply (simp add: User_def)
  apply (simp add: Customer_def)
  apply (simp add: Tag_def)
  apply (simp add: Author_def)
  apply (simp add: Post_def)
  apply (simp add: EdgeCaseUser_def)
  apply (simp add: EdgeCasePost_def)
  apply (simp add: EdgeCaseComment_def)
  apply (simp add: ValidatedAddress_def)
  apply (simp add: ArrayValidationExtremes_def)
  apply (simp add: Comment_def)
  apply (simp add: CartItem_def)
  apply (simp add: Order_def)
  apply (simp add: ComplexPayment_def)
  apply (simp add: Session_def)
  apply (simp add: InnerValidated_def)
  apply (simp add: OuterWithNestedValidator_def)
  apply (simp add: Product_def)
  apply (simp add: ValidatedContact_def)
  apply (simp add: DeepNestedValidation_def)
  done

lemma class_names:
  "class_name Address = ''Address''"
  "class_name User = ''User''"
  "class_name Customer = ''Customer''"
  "class_name Tag = ''Tag''"
  "class_name Author = ''Author''"
  "class_name Post = ''Post''"
  "class_name EdgeCaseUser = ''EdgeCaseUser''"
  "class_name EdgeCasePost = ''EdgeCasePost''"
  "class_name EdgeCaseComment = ''EdgeCaseComment''"
  "class_name ValidatedAddress = ''ValidatedAddress''"
  "class_name ArrayValidationExtremes = ''ArrayValidationExtremes''"
  "class_name Comment = ''Comment''"
  "class_name CartItem = ''CartItem''"
  "class_name Order = ''Order''"
  "class_name ComplexPayment = ''ComplexPayment''"
  "class_name Session = ''Session''"
  "class_name InnerValidated = ''InnerValidated''"
  "class_name OuterWithNestedValidator = ''OuterWithNestedValidator''"
  "class_name Product = ''Product''"
  "class_name ValidatedContact = ''ValidatedContact''"
  "class_name DeepNestedValidation = ''DeepNestedValidation''"
  apply (simp add: Address_def)
  apply (simp add: User_def)
  apply (simp add: Customer_def)
  apply (simp add: Tag_def)
  apply (simp add: Author_def)
  apply (simp add: Post_def)
  apply (simp add: EdgeCaseUser_def)
  apply (simp add: EdgeCasePost_def)
  apply (simp add: EdgeCaseComment_def)
  apply (simp add: ValidatedAddress_def)
  apply (simp add: ArrayValidationExtremes_def)
  apply (simp add: Comment_def)
  apply (simp add: CartItem_def)
  apply (simp add: Order_def)
  apply (simp add: ComplexPayment_def)
  apply (simp add: Session_def)
  apply (simp add: InnerValidated_def)
  apply (simp add: OuterWithNestedValidator_def)
  apply (simp add: Product_def)
  apply (simp add: ValidatedContact_def)
  apply (simp add: DeepNestedValidation_def)
  done

lemma has_case_consts:
  "has_case Address = False"
  "has_case User = False"
  "has_case Customer = False"
  "has_case Tag = False"
  "has_case Author = False"
  "has_case Post = False"
  "has_case EdgeCaseUser = False"
  "has_case EdgeCasePost = False"
  "has_case EdgeCaseComment = False"
  "has_case ValidatedAddress = False"
  "has_case ArrayValidationExtremes = False"
  "has_case Comment = False"
  "has_case CartItem = False"
  "has_case Order = False"
  "has_case ComplexPayment = False"
  "has_case Session = False"
  "has_case InnerValidated = False"
  "has_case OuterWithNestedValidator = False"
  "has_case Product = False"
  "has_case ValidatedContact = False"
  "has_case DeepNestedValidation = False"
  "has_case Role = False"
  "has_case OrderStatus = False"
  "has_case PaymentStatus = False"
  "has_case PaymentMethod = False"
  "has_case ProductCategory = False"
  apply (simp add: Address_def)
  apply (simp add: User_def)
  apply (simp add: Customer_def)
  apply (simp add: Tag_def)
  apply (simp add: Author_def)
  apply (simp add: Post_def)
  apply (simp add: EdgeCaseUser_def)
  apply (simp add: EdgeCasePost_def)
  apply (simp add: EdgeCaseComment_def)
  apply (simp add: ValidatedAddress_def)
  apply (simp add: ArrayValidationExtremes_def)
  apply (simp add: Comment_def)
  apply (simp add: CartItem_def)
  apply (simp add: Order_def)
  apply (simp add: ComplexPayment_def)
  apply (simp add: Session_def)
  apply (simp add: InnerValidated_def)
  apply (simp add: OuterWithNestedValidator_def)
  apply (simp add: Product_def)
  apply (simp add: ValidatedContact_def)
  apply (simp add: DeepNestedValidation_def)
  apply (simp add: Role_def)
  apply (simp add: OrderStatus_def)
  apply (simp add: PaymentStatus_def)
  apply (simp add: PaymentMethod_def)
  apply (simp add: ProductCategory_def)
  done

lemma wrapper_piped_consts:
  "wrapper_piped Address = False"
  "wrapper_piped User = False"
  "wrapper_piped Customer = False"
  "wrapper_piped Tag = False"
  "wrapper_piped Author = False"
  "wrapper_piped Post = False"
  "wrapper_piped EdgeCaseUser = False"
  "wrapper_piped EdgeCasePost = False"
  "wrapper_piped EdgeCaseComment = False"
  "wrapper_piped ValidatedAddress = False"
  "wrapper_piped ArrayValidationExtremes = False"
  "wrapper_piped Comment = False"
  "wrapper_piped CartItem = False"
  "wrapper_piped Order = False"
  "wrapper_piped ComplexPayment = False"
  "wrapper_piped Session = False"
  "wrapper_piped InnerValidated = False"
  "wrapper_piped OuterWithNestedValidator = False"
  "wrapper_piped Product = False"
  "wrapper_piped ValidatedContact = False"
  "wrapper_piped DeepNestedValidation = False"
  "wrapper_piped Role = False"
  "wrapper_piped OrderStatus = False"
  "wrapper_piped PaymentStatus = False"
  "wrapper_piped PaymentMethod = False"
  "wrapper_piped ProductCategory = False"
  apply (simp add: Address_def)
  apply (simp add: User_def)
  apply (simp add: Customer_def)
  apply (simp add: Tag_def)
  apply (simp add: Author_def)
  apply (simp add: Post_def)
  apply (simp add: EdgeCaseUser_def)
  apply (simp add: EdgeCasePost_def)
  apply (simp add: EdgeCaseComment_def)
  apply (simp add: ValidatedAddress_def)
  apply (simp add: ArrayValidationExtremes_def)
  apply (simp add: Comment_def)
  apply (simp add: CartItem_def)
  apply (simp add: Order_def)
  apply (simp add: ComplexPayment_def)
  apply (simp add: Session_def)
  apply (simp add: InnerValidated_def)
  apply (simp add: OuterWithNestedValidator_def)
  apply (simp add: Product_def)
  apply (simp add: ValidatedContact_def)
  apply (simp add: DeepNestedValidation_def)
  apply (simp add: Role_def)
  apply (simp add: OrderStatus_def)
  apply (simp add: PaymentStatus_def)
  apply (simp add: PaymentMethod_def)
  apply (simp add: ProductCategory_def)
  done

lemma reference_target_consts:
  "reference_target (Schema_propertySignature Address mm) = None"
  "reference_target (Schema_propertySignature User mm) = None"
  "reference_target (Schema_propertySignature Customer mm) = None"
  "reference_target (Schema_propertySignature Tag mm) = None"
  "reference_target (Schema_propertySignature Author mm) = None"
  "reference_target (Schema_propertySignature Post mm) = None"
  "reference_target (Schema_propertySignature EdgeCaseUser mm) = None"
  "reference_target (Schema_propertySignature EdgeCasePost mm) = None"
  "reference_target (Schema_propertySignature EdgeCaseComment mm) = None"
  "reference_target (Schema_propertySignature ValidatedAddress mm) = None"
  "reference_target (Schema_propertySignature ArrayValidationExtremes mm) = None"
  "reference_target (Schema_propertySignature Comment mm) = None"
  "reference_target (Schema_propertySignature CartItem mm) = None"
  "reference_target (Schema_propertySignature Order mm) = None"
  "reference_target (Schema_propertySignature ComplexPayment mm) = None"
  "reference_target (Schema_propertySignature Session mm) = None"
  "reference_target (Schema_propertySignature InnerValidated mm) = None"
  "reference_target (Schema_propertySignature OuterWithNestedValidator mm) = None"
  "reference_target (Schema_propertySignature Product mm) = None"
  "reference_target (Schema_propertySignature ValidatedContact mm) = None"
  "reference_target (Schema_propertySignature DeepNestedValidation mm) = None"
  "reference_target (Schema_propertySignature Role mm) = None"
  "reference_target (Schema_propertySignature OrderStatus mm) = None"
  "reference_target (Schema_propertySignature PaymentStatus mm) = None"
  "reference_target (Schema_propertySignature PaymentMethod mm) = None"
  "reference_target (Schema_propertySignature ProductCategory mm) = None"
  apply (simp add: Address_def)
  apply (simp add: User_def)
  apply (simp add: Customer_def)
  apply (simp add: Tag_def)
  apply (simp add: Author_def)
  apply (simp add: Post_def)
  apply (simp add: EdgeCaseUser_def)
  apply (simp add: EdgeCasePost_def)
  apply (simp add: EdgeCaseComment_def)
  apply (simp add: ValidatedAddress_def)
  apply (simp add: ArrayValidationExtremes_def)
  apply (simp add: Comment_def)
  apply (simp add: CartItem_def)
  apply (simp add: Order_def)
  apply (simp add: ComplexPayment_def)
  apply (simp add: Session_def)
  apply (simp add: InnerValidated_def)
  apply (simp add: OuterWithNestedValidator_def)
  apply (simp add: Product_def)
  apply (simp add: ValidatedContact_def)
  apply (simp add: DeepNestedValidation_def)
  apply (simp add: Role_def)
  apply (simp add: OrderStatus_def)
  apply (simp add: PaymentStatus_def)
  apply (simp add: PaymentMethod_def)
  apply (simp add: ProductCategory_def)
  done


lemma reference_targets_in_catalog:
  "list_all (\<lambda>f. case reference_target (snd f) of
        None \<Rightarrow> True
      | Some (T, m) \<Rightarrow> T \<in> set classes \<and> m = ''Please enter a valid value'')
     (class_fields Address)"
  "list_all (\<lambda>f. case reference_target (snd f) of
        None \<Rightarrow> True
      | Some (T, m) \<Rightarrow> T \<in> set classes \<and> m = ''Please enter a valid value'')
     (class_fields User)"
  "list_all (\<lambda>f. case reference_target (snd f) of
        None \<Rightarrow> True
      | Some (T, m) \<Rightarrow> T \<in> set classes \<and> m = ''Please enter a valid value'')
     (class_fields Customer)"
  "list_all (\<lambda>f. case reference_target (snd f) of
        None \<Rightarrow> True
      | Some (T, m) \<Rightarrow> T \<in> set classes \<and> m = ''Please enter a valid value'')
     (class_fields Tag)"
  "list_all (\<lambda>f. case reference_target (snd f) of
        None \<Rightarrow> True
      | Some (T, m) \<Rightarrow> T \<in> set classes \<and> m = ''Please enter a valid value'')
     (class_fields Author)"
  "list_all (\<lambda>f. case reference_target (snd f) of
        None \<Rightarrow> True
      | Some (T, m) \<Rightarrow> T \<in> set classes \<and> m = ''Please enter a valid value'')
     (class_fields Post)"
  "list_all (\<lambda>f. case reference_target (snd f) of
        None \<Rightarrow> True
      | Some (T, m) \<Rightarrow> T \<in> set classes \<and> m = ''Please enter a valid value'')
     (class_fields EdgeCaseUser)"
  "list_all (\<lambda>f. case reference_target (snd f) of
        None \<Rightarrow> True
      | Some (T, m) \<Rightarrow> T \<in> set classes \<and> m = ''Please enter a valid value'')
     (class_fields EdgeCasePost)"
  "list_all (\<lambda>f. case reference_target (snd f) of
        None \<Rightarrow> True
      | Some (T, m) \<Rightarrow> T \<in> set classes \<and> m = ''Please enter a valid value'')
     (class_fields EdgeCaseComment)"
  "list_all (\<lambda>f. case reference_target (snd f) of
        None \<Rightarrow> True
      | Some (T, m) \<Rightarrow> T \<in> set classes \<and> m = ''Please enter a valid value'')
     (class_fields ValidatedAddress)"
  "list_all (\<lambda>f. case reference_target (snd f) of
        None \<Rightarrow> True
      | Some (T, m) \<Rightarrow> T \<in> set classes \<and> m = ''Please enter a valid value'')
     (class_fields ArrayValidationExtremes)"
  "list_all (\<lambda>f. case reference_target (snd f) of
        None \<Rightarrow> True
      | Some (T, m) \<Rightarrow> T \<in> set classes \<and> m = ''Please enter a valid value'')
     (class_fields Comment)"
  "list_all (\<lambda>f. case reference_target (snd f) of
        None \<Rightarrow> True
      | Some (T, m) \<Rightarrow> T \<in> set classes \<and> m = ''Please enter a valid value'')
     (class_fields CartItem)"
  "list_all (\<lambda>f. case reference_target (snd f) of
        None \<Rightarrow> True
      | Some (T, m) \<Rightarrow> T \<in> set classes \<and> m = ''Please enter a valid value'')
     (class_fields Order)"
  "list_all (\<lambda>f. case reference_target (snd f) of
        None \<Rightarrow> True
      | Some (T, m) \<Rightarrow> T \<in> set classes \<and> m = ''Please enter a valid value'')
     (class_fields ComplexPayment)"
  "list_all (\<lambda>f. case reference_target (snd f) of
        None \<Rightarrow> True
      | Some (T, m) \<Rightarrow> T \<in> set classes \<and> m = ''Please enter a valid value'')
     (class_fields Session)"
  "list_all (\<lambda>f. case reference_target (snd f) of
        None \<Rightarrow> True
      | Some (T, m) \<Rightarrow> T \<in> set classes \<and> m = ''Please enter a valid value'')
     (class_fields InnerValidated)"
  "list_all (\<lambda>f. case reference_target (snd f) of
        None \<Rightarrow> True
      | Some (T, m) \<Rightarrow> T \<in> set classes \<and> m = ''Please enter a valid value'')
     (class_fields OuterWithNestedValidator)"
  "list_all (\<lambda>f. case reference_target (snd f) of
        None \<Rightarrow> True
      | Some (T, m) \<Rightarrow> T \<in> set classes \<and> m = ''Please enter a valid value'')
     (class_fields Product)"
  "list_all (\<lambda>f. case reference_target (snd f) of
        None \<Rightarrow> True
      | Some (T, m) \<Rightarrow> T \<in> set classes \<and> m = ''Please enter a valid value'')
     (class_fields ValidatedContact)"
  "list_all (\<lambda>f. case reference_target (snd f) of
        None \<Rightarrow> True
      | Some (T, m) \<Rightarrow> T \<in> set classes \<and> m = ''Please enter a valid value'')
     (class_fields DeepNestedValidation)"
  apply (simp add: Address_def reference_target_consts classes_def)
  apply (simp add: User_def reference_target_consts classes_def)
  apply (simp add: Customer_def reference_target_consts classes_def)
  apply (simp add: Tag_def reference_target_consts classes_def)
  apply (simp add: Author_def reference_target_consts classes_def)
  apply (simp add: Post_def reference_target_consts classes_def)
  apply (simp add: EdgeCaseUser_def reference_target_consts classes_def)
  apply (simp add: EdgeCasePost_def reference_target_consts classes_def)
  apply (simp add: EdgeCaseComment_def reference_target_consts classes_def)
  apply (simp add: ValidatedAddress_def reference_target_consts classes_def)
  apply (simp add: ArrayValidationExtremes_def reference_target_consts classes_def)
  apply (simp add: Comment_def reference_target_consts classes_def)
  apply (simp add: CartItem_def reference_target_consts classes_def)
  apply (simp add: Order_def reference_target_consts classes_def)
  apply (simp add: ComplexPayment_def reference_target_consts classes_def)
  apply (simp add: Session_def reference_target_consts classes_def)
  apply (simp add: InnerValidated_def reference_target_consts classes_def)
  apply (simp add: OuterWithNestedValidator_def reference_target_consts classes_def)
  apply (simp add: Product_def reference_target_consts classes_def)
  apply (simp add: ValidatedContact_def reference_target_consts classes_def)
  apply (simp add: DeepNestedValidation_def reference_target_consts classes_def)
  done

lemma case_field_names:
  "map fst (filter (\<lambda>f. has_case (snd f)) (class_fields Address)) = [''country'']"
  "map fst (filter (\<lambda>f. has_case (snd f)) (class_fields User)) = []"
  "map fst (filter (\<lambda>f. has_case (snd f)) (class_fields Customer)) = []"
  "map fst (filter (\<lambda>f. has_case (snd f)) (class_fields Tag)) = [''slug'']"
  "map fst (filter (\<lambda>f. has_case (snd f)) (class_fields Author)) = []"
  "map fst (filter (\<lambda>f. has_case (snd f)) (class_fields Post)) = [''slug'']"
  "map fst (filter (\<lambda>f. has_case (snd f)) (class_fields EdgeCaseUser)) = []"
  "map fst (filter (\<lambda>f. has_case (snd f)) (class_fields EdgeCasePost)) = [''slug'']"
  "map fst (filter (\<lambda>f. has_case (snd f)) (class_fields EdgeCaseComment)) = []"
  "map fst (filter (\<lambda>f. has_case (snd f)) (class_fields ValidatedAddress)) = [''stateCode'', ''countryCode'']"
  "map fst (filter (\<lambda>f. has_case (snd f)) (class_fields ArrayValidationExtremes)) = []"
  "map fst (filter (\<lambda>f. has_case (snd f)) (class_fields Comment)) = []"
  "map fst (filter (\<lambda>f. has_case (snd f)) (class_fields CartItem)) = []"
  "map fst (filter (\<lambda>f. has_case (snd f)) (class_fields Order)) = []"
  "map fst (filter (\<lambda>f. has_case (snd f)) (class_fields ComplexPayment)) = [''currency'']"
  "map fst (filter (\<lambda>f. has_case (snd f)) (class_fields Session)) = []"
  "map fst (filter (\<lambda>f. has_case (snd f)) (class_fields InnerValidated)) = []"
  "map fst (filter (\<lambda>f. has_case (snd f)) (class_fields OuterWithNestedValidator)) = []"
  "map fst (filter (\<lambda>f. has_case (snd f)) (class_fields Product)) = []"
  "map fst (filter (\<lambda>f. has_case (snd f)) (class_fields ValidatedContact)) = []"
  "map fst (filter (\<lambda>f. has_case (snd f)) (class_fields DeepNestedValidation)) = []"
  apply (simp add: Address_def has_case_consts)
  apply (simp add: User_def has_case_consts)
  apply (simp add: Customer_def has_case_consts)
  apply (simp add: Tag_def has_case_consts)
  apply (simp add: Author_def has_case_consts)
  apply (simp add: Post_def has_case_consts)
  apply (simp add: EdgeCaseUser_def has_case_consts)
  apply (simp add: EdgeCasePost_def has_case_consts)
  apply (simp add: EdgeCaseComment_def has_case_consts)
  apply (simp add: ValidatedAddress_def has_case_consts)
  apply (simp add: ArrayValidationExtremes_def has_case_consts)
  apply (simp add: Comment_def has_case_consts)
  apply (simp add: CartItem_def has_case_consts)
  apply (simp add: Order_def has_case_consts)
  apply (simp add: ComplexPayment_def has_case_consts)
  apply (simp add: Session_def has_case_consts)
  apply (simp add: InnerValidated_def has_case_consts)
  apply (simp add: OuterWithNestedValidator_def has_case_consts)
  apply (simp add: Product_def has_case_consts)
  apply (simp add: ValidatedContact_def has_case_consts)
  apply (simp add: DeepNestedValidation_def has_case_consts)
  done

lemma wrapper_piped_field_names:
  "map fst (filter (\<lambda>f. wrapper_piped (snd f)) (class_fields Address)) = []"
  "map fst (filter (\<lambda>f. wrapper_piped (snd f)) (class_fields User)) = []"
  "map fst (filter (\<lambda>f. wrapper_piped (snd f)) (class_fields Customer)) = []"
  "map fst (filter (\<lambda>f. wrapper_piped (snd f)) (class_fields Tag)) = [''description'']"
  "map fst (filter (\<lambda>f. wrapper_piped (snd f)) (class_fields Author)) = [''bio'', ''twitterHandle'', ''githubHandle'']"
  "map fst (filter (\<lambda>f. wrapper_piped (snd f)) (class_fields Post)) = [''excerpt'']"
  "map fst (filter (\<lambda>f. wrapper_piped (snd f)) (class_fields EdgeCaseUser)) = [''rating'']"
  "map fst (filter (\<lambda>f. wrapper_piped (snd f)) (class_fields EdgeCasePost)) = [''metaDescription'']"
  "map fst (filter (\<lambda>f. wrapper_piped (snd f)) (class_fields EdgeCaseComment)) = []"
  "map fst (filter (\<lambda>f. wrapper_piped (snd f)) (class_fields ValidatedAddress)) = [''latitude'', ''longitude'']"
  "map fst (filter (\<lambda>f. wrapper_piped (snd f)) (class_fields ArrayValidationExtremes)) = []"
  "map fst (filter (\<lambda>f. wrapper_piped (snd f)) (class_fields Comment)) = []"
  "map fst (filter (\<lambda>f. wrapper_piped (snd f)) (class_fields CartItem)) = []"
  "map fst (filter (\<lambda>f. wrapper_piped (snd f)) (class_fields Order)) = [''notes'']"
  "map fst (filter (\<lambda>f. wrapper_piped (snd f)) (class_fields ComplexPayment)) = [''notes'', ''failureReason'']"
  "map fst (filter (\<lambda>f. wrapper_piped (snd f)) (class_fields Session)) = []"
  "map fst (filter (\<lambda>f. wrapper_piped (snd f)) (class_fields InnerValidated)) = []"
  "map fst (filter (\<lambda>f. wrapper_piped (snd f)) (class_fields OuterWithNestedValidator)) = []"
  "map fst (filter (\<lambda>f. wrapper_piped (snd f)) (class_fields Product)) = []"
  "map fst (filter (\<lambda>f. wrapper_piped (snd f)) (class_fields ValidatedContact)) = [''phone'', ''title'']"
  "map fst (filter (\<lambda>f. wrapper_piped (snd f)) (class_fields DeepNestedValidation)) = [''creditLimit'']"
  apply (simp add: Address_def wrapper_piped_consts)
  apply (simp add: User_def wrapper_piped_consts)
  apply (simp add: Customer_def wrapper_piped_consts)
  apply (simp add: Tag_def wrapper_piped_consts)
  apply (simp add: Author_def wrapper_piped_consts)
  apply (simp add: Post_def wrapper_piped_consts)
  apply (simp add: EdgeCaseUser_def wrapper_piped_consts)
  apply (simp add: EdgeCasePost_def wrapper_piped_consts)
  apply (simp add: EdgeCaseComment_def wrapper_piped_consts)
  apply (simp add: ValidatedAddress_def wrapper_piped_consts)
  apply (simp add: ArrayValidationExtremes_def wrapper_piped_consts)
  apply (simp add: Comment_def wrapper_piped_consts)
  apply (simp add: CartItem_def wrapper_piped_consts)
  apply (simp add: Order_def wrapper_piped_consts)
  apply (simp add: ComplexPayment_def wrapper_piped_consts)
  apply (simp add: Session_def wrapper_piped_consts)
  apply (simp add: InnerValidated_def wrapper_piped_consts)
  apply (simp add: OuterWithNestedValidator_def wrapper_piped_consts)
  apply (simp add: Product_def wrapper_piped_consts)
  apply (simp add: ValidatedContact_def wrapper_piped_consts)
  apply (simp add: DeepNestedValidation_def wrapper_piped_consts)
  done

lemma class_named_types:
  "class_named ''MaxValidatorStacking'' = None"
  "class_named ''Customer'' = Some Customer"
  "class_named ''Order'' = Some Order"
  "class_named ''ArrayValidationExtremes'' = Some ArrayValidationExtremes"
  "class_named ''DateTimeExtremes'' = None"
  "class_named ''NetworkTypes'' = None"
  "class_named ''Session'' = Some Session"
  "class_named ''ComplexStringValidation'' = None"
  "class_named ''FloatValidation'' = None"
  "class_named ''NonEmptyOptionString'' = None"
  "class_named ''ComplexIdentifiers'' = None"
  "class_named ''Post'' = Some Post"
  "class_named ''KitchenSinkString'' = None"
  "class_named ''MultipleNumberValidators'' = None"
  "class_named ''BusinessExtremes'' = None"
  "class_named ''DeepNestedValidation'' = Some DeepNestedValidation"
  "class_named ''EdgeCasePost'' = Some EdgeCasePost"
  "class_named ''OptionalIntegerValidation'' = None"
  "class_named ''Product'' = Some Product"
  "class_named ''ExtremeIntegerValidation'' = None"
  "class_named ''User'' = Some User"
  "class_named ''Tag'' = Some Tag"
  "class_named ''EdgeCaseUser'' = Some EdgeCaseUser"
  "class_named ''ValidatedAddress'' = Some ValidatedAddress"
  "class_named ''PersonalInfoExtremes'' = None"
  "class_named ''Comment'' = Some Comment"
  "class_named ''ComplexPayment'' = Some ComplexPayment"
  "class_named ''CaseValidation'' = None"
  "class_named ''IntegerBounds'' = None"
  "class_named ''MultiValidatorOptionalString'' = None"
  "class_named ''InnerValidated'' = Some InnerValidated"
  "class_named ''Address'' = Some Address"
  "class_named ''EdgeCaseComment'' = Some EdgeCaseComment"
  "class_named ''ExtremeFloatValidation'' = None"
  "class_named ''Author'' = Some Author"
  "class_named ''ValidatedContact'' = Some ValidatedContact"
  "class_named ''AllIntegerTypes'' = None"
  "class_named ''OuterWithNestedValidator'' = Some OuterWithNestedValidator"
  "class_named ''CartItem'' = Some CartItem"
  by (simp_all only: class_named_def classes_def class_names find.simps eval_rules cong: if_weak_cong)

subsection \<open>The scope of arktype.ts\<close>

lemma entries_named_classes:
  "entries_named ''Address'' = [bindings_Address]"
  "entries_named ''User'' = [bindings_User, bindings_User_2]"
  "entries_named ''Customer'' = [bindings_Customer, bindings_Customer_2]"
  "entries_named ''Tag'' = [bindings_Tag, bindings_Tag_2]"
  "entries_named ''Author'' = [bindings_Author, bindings_Author_2]"
  "entries_named ''Post'' = [bindings_Post, bindings_Post_2]"
  "entries_named ''EdgeCaseUser'' = [bindings_EdgeCaseUser, bindings_EdgeCaseUser_2]"
  "entries_named ''EdgeCasePost'' = [bindings_EdgeCasePost, bindings_EdgeCasePost_2]"
  "entries_named ''EdgeCaseComment'' = [bindings_EdgeCaseComment, bindings_EdgeCaseComment_2]"
  "entries_named ''ValidatedAddress'' = [bindings_ValidatedAddress]"
  "entries_named ''ArrayValidationExtremes'' = [bindings_ArrayValidationExtremes, bindings_ArrayValidationExtremes_2]"
  "entries_named ''Comment'' = [bindings_Comment, bindings_Comment_2]"
  "entries_named ''CartItem'' = [bindings_CartItem]"
  "entries_named ''Order'' = [bindings_Order, bindings_Order_2]"
  "entries_named ''ComplexPayment'' = [bindings_ComplexPayment, bindings_ComplexPayment_2]"
  "entries_named ''Session'' = [bindings_Session, bindings_Session_2]"
  "entries_named ''InnerValidated'' = [bindings_InnerValidated]"
  "entries_named ''OuterWithNestedValidator'' = [bindings_OuterWithNestedValidator, bindings_OuterWithNestedValidator_2]"
  "entries_named ''Product'' = [bindings_Product, bindings_Product_2]"
  "entries_named ''ValidatedContact'' = [bindings_ValidatedContact]"
  "entries_named ''DeepNestedValidation'' = [bindings_DeepNestedValidation, bindings_DeepNestedValidation_2]"
  by (simp_all only: entries_named_def bindings_def eval_rules cong: if_weak_cong)

lemma same_fields_classes:
  "entries_named (class_name Address) \<noteq> [] \<and>
   list_all (\<lambda>d. obj_keys d = Some (map fst (class_fields Address))) (entries_named (class_name Address))"
  "entries_named (class_name User) \<noteq> [] \<and>
   list_all (\<lambda>d. obj_keys d = Some (map fst (class_fields User))) (entries_named (class_name User))"
  "entries_named (class_name Customer) \<noteq> [] \<and>
   list_all (\<lambda>d. obj_keys d = Some (map fst (class_fields Customer))) (entries_named (class_name Customer))"
  "entries_named (class_name Tag) \<noteq> [] \<and>
   list_all (\<lambda>d. obj_keys d = Some (map fst (class_fields Tag))) (entries_named (class_name Tag))"
  "entries_named (class_name Author) \<noteq> [] \<and>
   list_all (\<lambda>d. obj_keys d = Some (map fst (class_fields Author))) (entries_named (class_name Author))"
  "entries_named (class_name Post) \<noteq> [] \<and>
   list_all (\<lambda>d. obj_keys d = Some (map fst (class_fields Post))) (entries_named (class_name Post))"
  "entries_named (class_name EdgeCaseUser) \<noteq> [] \<and>
   list_all (\<lambda>d. obj_keys d = Some (map fst (class_fields EdgeCaseUser))) (entries_named (class_name EdgeCaseUser))"
  "entries_named (class_name EdgeCasePost) \<noteq> [] \<and>
   list_all (\<lambda>d. obj_keys d = Some (map fst (class_fields EdgeCasePost))) (entries_named (class_name EdgeCasePost))"
  "entries_named (class_name EdgeCaseComment) \<noteq> [] \<and>
   list_all (\<lambda>d. obj_keys d = Some (map fst (class_fields EdgeCaseComment))) (entries_named (class_name EdgeCaseComment))"
  "entries_named (class_name ValidatedAddress) \<noteq> [] \<and>
   list_all (\<lambda>d. obj_keys d = Some (map fst (class_fields ValidatedAddress))) (entries_named (class_name ValidatedAddress))"
  "entries_named (class_name ArrayValidationExtremes) \<noteq> [] \<and>
   list_all (\<lambda>d. obj_keys d = Some (map fst (class_fields ArrayValidationExtremes))) (entries_named (class_name ArrayValidationExtremes))"
  "entries_named (class_name Comment) \<noteq> [] \<and>
   list_all (\<lambda>d. obj_keys d = Some (map fst (class_fields Comment))) (entries_named (class_name Comment))"
  "entries_named (class_name CartItem) \<noteq> [] \<and>
   list_all (\<lambda>d. obj_keys d = Some (map fst (class_fields CartItem))) (entries_named (class_name CartItem))"
  "entries_named (class_name Order) \<noteq> [] \<and>
   list_all (\<lambda>d. obj_keys d = Some (map fst (class_fields Order))) (entries_named (class_name Order))"
  "entries_named (class_name ComplexPayment) \<noteq> [] \<and>
   list_all (\<lambda>d. obj_keys d = Some (map fst (class_fields ComplexPayment))) (entries_named (class_name ComplexPayment))"
  "entries_named (class_name Session) \<noteq> [] \<and>
   list_all (\<lambda>d. obj_keys d = Some (map fst (class_fields Session))) (entries_named (class_name Session))"
  "entries_named (class_name InnerValidated) \<noteq> [] \<and>
   list_all (\<lambda>d. obj_keys d = Some (map fst (class_fields InnerValidated))) (entries_named (class_name InnerValidated))"
  "entries_named (class_name OuterWithNestedValidator) \<noteq> [] \<and>
   list_all (\<lambda>d. obj_keys d = Some (map fst (class_fields OuterWithNestedValidator))) (entries_named (class_name OuterWithNestedValidator))"
  "entries_named (class_name Product) \<noteq> [] \<and>
   list_all (\<lambda>d. obj_keys d = Some (map fst (class_fields Product))) (entries_named (class_name Product))"
  "entries_named (class_name ValidatedContact) \<noteq> [] \<and>
   list_all (\<lambda>d. obj_keys d = Some (map fst (class_fields ValidatedContact))) (entries_named (class_name ValidatedContact))"
  "entries_named (class_name DeepNestedValidation) \<noteq> [] \<and>
   list_all (\<lambda>d. obj_keys d = Some (map fst (class_fields DeepNestedValidation))) (entries_named (class_name DeepNestedValidation))"
  apply (simp add: Address_def entries_named_classes bindings_Address_def)
  apply (simp add: User_def entries_named_classes bindings_User_def bindings_User_2_def)
  apply (simp add: Customer_def entries_named_classes bindings_Customer_def bindings_Customer_2_def)
  apply (simp add: Tag_def entries_named_classes bindings_Tag_def bindings_Tag_2_def)
  apply (simp add: Author_def entries_named_classes bindings_Author_def bindings_Author_2_def)
  apply (simp add: Post_def entries_named_classes bindings_Post_def bindings_Post_2_def)
  apply (simp add: EdgeCaseUser_def entries_named_classes bindings_EdgeCaseUser_def bindings_EdgeCaseUser_2_def)
  apply (simp add: EdgeCasePost_def entries_named_classes bindings_EdgeCasePost_def bindings_EdgeCasePost_2_def)
  apply (simp add: EdgeCaseComment_def entries_named_classes bindings_EdgeCaseComment_def bindings_EdgeCaseComment_2_def)
  apply (simp add: ValidatedAddress_def entries_named_classes bindings_ValidatedAddress_def)
  apply (simp add: ArrayValidationExtremes_def entries_named_classes bindings_ArrayValidationExtremes_def bindings_ArrayValidationExtremes_2_def)
  apply (simp add: Comment_def entries_named_classes bindings_Comment_def bindings_Comment_2_def)
  apply (simp add: CartItem_def entries_named_classes bindings_CartItem_def)
  apply (simp add: Order_def entries_named_classes bindings_Order_def bindings_Order_2_def)
  apply (simp add: ComplexPayment_def entries_named_classes bindings_ComplexPayment_def bindings_ComplexPayment_2_def)
  apply (simp add: Session_def entries_named_classes bindings_Session_def bindings_Session_2_def)
  apply (simp add: InnerValidated_def entries_named_classes bindings_InnerValidated_def)
  apply (simp add: OuterWithNestedValidator_def entries_named_classes bindings_OuterWithNestedValidator_def bindings_OuterWithNestedValidator_2_def)
  apply (simp add: Product_def entries_named_classes bindings_Product_def bindings_Product_2_def)
  apply (simp add: ValidatedContact_def entries_named_classes bindings_ValidatedContact_def)
  apply (simp add: DeepNestedValidation_def entries_named_classes bindings_DeepNestedValidation_def bindings_DeepNestedValidation_2_def)
  done

lemma lookup_bindings:
  "lookup_last bindings ''Role'' = Some bindings_Role"
  "lookup_last bindings ''PaymentMethod'' = Some bindings_PaymentMethod"
  "lookup_last bindings ''ProductCategory'' = Some bindings_ProductCategory"
  "lookup_last bindings ''OrderStatus'' = Some bindings_OrderStatus"
  "lookup_last bindings ''PaymentStatus'' = Some bindings_PaymentStatus"
  "lookup_last bindings ''MaxValidatorStacking'' = Some bindings_MaxValidatorStacking_2"
  "lookup_last bindings ''Customer'' = Some bindings_Customer_2"
  "lookup_last bindings ''Order'' = Some bindings_Order_2"
  "lookup_last bindings ''ArrayValidationExtremes'' = Some bindings_ArrayValidationExtremes_2"
  "lookup_last bindings ''DateTimeExtremes'' = Some bindings_DateTimeExtremes_2"
  "lookup_last bindings ''NetworkTypes'' = Some bindings_NetworkTypes_2"
  "lookup_last bindings ''Session'' = Some bindings_Session_2"
  "lookup_last bindings ''ComplexStringValidation'' = Some bindings_ComplexStringValidation_2"
  "lookup_last bindings ''FloatValidation'' = Some bindings_FloatValidation_2"
  "lookup_last bindings ''NonEmptyOptionString'' = Some bindings_NonEmptyOptionString_2"
  "lookup_last bindings ''ComplexIdentifiers'' = Some bindings_ComplexIdentifiers_2"
  "lookup_last bindings ''Post'' = Some bindings_Post_2"
  "lookup_last bindings ''KitchenSinkString'' = Some bindings_KitchenSinkString_2"
  "lookup_last bindings ''MultipleNumberValidators'' = Some bindings_MultipleNumberValidators_2"
  "lookup_last bindings ''BusinessExtremes'' = Some bindings_BusinessExtremes_2"
  "lookup_last bindings ''DeepNestedValidation'' = Some bindings_DeepNestedValidation_2"
  "lookup_last bindings ''EdgeCasePost'' = Some bindings_EdgeCasePost_2"
  "lookup_last bindings ''OptionalIntegerValidation'' = Some bindings_OptionalIntegerValidation_2"
  "lookup_last bindings ''Product'' = Some bindings_Product_2"
  "lookup_last bindings ''ExtremeIntegerValidation'' = Some bindings_ExtremeIntegerValidation_2"
  "lookup_last bindings ''User'' = Some bindings_User_2"
  "lookup_last bindings ''Tag'' = Some bindings_Tag_2"
  "lookup_last bindings ''EdgeCaseUser'' = Some bindings_EdgeCaseUser_2"
  "lookup_last bindings ''ValidatedAddress'' = Some bindings_ValidatedAddress"
  "lookup_last bindings ''PersonalInfoExtremes'' = Some bindings_PersonalInfoExtremes_2"
  "lookup_last bindings ''Comment'' = Some bindings_Comment_2"
  "lookup_last bindings ''ComplexPayment'' = Some bindings_ComplexPayment_2"
  "lookup_last bindings ''CaseValidation'' = Some bindings_CaseValidation_2"
  "lookup_last bindings ''IntegerBounds'' = Some bindings_IntegerBounds_2"
  "lookup_last bindings ''MultiValidatorOptionalString'' = Some bindings_MultiValidatorOptionalString_2"
  "lookup_last bindings ''InnerValidated'' = Some bindings_InnerValidated"
  "lookup_last bindings ''Address'' = Some bindings_Address"
  "lookup_last bindings ''EdgeCaseComment'' = Some bindings_EdgeCaseComment_2"
  "lookup_last bindings ''ExtremeFloatValidation'' = Some bindings_ExtremeFloatValidation_2"
  "lookup_last bindings ''Author'' = Some bindings_Author_2"
  "lookup_last bindings ''ValidatedContact'' = Some bindings_ValidatedContact"
  "lookup_last bindings ''AllIntegerTypes'' = Some bindings_AllIntegerTypes_2"
  "lookup_last bindings ''OuterWithNestedValidator'' = Some bindings_OuterWithNestedValidator_2"
  "lookup_last bindings ''CartItem'' = Some bindings_CartItem"
  by (simp_all only: bindings_def lookup_last.simps eval_rules)

lemma uncapitalize_keys:
  "uncapitalize ''Role'' = ''role''"
  "uncapitalize ''PaymentMethod'' = ''paymentMethod''"
  "uncapitalize ''ProductCategory'' = ''productCategory''"
  "uncapitalize ''OrderStatus'' = ''orderStatus''"
  "uncapitalize ''PaymentStatus'' = ''paymentStatus''"
  "uncapitalize ''MaxValidatorStacking'' = ''maxValidatorStacking''"
  "uncapitalize ''Customer'' = ''customer''"
  "uncapitalize ''Order'' = ''order''"
  "uncapitalize ''ArrayValidationExtremes'' = ''arrayValidationExtremes''"
  "uncapitalize ''DateTimeExtremes'' = ''dateTimeExtremes''"
  "uncapitalize ''NetworkTypes'' = ''networkTypes''"
  "uncapitalize ''Session'' = ''session''"
  "uncapitalize ''ComplexStringValidation'' = ''complexStringValidation''"
  "uncapitalize ''FloatValidation'' = ''floatValidation''"
  "uncapitalize ''NonEmptyOptionString'' = ''nonEmptyOptionString''"
  "uncapitalize ''ComplexIdentifiers'' = ''complexIdentifiers''"
  "uncapitalize ''Post'' = ''post''"
  "uncapitalize ''KitchenSinkString'' = ''kitchenSinkString''"
  "uncapitalize ''MultipleNumberValidators'' = ''multipleNumberValidators''"
  "uncapitalize ''BusinessExtremes'' = ''businessExtremes''"
  "uncapitalize ''DeepNestedValidation'' = ''deepNestedValidation''"
  "uncapitalize ''EdgeCasePost'' = ''edgeCasePost''"
  "uncapitalize ''OptionalIntegerValidation'' = ''optionalIntegerValidation''"
  "uncapitalize ''Product'' = ''product''"
  "uncapitalize ''ExtremeIntegerValidation'' = ''extremeIntegerValidation''"
  "uncapitalize ''User'' = ''user''"
  "uncapitalize ''Tag'' = ''tag''"
  "uncapitalize ''EdgeCaseUser'' = ''edgeCaseUser''"
  "uncapitalize ''ValidatedAddress'' = ''validatedAddress''"
  "uncapitalize ''PersonalInfoExtremes'' = ''personalInfoExtremes''"
  "uncapitalize ''Comment'' = ''comment''"
  "uncapitalize ''ComplexPayment'' = ''complexPayment''"
  "uncapitalize ''CaseValidation'' = ''caseValidation''"
  "uncapitalize ''IntegerBounds'' = ''integerBounds''"
  "uncapitalize ''MultiValidatorOptionalString'' = ''multiValidatorOptionalString''"
  "uncapitalize ''InnerValidated'' = ''innerValidated''"
  "uncapitalize ''Address'' = ''address''"
  "uncapitalize ''EdgeCaseComment'' = ''edgeCaseComment''"
  "uncapitalize ''ExtremeFloatValidation'' = ''extremeFloatValidation''"
  "uncapitalize ''Author'' = ''author''"
  "uncapitalize ''ValidatedContact'' = ''validatedContact''"
  "uncapitalize ''AllIntegerTypes'' = ''allIntegerTypes''"
  "uncapitalize ''OuterWithNestedValidator'' = ''outerWithNestedValidator''"
  "uncapitalize ''CartItem'' = ''cartItem''"
  by (simp_all add: uncapitalize_def lower_char_def char_of_def bit_0)

lemma resolve_bindings:
  "resolve bindings ''user'' = Some bindings_User_2"
  "resolve bindings ''address'' = Some bindings_Address"
  "resolve bindings ''customer'' = Some bindings_Customer_2"
  "resolve bindings ''cartItem'' = Some bindings_CartItem"
  "resolve bindings ''orderStatus'' = Some bindings_OrderStatus"
  "resolve bindings ''validatedAddress'' = Some bindings_ValidatedAddress"
  "resolve bindings ''author'' = Some bindings_Author_2"
  "resolve bindings ''tag'' = Some bindings_Tag_2"
  "resolve bindings ''validatedContact'' = Some bindings_ValidatedContact"
  "resolve bindings ''edgeCaseUser'' = Some bindings_EdgeCaseUser_2"
  "resolve bindings ''productCategory'' = Some bindings_ProductCategory"
  "resolve bindings ''role'' = Some bindings_Role"
  "resolve bindings ''post'' = Some bindings_Post_2"
  "resolve bindings ''paymentStatus'' = Some bindings_PaymentStatus"
  "resolve bindings ''paymentMethod'' = Some bindings_PaymentMethod"
  "resolve bindings ''edgeCasePost'' = Some bindings_EdgeCasePost_2"
  "resolve bindings ''innerValidated'' = Some bindings_InnerValidated"
  by (simp_all only: resolve_def bindings_def uncapitalize_keys lookup_last.simps eval_rules)

lemma allows_numeral:
  "allows (numeral k) sc (Keyword kw) v =
     (if kw = ''string'' then Inr (case v of JStr s \<Rightarrow> True | _ \<Rightarrow> False)
      else if kw = ''number'' then Inr (case v of JNum x \<Rightarrow> True | _ \<Rightarrow> False)
      else if kw = ''boolean'' then Inr (case v of JBool b \<Rightarrow> True | _ \<Rightarrow> False)
      else if kw = ''undefined'' then Inr (v = JUndefined)
      else if kw = ''null'' then Inr (v = JNull)
      else case resolve sc kw of
             None \<Rightarrow> Inl (Unresolvable kw)
           | Some d \<Rightarrow> allows (pred_numeral k) sc d v)"
  "allows (numeral k) sc (Eq l) v = Inr (v = JStr l)"
  "allows (numeral k) sc (Or a b) v =
     (case allows (pred_numeral k) sc a v of
        Inl e \<Rightarrow> Inl e
      | Inr ok \<Rightarrow> if ok then Inr True else allows (pred_numeral k) sc b v)"
  "allows (numeral k) sc (ArrayOf d) v =
     (case v of
        JArr xs \<Rightarrow> all_allowed (map (allows (pred_numeral k) sc d) xs)
      | _ \<Rightarrow> Inr False)"
  "allows (numeral k) sc (Obj fields) v =
     (case v of
        JObj kvs \<Rightarrow>
          all_allowed (map (\<lambda>f.
             case map_of kvs (fst f) of
               None \<Rightarrow> Inr False
             | Some x \<Rightarrow> allows (pred_numeral k) sc (snd f) x) fields)
      | _ \<Rightarrow> Inr False)"
  by (simp_all add: numeral_eq_Suc)

lemmas ark_eval =
  validator_def lookup_bindings resolve_bindings allows_numeral all_allowed.simps
  pred_numeral_simps BitM.simps arkdef.case eval_rules

subsection \<open>The default instances\<close>

lemma defaults_allowed:
  "validator 20 ''MaxValidatorStacking'' defaultMaxValidatorStacking = Inr True"
  "validator 20 ''Customer'' defaultCustomer = Inr True"
  "validator 20 ''ArrayValidationExtremes'' defaultArrayValidationExtremes = Inr True"
  "validator 20 ''DateTimeExtremes'' defaultDateTimeExtremes = Inr True"
  "validator 20 ''NetworkTypes'' defaultNetworkTypes = Inr True"
  "validator 20 ''NetworkTypes'' defaultNetworkTypes_2 = Inr True"
  "validator 20 ''Session'' defaultSession = Inr True"
  "validator 20 ''ComplexStringValidation'' defaultComplexStringValidation = Inr True"
  "validator 20 ''FloatValidation'' defaultFloatValidation = Inr True"
  "validator 20 ''NonEmptyOptionString'' defaultNonEmptyOptionString = Inr True"
  "validator 20 ''ComplexIdentifiers'' defaultComplexIdentifiers = Inr True"
  "validator 20 ''Post'' defaultPost = Inr True"
  "validator 20 ''KitchenSinkString'' defaultKitchenSinkString = Inr True"
  "validator 20 ''ComplexIdentifiers'' defaultComplexIdentifiers_2 = Inr True"
  "validator 20 ''MultipleNumberValidators'' defaultMultipleNumberValidators = Inr True"
  "validator 20 ''BusinessExtremes'' defaultBusinessExtremes = Inr True"
  "validator 20 ''DeepNestedValidation'' defaultDeepNestedValidation = Inr True"
  "validator 20 ''EdgeCasePost'' defaultEdgeCasePost = Inr True"
  "validator 20 ''OptionalIntegerValidation'' defaultOptionalIntegerValidation = Inr True"
  "validator 20 ''EdgeCasePost'' defaultEdgeCasePost_2 = Inr True"
  "validator 20 ''ExtremeIntegerValidation'' defaultExtremeIntegerValidation = Inr True"
  "validator 20 ''User'' defaultUser = Inr True"
  "validator 20 ''Tag'' defaultTag = Inr True"
  "validator 20 ''EdgeCaseUser'' defaultEdgeCaseUser = Inr True"
  "validator 20 ''ValidatedAddress'' defaultValidatedAddress = Inr True"
  "validator 20 ''PersonalInfoExtremes'' defaultPersonalInfoExtremes = Inr True"
  "validator 20 ''DeepNestedValidation'' defaultDeepNestedValidation_2 = Inr True"
  "validator 20 ''OptionalIntegerValidation'' defaultOptionalIntegerValidation_2 = Inr True"
  "validator 20 ''Comment'' defaultComment = Inr True"
  "validator 20 ''FloatValidation'' defaultFloatValidation_2 = Inr True"
  "validator 20 ''Session'' defaultSession_2 = Inr True"
  "validator 20 ''ExtremeIntegerValidation'' defaultExtremeIntegerValidation_2 = Inr True"
  "validator 20 ''CaseValidation'' defaultCaseValidation = Inr True"
  "validator 20 ''IntegerBounds'' defaultIntegerBounds = Inr True"
  "validator 20 ''MultiValidatorOptionalString'' defaultMultiValidatorOptionalString = Inr True"
  "validator 20 ''InnerValidated'' defaultInnerValidated = Inr True"
  "validator 20 ''Address'' defaultAddress = Inr True"
  "validator 20 ''EdgeCaseComment'' defaultEdgeCaseComment = Inr True"
  "validator 20 ''ExtremeFloatValidation'' defaultExtremeFloatValidation = Inr True"
  "validator 20 ''BusinessExtremes'' defaultBusinessExtremes_2 = Inr True"
  "validator 20 ''Post'' defaultPost_2 = Inr True"
  "validator 20 ''Customer'' defaultCustomer_2 = Inr True"
  "validator 20 ''MaxValidatorStacking'' defaultMaxValidatorStacking_2 = Inr True"
  "validator 20 ''User'' defaultUser_2 = Inr True"
  "validator 20 ''Author'' defaultAuthor = Inr True"
  "validator 20 ''Tag'' defaultTag_2 = Inr True"
  "validator 20 ''Comment'' defaultComment_2 = Inr True"
  "validator 20 ''CaseValidation'' defaultCaseValidation_2 = Inr True"
  "validator 20 ''ValidatedContact'' defaultValidatedContact = Inr True"
  "validator 20 ''NonEmptyOptionString'' defaultNonEmptyOptionString_2 = Inr True"
  "validator 20 ''MultiValidatorOptionalString'' defaultMultiValidatorOptionalString_2 = Inr True"
  "validator 20 ''Author'' defaultAuthor_2 = Inr True"
  "validator 20 ''AllIntegerTypes'' defaultAllIntegerTypes = Inr True"
  "validator 20 ''DateTimeExtremes'' defaultDateTimeExtremes_2 = Inr True"
  "validator 20 ''PersonalInfoExtremes'' defaultPersonalInfoExtremes_2 = Inr True"
  "validator 20 ''ExtremeFloatValidation'' defaultExtremeFloatValidation_2 = Inr True"
  "validator 20 ''ComplexStringValidation'' defaultComplexStringValidation_2 = Inr True"
  "validator 20 ''OuterWithNestedValidator'' defaultOuterWithNestedValidator = Inr True"
  "validator 20 ''EdgeCaseUser'' defaultEdgeCaseUser_2 = Inr True"
  "validator 20 ''KitchenSinkString'' defaultKitchenSinkString_2 = Inr True"
  "validator 20 ''ArrayValidationExtremes'' defaultArrayValidationExtremes_2 = Inr True"
  "validator 20 ''IntegerBounds'' defaultIntegerBounds_2 = Inr True"
  "validator 20 ''OuterWithNestedValidator'' defaultOuterWithNestedValidator_2 = Inr True"
  "validator 20 ''EdgeCaseComment'' defaultEdgeCaseComment_2 = Inr True"
  "validator 20 ''MultipleNumberValidators'' defaultMultipleNumberValidators_2 = Inr True"
  "validator 20 ''AllIntegerTypes'' defaultAllIntegerTypes_2 = Inr True"
  "validator 20 ''CartItem'' defaultCartItem = Inr True"
  by (simp_all only: ark_eval bindings_defs defaults_defs)

lemma defaults_rejected:
  "\<not> is_ok (decode Customer [] defaultCustomer)"
  "\<not> is_ok (decode Order [] defaultOrder)"
  "\<not> is_ok (decode ArrayValidationExtremes [] defaultArrayValidationExtremes)"
  "\<not> is_ok (decode Session [] defaultSession)"
  "\<not> is_ok (decode Post [] defaultPost)"
  "\<not> is_ok (decode DeepNestedValidation [] defaultDeepNestedValidation)"
  "\<not> is_ok (decode EdgeCasePost [] defaultEdgeCasePost)"
  "\<not> is_ok (decode EdgeCasePost [] defaultEdgeCasePost_2)"
  "\<not> is_ok (decode Product [] defaultProduct)"
  "\<not> is_ok (decode User [] defaultUser)"
  "\<not> is_ok (decode Tag [] defaultTag)"
  "\<not> is_ok (decode EdgeCaseUser [] defaultEdgeCaseUser)"
  "\<not> is_ok (decode ValidatedAddress [] defaultValidatedAddress)"
  "\<not> is_ok (decode DeepNestedValidation [] defaultDeepNestedValidation_2)"
  "\<not> is_ok (decode Comment [] defaultComment)"
  "\<not> is_ok (decode ComplexPayment [] defaultComplexPayment)"
  "\<not> is_ok (decode Session [] defaultSession_2)"
  "\<not> is_ok (decode InnerValidated [] defaultInnerValidated)"
  "\<not> is_ok (decode Address [] defaultAddress)"
  "\<not> is_ok (decode EdgeCaseComment [] defaultEdgeCaseComment)"
  "\<not> is_ok (decode Post [] defaultPost_2)"
  "\<not> is_ok (decode Customer [] defaultCustomer_2)"
  "\<not> is_ok (decode User [] defaultUser_2)"
  "\<not> is_ok (decode Product [] defaultProduct_2)"
  "\<not> is_ok (decode Author [] defaultAuthor)"
  "\<not> is_ok (decode Order [] defaultOrder_2)"
  "\<not> is_ok (decode Tag [] defaultTag_2)"
  "\<not> is_ok (decode Comment [] defaultComment_2)"
  "\<not> is_ok (decode ValidatedContact [] defaultValidatedContact)"
  "\<not> is_ok (decode Author [] defaultAuthor_2)"
  "\<not> is_ok (decode ComplexPayment [] defaultComplexPayment_2)"
  "\<not> is_ok (decode OuterWithNestedValidator [] defaultOuterWithNestedValidator)"
  "\<not> is_ok (decode EdgeCaseUser [] defaultEdgeCaseUser_2)"
  "\<not> is_ok (decode ArrayValidationExtremes [] defaultArrayValidationExtremes_2)"
  "\<not> is_ok (decode OuterWithNestedValidator [] defaultOuterWithNestedValidator_2)"
  "\<not> is_ok (decode EdgeCaseComment [] defaultEdgeCaseComment_2)"
  "\<not> is_ok (decode CartItem [] defaultCartItem)"
  apply (simp add: Customer_def defaultCustomer_def decode_eval)
  apply (simp add: Order_def defaultOrder_def decode_eval)
  apply (simp add: ArrayValidationExtremes_def defaultArrayValidationExtremes_def decode_eval)
  apply (simp add: Session_def defaultSession_def decode_eval)
  apply (simp add: Post_def defaultPost_def decode_eval)
  apply (simp add: DeepNestedValidation_def defaultDeepNestedValidation_def decode_eval)
  apply (simp add: EdgeCasePost_def defaultEdgeCasePost_def decode_eval)
  apply (simp add: EdgeCasePost_def defaultEdgeCasePost_2_def decode_eval)
  apply (simp add: Product_def defaultProduct_def decode_eval)
  apply (simp add: User_def defaultUser_def decode_eval)
  apply (simp add: Tag_def defaultTag_def decode_eval)
  apply (simp add: EdgeCaseUser_def defaultEdgeCaseUser_def decode_eval)
  apply (simp add: ValidatedAddress_def defaultValidatedAddress_def decode_eval)
  apply (simp add: DeepNestedValidation_def defaultDeepNestedValidation_2_def decode_eval)
  apply (simp add: Comment_def defaultComment_def decode_eval)
  apply (simp add: ComplexPayment_def defaultComplexPayment_def decode_eval)
  apply (simp add: Session_def defaultSession_2_def decode_eval)
  apply (simp add: InnerValidated_def defaultInnerValidated_def decode_eval)
  apply (simp add: Address_def defaultAddress_def decode_eval)
  apply (simp add: EdgeCaseComment_def defaultEdgeCaseComment_def decode_eval)
  apply (simp add: Post_def defaultPost_2_def decode_eval)
  apply (simp add: Customer_def defaultCustomer_2_def decode_eval)
  apply (simp add: User_def defaultUser_2_def decode_eval)
  apply (simp add: Product_def defaultProduct_2_def decode_eval)
  apply (simp add: Author_def defaultAuthor_def decode_eval)
  apply (simp add: Order_def defaultOrder_2_def decode_eval)
  apply (simp add: Tag_def defaultTag_2_def decode_eval)
  apply (simp add: Comment_def defaultComment_2_def decode_eval)
  apply (simp add: ValidatedContact_def defaultValidatedContact_def decode_eval)
  apply (simp add: Author_def defaultAuthor_2_def decode_eval)
  apply (simp add: ComplexPayment_def defaultComplexPayment_2_def decode_eval)
  apply (simp add: OuterWithNestedValidator_def defaultOuterWithNestedValidator_def decode_eval)
  apply (simp add: EdgeCaseUser_def defaultEdgeCaseUser_2_def decode_eval)
  apply (simp add: ArrayValidationExtremes_def defaultArrayValidationExtremes_2_def decode_eval)
  apply (simp add: OuterWithNestedValidator_def defaultOuterWithNestedValidator_2_def decode_eval)
  apply (simp add: EdgeCaseComment_def defaultEdgeCaseComment_2_def decode_eval)
  apply (simp add: CartItem_def defaultCartItem_def decode_eval)
  done

section \<open>Claims\<close>

subsection \<open>C1: default instances against the validated schemas\<close>

text \<open>
  Counterexample to C1.  \<open>defaultCartItem\<close> does not validate against \<open>CartItem\<close>: both
  strings are empty and both numbers are zero, while the schema wants non-empty strings
  and positive numbers.  \<open>defaultOrder\<close> does not validate against \<open>Order\<close> either.
\<close>

theorem defaultCartItem_rejected:
  "decode CartItem [] defaultCartItem
     = Inl [Error ConstraintViolation [Key ''productId''] (Some ''Please enter a value''),
            Error ConstraintViolation [Key ''productName''] (Some ''Please enter a value''),
            Error ConstraintViolation [Key ''quantity''] (Some ''Quantity` must be a positive number''),
            Error ConstraintViolation [Key ''unitPrice''] (Some ''Unit Price` must be a positive number'')]
   \<and> \<not> is_ok (decode Order [] defaultOrder)"
  by (simp add: CartItem_def defaultCartItem_def Order_def defaultOrder_def Address_def
        OrderStatus_def decode_eval)

text \<open>
  C1, amended.  Every default constant of arktype.ts whose entity has no enum-typed
  field (all but \<open>Order\<close>, \<open>Product\<close> and \<open>ComplexPayment\<close>) satisfies its entity's
  structural type in the arktype scope; and no default constant of an entity that
  bindings.ts declares as a class validates against that class, because each leaves a
  required non-empty string empty.
\<close>

theorem defaults_fit_shapes_not_schemas:
  assumes "(c, t, d) \<in> set defaults"
  shows "(t \<notin> set [''Order'', ''Product'', ''ComplexPayment''] \<longrightarrow> validator 20 t d = Inr True)
    \<and> (class_named t = Some C \<longrightarrow> \<not> is_ok (decode C [] d))"
  using assms unfolding defaults_def
  by (simp only: set_simps insert_iff empty_iff prod.inject simp_thms)
     (elim disjE conjE; simp only: class_named_types defaults_allowed defaults_rejected
        option.inject option.distinct list.inject char.inject simp_thms; simp add: defaults_rejected)

theorem defaults_fit_shapes_not_schemas_witness:
  "(''defaultCartItem'', ''CartItem'', defaultCartItem) \<in> set defaults
   \<and> validator 20 ''CartItem'' defaultCartItem = Inr True
   \<and> class_named ''CartItem'' = Some CartItem
   \<and> \<not> is_ok (decode CartItem [] defaultCartItem)"
proof -
  have m: "(''defaultCartItem'', ''CartItem'', defaultCartItem) \<in> set defaults"
    by (simp add: defaults_def)
  have n: "class_named ''CartItem'' = Some CartItem" by (rule class_named_types)
  from defaults_fit_shapes_not_schemas [OF m, of CartItem] m n show ?thesis by simp
qed

subsection \<open>C2: the two files against each other\<close>

text \<open>
  Counterexample to C2.  The arktype scope declares the record \<open>MaxValidatorStacking\<close>;
  bindings.ts has no class of that name.
\<close>

theorem scope_entry_without_class:
  "(''MaxValidatorStacking'', bindings_MaxValidatorStacking) \<in> set bindings
   \<and> obj_keys bindings_MaxValidatorStacking =
       Some [''id'', ''megaValidatedString'', ''optionalMegaValidated'', ''megaValidatedNumber'',
             ''megaValidatedU32'', ''optionalMegaU32'', ''megaValidatedI64'', ''optionalMegaI64'']
   \<and> ''MaxValidatorStacking'' \<notin> set (map class_name classes)
   \<and> class_named ''MaxValidatorStacking'' = None"
proof -
  have 1: "(''MaxValidatorStacking'', bindings_MaxValidatorStacking) \<in> set bindings"
    by (simp add: bindings_def)
  have 2: "obj_keys bindings_MaxValidatorStacking =
       Some [''id'', ''megaValidatedString'', ''optionalMegaValidated'', ''megaValidatedNumber'',
             ''megaValidatedU32'', ''optionalMegaU32'', ''megaValidatedI64'', ''optionalMegaI64'']"
    by (simp add: bindings_MaxValidatorStacking_def)
  have 3: "''MaxValidatorStacking'' \<notin> set (map class_name classes)"
    by (simp add: classes_def class_names)
  from 1 2 3 class_named_types(1) show ?thesis by blast
qed

text \<open>
  C2, amended.  Every class of bindings.ts has an entry of the same name in the arktype
  scope, and every entry of that name (a key may be written twice) is an object
  definition with the same field names in the same order.  The converse fails.
\<close>

theorem classes_mirrored_in_scope:
  assumes "C \<in> set classes"
  shows "(\<exists>d. (class_name C, d) \<in> set bindings)
    \<and> (\<forall>d. (class_name C, d) \<in> set bindings \<longrightarrow>
          obj_keys d = Some (map fst (class_fields C)))"
proof -
  have "\<forall>C \<in> set classes.
      entries_named (class_name C) \<noteq> [] \<and>
      list_all (\<lambda>d. obj_keys d = Some (map fst (class_fields C))) (entries_named (class_name C))"
    by (rule all_classes) (rule same_fields_classes)+
  with assms have ne: "entries_named (class_name C) \<noteq> []"
    and all: "list_all (\<lambda>d. obj_keys d = Some (map fst (class_fields C)))
                (entries_named (class_name C))"
    by blast+
  from ne obtain d where "d \<in> set (entries_named (class_name C))"
    by (cases "entries_named (class_name C)") auto
  then have "\<exists>d. (class_name C, d) \<in> set bindings" by (auto simp: entries_named_iff)
  moreover from all have "\<forall>d. (class_name C, d) \<in> set bindings \<longrightarrow>
          obj_keys d = Some (map fst (class_fields C))"
    by (simp add: list_all_iff entries_named_iff)
  ultimately show ?thesis by blast
qed

theorem classes_mirrored_in_scope_witness:
  "Address \<in> set classes
   \<and> (''Address'', bindings_Address) \<in> set bindings
   \<and> obj_keys bindings_Address = Some [''street'', ''city'', ''state'', ''postalCode'', ''country'']
   \<and> map fst (class_fields Address) = [''street'', ''city'', ''state'', ''postalCode'', ''country'']"
proof -
  have c: "Address \<in> set classes" by (simp add: classes_def)
  have b: "(''Address'', bindings_Address) \<in> set bindings" by (simp add: bindings_def)
  have n: "class_name Address = ''Address''" by (rule class_names)
  have f: "map fst (class_fields Address) = [''street'', ''city'', ''state'', ''postalCode'', ''country'']"
    by (simp add: Address_def)
  from classes_mirrored_in_scope [OF c] b have "obj_keys bindings_Address = Some (map fst (class_fields Address))"
    unfolding n by blast
  with c b f show ?thesis by simp
qed

subsection \<open>C3: enum values in the default instances\<close>

text \<open>
  C3 fails on the code.  Each enum-typed field of a default constant is written as a
  string literal that is opened by a single quote and never closed
  (\<open>status: '"Delivered",\<close>); the value read from it starts with a double quote and is
  none of the enum's literals, for either catalog.
\<close>

theorem default_enum_values_corrupted:
  "field_of defaultOrder ''status'' = JStr ''\"Delivered\",''
   \<and> field_of defaultOrder_2 ''status'' = JStr ''\"Shipped\",''
   \<and> field_of defaultProduct ''category'' = JStr ''\"Sports\",''
   \<and> field_of defaultProduct_2 ''category'' = JStr ''\"Electronics\",''
   \<and> field_of defaultComplexPayment ''status'' = JStr ''\"Refunded\",''
   \<and> field_of defaultComplexPayment ''method'' = JStr ''\"DebitCard\",''
   \<and> field_of defaultComplexPayment_2 ''status'' = JStr ''\"Cancelled\",''
   \<and> field_of defaultComplexPayment_2 ''method'' = JStr ''\"Cash\",''
   \<and> \<not> is_ok (decode OrderStatus [Key ''status''] (field_of defaultOrder ''status''))
   \<and> \<not> is_ok (decode OrderStatus [Key ''status''] (field_of defaultOrder_2 ''status''))
   \<and> \<not> is_ok (decode ProductCategory [Key ''category''] (field_of defaultProduct ''category''))
   \<and> \<not> is_ok (decode ProductCategory [Key ''category''] (field_of defaultProduct_2 ''category''))
   \<and> \<not> is_ok (decode PaymentStatus [Key ''status''] (field_of defaultComplexPayment ''status''))
   \<and> \<not> is_ok (decode PaymentMethod [Key ''method''] (field_of defaultComplexPayment ''method''))
   \<and> \<not> is_ok (decode PaymentStatus [Key ''status''] (field_of defaultComplexPayment_2 ''status''))
   \<and> \<not> is_ok (decode PaymentMethod [Key ''method''] (field_of defaultComplexPayment_2 ''method''))
   \<and> validator 20 ''OrderStatus'' (field_of defaultOrder ''status'') = Inr False
   \<and> validator 20 ''OrderStatus'' (field_of defaultOrder_2 ''status'') = Inr False
   \<and> validator 20 ''ProductCategory'' (field_of defaultProduct ''category'') = Inr False
   \<and> validator 20 ''ProductCategory'' (field_of defaultProduct_2 ''category'') = Inr False
   \<and> validator 20 ''PaymentStatus'' (field_of defaultComplexPayment ''status'') = Inr False
   \<and> validator 20 ''PaymentMethod'' (field_of defaultComplexPayment ''method'') = Inr False
   \<and> validator 20 ''PaymentStatus'' (field_of defaultComplexPayment_2 ''status'') = Inr False
   \<and> validator 20 ''PaymentMethod'' (field_of defaultComplexPayment_2 ''method'') = Inr False"
proof -
  have f: "field_of defaultOrder ''status'' = JStr ''\"Delivered\",''"
    "field_of defaultOrder_2 ''status'' = JStr ''\"Shipped\",''"
    "field_of defaultProduct ''category'' = JStr ''\"Sports\",''"
    "field_of defaultProduct_2 ''category'' = JStr ''\"Electronics\",''"
    "field_of defaultComplexPayment ''status'' = JStr ''\"Refunded\",''"
    "field_of defaultComplexPayment ''method'' = JStr ''\"DebitCard\",''"
    "field_of defaultComplexPayment_2 ''status'' = JStr ''\"Cancelled\",''"
    "field_of defaultComplexPayment_2 ''method'' = JStr ''\"Cash\",''"
    by (simp_all add: defaultOrder_def defaultOrder_2_def defaultProduct_def defaultProduct_2_def
          defaultComplexPayment_def defaultComplexPayment_2_def)
  have e: "\<not> is_ok (decode OrderStatus [Key ''status''] (JStr ''\"Delivered\",''))"
    "\<not> is_ok (decode OrderStatus [Key ''status''] (JStr ''\"Shipped\",''))"
    "\<not> is_ok (decode ProductCategory [Key ''category''] (JStr ''\"Sports\",''))"
    "\<not> is_ok (decode ProductCategory [Key ''category''] (JStr ''\"Electronics\",''))"
    "\<not> is_ok (decode PaymentStatus [Key ''status''] (JStr ''\"Refunded\",''))"
    "\<not> is_ok (decode PaymentMethod [Key ''method''] (JStr ''\"DebitCard\",''))"
    "\<not> is_ok (decode PaymentStatus [Key ''status''] (JStr ''\"Cancelled\",''))"
    "\<not> is_ok (decode PaymentMethod [Key ''method''] (JStr ''\"Cash\",''))"
    by (simp_all add: enum_defs fails_def)
  have a: "validator 20 ''OrderStatus'' (JStr ''\"Delivered\",'') = Inr False"
    "validator 20 ''OrderStatus'' (JStr ''\"Shipped\",'') = Inr False"
    "validator 20 ''ProductCategory'' (JStr ''\"Sports\",'') = Inr False"
    "validator 20 ''ProductCategory'' (JStr ''\"Electronics\",'') = Inr False"
    "validator 20 ''PaymentStatus'' (JStr ''\"Refunded\",'') = Inr False"
    "validator 20 ''PaymentMethod'' (JStr ''\"DebitCard\",'') = Inr False"
    "validator 20 ''PaymentStatus'' (JStr ''\"Cancelled\",'') = Inr False"
    "validator 20 ''PaymentMethod'' (JStr ''\"Cash\",'') = Inr False"
    by (simp_all only: ark_eval bindings_OrderStatus_def bindings_ProductCategory_def
          bindings_PaymentStatus_def bindings_PaymentMethod_def)
  from f e a show ?thesis by (simp only: simp_thms)
qed

subsection \<open>C4: the Address example\<close>

text \<open>
  C4.  Validating \<open>{street: "", city: "NYC", state: "NY", postalCode: "10001", country: "US"}\<close>
  against \<open>Address\<close> fails with exactly one error, a constraint violation at path \<open>street\<close>;
  the same record with any non-empty street of at most 200 characters is accepted and
  decodes to itself.
\<close>

theorem Address_street_rule:
  "decode Address []
     (JObj [(''street'', JStr ''''), (''city'', JStr ''NYC''), (''state'', JStr ''NY''),
            (''postalCode'', JStr ''10001''), (''country'', JStr ''US'')])
   = Inl [Error ConstraintViolation [Key ''street''] (Some ''Please enter a value'')]
   \<and> (s \<noteq> [] \<and> length s \<le> 200 \<longrightarrow>
      decode Address []
        (JObj [(''street'', JStr s), (''city'', JStr ''NYC''), (''state'', JStr ''NY''),
               (''postalCode'', JStr ''10001''), (''country'', JStr ''US'')])
      = Inr (JObj [(''street'', JStr s), (''city'', JStr ''NYC''), (''state'', JStr ''NY''),
               (''postalCode'', JStr ''10001''), (''country'', JStr ''US'')]))"
  by (simp add: Address_def decode_eval)

theorem Address_street_rule_witness:
  "decode Address []
     (JObj [(''street'', JStr ''''), (''city'', JStr ''NYC''), (''state'', JStr ''NY''),
            (''postalCode'', JStr ''10001''), (''country'', JStr ''US'')])
   = Inl [Error ConstraintViolation [Key ''street''] (Some ''Please enter a value'')]
   \<and> decode Address []
        (JObj [(''street'', JStr ''1 Main St''), (''city'', JStr ''NYC''), (''state'', JStr ''NY''),
               (''postalCode'', JStr ''10001''), (''country'', JStr ''US'')])
      = Inr (JObj [(''street'', JStr ''1 Main St''), (''city'', JStr ''NYC''), (''state'', JStr ''NY''),
               (''postalCode'', JStr ''10001''), (''country'', JStr ''US'')])"
  using Address_street_rule [of "''1 Main St''"] by simp

subsection \<open>C5: reference fields\<close>

text \<open>
  Counterexample to C5.  A \<open>Customer\<close> whose nested \<open>user\<close> object has an empty
  \<open>email\<close>: decoding the nested object on its own reports the error at
  \<open>user.email\<close>, but the reference field reports one error at \<open>user\<close> with the union's
  override message, and nothing at the nested path.
\<close>

theorem nested_errors_overridden:
  "decode User [Key ''user'']
     (JObj [(''id'', JStr ''u1''), (''email'', JStr ''''), (''username'', JStr ''bob''),
            (''passwordHash'', JStr ''h''), (''roles'', JArr []), (''isActive'', JBool True),
            (''createdAt'', JStr ''2024-01-01''), (''updatedAt'', JStr ''2024-01-01'')])
   = Inl [Error ConstraintViolation [Key ''user'', Key ''email''] (Some ''Please enter a value'')]
   \<and> decode Customer []
     (JObj [(''id'', JStr ''c1''),
            (''user'', JObj [(''id'', JStr ''u1''), (''email'', JStr ''''), (''username'', JStr ''bob''),
               (''passwordHash'', JStr ''h''), (''roles'', JArr []), (''isActive'', JBool True),
               (''createdAt'', JStr ''2024-01-01''), (''updatedAt'', JStr ''2024-01-01'')]),
            (''shippingAddress'', JNull), (''billingAddress'', JNull), (''phone'', JNull),
            (''createdAt'', JStr ''2024-01-01'')])
   = Inl [Error ConstraintViolation [Key ''user''] (Some ''Please enter a valid value'')]"
  by (simp add: Customer_def User_def Role_def decode_eval)

text \<open>
  C5, amended.  For every reference field of every class (a required field whose
  schema is the union of a non-empty string and a class, annotated with an override
  message): the referenced schema is a class of the catalog and the message is
  \<open>Please enter a valid value\<close>; every non-empty string is accepted as it is; the empty
  string is rejected; a nested object is accepted exactly when the referenced class
  accepts it, and a nested object the class rejects yields the single override error at
  the reference field's own path.
\<close>

theorem reference_fields:
  assumes "C \<in> set classes" and "(k, f) \<in> set (class_fields C)"
    and "reference_target f = Some (T, m)"
  shows "T \<in> set classes \<and> m = ''Please enter a valid value''
    \<and> (s \<noteq> [] \<longrightarrow> decode f p (JStr s) = Inr (JStr s))
    \<and> decode f p (JStr []) = Inl [Error ConstraintViolation p (Some m)]
    \<and> decode f p (JObj kvs) =
        (case decode T p (JObj kvs) of
           Inr w \<Rightarrow> Inr w
         | Inl es \<Rightarrow> Inl [Error ConstraintViolation p (Some m)])"
proof -
  have all: "\<forall>C \<in> set classes.
      list_all (\<lambda>f. case reference_target (snd f) of
          None \<Rightarrow> True
        | Some (T, m) \<Rightarrow> T \<in> set classes \<and> m = ''Please enter a valid value'')
       (class_fields C)"
    by (rule all_classes) (rule reference_targets_in_catalog)+
  with assms have T: "T \<in> set classes" and m: "m = ''Please enter a valid value''"
    by (fastforce simp: list_all_iff)+
  have "\<forall>C \<in> set classes. \<exists>n fs. C = Schema_Class n fs"
    by (rule all_classes) (blast intro: class_shapes)+
  with T obtain n fs where Tc: "T = Schema_Class n fs" by blast
  from assms(3) obtain mm where f: "f = Schema_propertySignature
     (Schema_Union [pipe Schema_String (Schema_nonEmptyString None), T] (Some m)) mm"
    by (auto dest: reference_target_Some)
  have 1: "s \<noteq> [] \<longrightarrow> decode f p (JStr s) = Inr (JStr s)"
    unfolding f decode.simps(8) using reference_field(1) by blast
  have 2: "decode f p (JStr []) = Inl [Error ConstraintViolation p (Some m)]"
    unfolding f decode.simps(8)
    by (simp only: reference_field(3) Tc class_rejects_string sum.case)
  have 3: "decode f p (JObj kvs) =
        (case decode T p (JObj kvs) of
           Inr w \<Rightarrow> Inr w
         | Inl es \<Rightarrow> Inl [Error ConstraintViolation p (Some m)])"
    unfolding f decode.simps(8) by (rule reference_field(2))
  from T m 1 2 3 show ?thesis by blast
qed

theorem reference_fields_witness:
  "User \<in> set classes
   \<and> decode (snd (class_fields Customer ! 1)) [Key ''user''] (JStr ''u1'') = Inr (JStr ''u1'')
   \<and> decode (snd (class_fields Customer ! 1)) [Key ''user''] (JStr []) =
       Inl [Error ConstraintViolation [Key ''user''] (Some ''Please enter a valid value'')]
   \<and> decode (snd (class_fields Customer ! 1)) [Key ''user''] (JObj []) =
       (case decode User [Key ''user''] (JObj []) of
          Inr w \<Rightarrow> Inr w
        | Inl es \<Rightarrow> Inl [Error ConstraintViolation [Key ''user''] (Some ''Please enter a valid value'')])"
proof -
  have c: "Customer \<in> set classes" by (simp add: classes_def)
  have f: "(''user'', snd (class_fields Customer ! 1)) \<in> set (class_fields Customer)"
    by (simp add: Customer_def)
  have r: "reference_target (snd (class_fields Customer ! 1)) = Some (User, ''Please enter a valid value'')"
    by (simp add: Customer_def)
  from reference_fields [OF c f r, of "''u1''" "[Key ''user'']" "[]"]
  show ?thesis by simp
qed

subsection \<open>C6: optional fields\<close>

text \<open>
  C6 fails on the code.  \<open>Tag.description\<close> pipes its length check onto the
  \<open>OptionFromNullishOr\<close> wrapper, not onto the string inside it, so the check meets the
  option the wrapper returns and holds of none: a tag whose description is \<open>null\<close> and
  a tag with a short description are both rejected with the length message at
  \<open>description\<close>, and \<open>Tag\<close> accepts no value at all.  The same holds of the other nine
  classes that have such a field (see \<open>wrapper_piped_field_names\<close>).  \<open>Customer.phone\<close>,
  whose check is written inside the wrapper, does what the claim says: \<open>null\<close> decodes
  to "no value", a non-empty string is accepted, and the empty string is rejected with
  a constraint violation at \<open>phone\<close> (followed by the mismatches of the wrapper's \<open>null\<close>
  and \<open>undefined\<close> members).
\<close>

theorem step_on_wrapper_rejects_every_value:
  "decode Tag [] (tag_record JNull) =
     Inl [Error ConstraintViolation [Key ''description'']
            (Some ''Description` must be at most 500 characters long'')]
   \<and> decode Tag [] (tag_record (JStr ''All the news'')) =
     Inl [Error ConstraintViolation [Key ''description'']
            (Some ''Description` must be at most 500 characters long'')]
   \<and> \<not> is_ok (decode (snd (class_fields Tag ! 3)) p v)
   \<and> \<not> is_ok (decode Tag p v)
   \<and> \<not> is_ok (decode Author p v)
   \<and> \<not> is_ok (decode Post p v)
   \<and> \<not> is_ok (decode EdgeCaseUser p v)
   \<and> \<not> is_ok (decode EdgeCasePost p v)
   \<and> \<not> is_ok (decode ValidatedAddress p v)
   \<and> \<not> is_ok (decode Order p v)
   \<and> \<not> is_ok (decode ComplexPayment p v)
   \<and> \<not> is_ok (decode ValidatedContact p v)
   \<and> \<not> is_ok (decode DeepNestedValidation p v)
   \<and> decode Customer [] (customer_record JNull) = Inr (customer_decoded JNone)
   \<and> decode Customer [] (customer_record (JStr ''555-0100'')) =
       Inr (customer_decoded (JSome (JStr ''555-0100'')))
   \<and> decode Customer [] (customer_record (JStr '''')) =
       Inl [Error ConstraintViolation [Key ''phone''] (Some ''Please enter a value''),
            Error TypeMismatch [Key ''phone''] None,
            Error TypeMismatch [Key ''phone''] None]"
proof -
  have t1: "decode Tag [] (tag_record JNull) =
     Inl [Error ConstraintViolation [Key ''description'']
            (Some ''Description` must be at most 500 characters long'')]"
    by (simp add: Tag_def tag_record_def decode_eval)
  have t2: "decode Tag [] (tag_record (JStr ''All the news'')) =
     Inl [Error ConstraintViolation [Key ''description'']
            (Some ''Description` must be at most 500 characters long'')]"
    by (simp add: Tag_def tag_record_def decode_eval)
  have "wrapper_piped (snd (class_fields Tag ! 3))" by (simp add: Tag_def)
  then have f: "\<not> is_ok (decode (snd (class_fields Tag ! 3)) p v)"
    by (rule wrapper_piped_rejects)
  have c: "\<not> is_ok (decode Tag p v)" "\<not> is_ok (decode Author p v)"
    "\<not> is_ok (decode Post p v)" "\<not> is_ok (decode EdgeCaseUser p v)"
    "\<not> is_ok (decode EdgeCasePost p v)" "\<not> is_ok (decode ValidatedAddress p v)"
    "\<not> is_ok (decode Order p v)" "\<not> is_ok (decode ComplexPayment p v)"
    "\<not> is_ok (decode ValidatedContact p v)" "\<not> is_ok (decode DeepNestedValidation p v)"
    by (subst class_shapes, rule class_rejects_all, rule wrapper_piped_field_names)+
  have c1: "decode Customer [] (customer_record JNull) = Inr (customer_decoded JNone)"
    by (simp add: Customer_def customer_record_def customer_decoded_def decode_eval)
  have c2: "decode Customer [] (customer_record (JStr ''555-0100'')) =
       Inr (customer_decoded (JSome (JStr ''555-0100'')))"
    by (simp add: Customer_def customer_record_def customer_decoded_def decode_eval)
  have c3: "decode Customer [] (customer_record (JStr '''')) =
       Inl [Error ConstraintViolation [Key ''phone''] (Some ''Please enter a value''),
            Error TypeMismatch [Key ''phone''] None,
            Error TypeMismatch [Key ''phone''] None]"
    by (simp add: Customer_def customer_record_def customer_decoded_def decode_eval)
  from t1 t2 f c c1 c2 c3 show ?thesis by (simp only: simp_thms)
qed

subsection \<open>C7: enums\<close>

text \<open>
  C7.  For each of the five enums, in both catalogs, a string is accepted exactly when
  it is one of the declared literals (and the validated schema returns it unchanged).
\<close>

theorem enum_literals:
  "(decode Role p (JStr s) = Inr (JStr s)) =
     (s \<in> set [''Admin'', ''Moderator'', ''User'', ''Guest''])
   \<and> (decode OrderStatus p (JStr s) = Inr (JStr s)) =
     (s \<in> set [''Pending'', ''Processing'', ''Shipped'', ''Delivered'', ''Cancelled''])
   \<and> (decode PaymentStatus p (JStr s) = Inr (JStr s)) =
     (s \<in> set [''Pending'', ''Processing'', ''Completed'', ''Failed'', ''Refunded'', ''Cancelled''])
   \<and> (decode PaymentMethod p (JStr s) = Inr (JStr s)) =
     (s \<in> set [''CreditCard'', ''DebitCard'', ''BankTransfer'', ''PayPal'', ''Crypto'', ''Cash''])
   \<and> (decode ProductCategory p (JStr s) = Inr (JStr s)) =
     (s \<in> set [''Electronics'', ''Clothing'', ''Books'', ''Home'', ''Sports'', ''Other''])
   \<and> is_ok (decode Role p (JStr s)) =
     (s \<in> set [''Admin'', ''Moderator'', ''User'', ''Guest''])
   \<and> is_ok (decode OrderStatus p (JStr s)) =
     (s \<in> set [''Pending'', ''Processing'', ''Shipped'', ''Delivered'', ''Cancelled''])
   \<and> is_ok (decode PaymentStatus p (JStr s)) =
     (s \<in> set [''Pending'', ''Processing'', ''Completed'', ''Failed'', ''Refunded'', ''Cancelled''])
   \<and> is_ok (decode PaymentMethod p (JStr s)) =
     (s \<in> set [''CreditCard'', ''DebitCard'', ''BankTransfer'', ''PayPal'', ''Crypto'', ''Cash''])
   \<and> is_ok (decode ProductCategory p (JStr s)) =
     (s \<in> set [''Electronics'', ''Clothing'', ''Books'', ''Home'', ''Sports'', ''Other''])
   \<and> validator 20 ''Role'' (JStr s) =
     Inr (s \<in> set [''Admin'', ''Moderator'', ''User'', ''Guest''])
   \<and> validator 20 ''OrderStatus'' (JStr s) =
     Inr (s \<in> set [''Pending'', ''Processing'', ''Shipped'', ''Delivered'', ''Cancelled''])
   \<and> validator 20 ''PaymentStatus'' (JStr s) =
     Inr (s \<in> set [''Pending'', ''Processing'', ''Completed'', ''Failed'', ''Refunded'', ''Cancelled''])
   \<and> validator 20 ''PaymentMethod'' (JStr s) =
     Inr (s \<in> set [''CreditCard'', ''DebitCard'', ''BankTransfer'', ''PayPal'', ''Crypto'', ''Cash''])
   \<and> validator 20 ''ProductCategory'' (JStr s) =
     Inr (s \<in> set [''Electronics'', ''Clothing'', ''Books'', ''Home'', ''Sports'', ''Other''])"
proof -
  have eff: "\<And>ls. (decode (Schema_Union (map Schema_Literal ls) None) p (JStr s) = Inr (JStr s)) = (s \<in> set ls)
      \<and> is_ok (decode (Schema_Union (map Schema_Literal ls) None) p (JStr s)) = (s \<in> set ls)"
    using decode_literal_union_iff decode_literal_union by blast
  have e1: "(decode Role p (JStr s) = Inr (JStr s)) =
       (s \<in> set [''Admin'', ''Moderator'', ''User'', ''Guest''])
     \<and> is_ok (decode Role p (JStr s)) =
       (s \<in> set [''Admin'', ''Moderator'', ''User'', ''Guest''])"
    using eff [of "[''Admin'', ''Moderator'', ''User'', ''Guest'']"]
    by (simp only: Role_def list.map)
  have e2: "(decode OrderStatus p (JStr s) = Inr (JStr s)) =
       (s \<in> set [''Pending'', ''Processing'', ''Shipped'', ''Delivered'', ''Cancelled''])
     \<and> is_ok (decode OrderStatus p (JStr s)) =
       (s \<in> set [''Pending'', ''Processing'', ''Shipped'', ''Delivered'', ''Cancelled''])"
    using eff [of "[''Pending'', ''Processing'', ''Shipped'', ''Delivered'', ''Cancelled'']"]
    by (simp only: OrderStatus_def list.map)
  have e3: "(decode PaymentStatus p (JStr s) = Inr (JStr s)) =
       (s \<in> set [''Pending'', ''Processing'', ''Completed'', ''Failed'', ''Refunded'', ''Cancelled''])
     \<and> is_ok (decode PaymentStatus p (JStr s)) =
       (s \<in> set [''Pending'', ''Processing'', ''Completed'', ''Failed'', ''Refunded'', ''Cancelled''])"
    using eff [of "[''Pending'', ''Processing'', ''Completed'', ''Failed'', ''Refunded'', ''Cancelled'']"]
    by (simp only: PaymentStatus_def list.map)
  have e4: "(decode PaymentMethod p (JStr s) = Inr (JStr s)) =
       (s \<in> set [''CreditCard'', ''DebitCard'', ''BankTransfer'', ''PayPal'', ''Crypto'', ''Cash''])
     \<and> is_ok (decode PaymentMethod p (JStr s)) =
       (s \<in> set [''CreditCard'', ''DebitCard'', ''BankTransfer'', ''PayPal'', ''Crypto'', ''Cash''])"
    using eff [of "[''CreditCard'', ''DebitCard'', ''BankTransfer'', ''PayPal'', ''Crypto'', ''Cash'']"]
    by (simp only: PaymentMethod_def list.map)
  have e5: "(decode ProductCategory p (JStr s) = Inr (JStr s)) =
       (s \<in> set [''Electronics'', ''Clothing'', ''Books'', ''Home'', ''Sports'', ''Other''])
     \<and> is_ok (decode ProductCategory p (JStr s)) =
       (s \<in> set [''Electronics'', ''Clothing'', ''Books'', ''Home'', ''Sports'', ''Other''])"
    using eff [of "[''Electronics'', ''Clothing'', ''Books'', ''Home'', ''Sports'', ''Other'']"]
    by (simp only: ProductCategory_def list.map)
  have a1: "validator 20 ''Role'' (JStr s) =
     Inr (s \<in> set [''Admin'', ''Moderator'', ''User'', ''Guest''])"
    by (simp add: validator_def lookup_bindings allows_numeral bindings_Role_def)
  have a2: "validator 20 ''OrderStatus'' (JStr s) =
     Inr (s \<in> set [''Pending'', ''Processing'', ''Shipped'', ''Delivered'', ''Cancelled''])"
    by (simp add: validator_def lookup_bindings allows_numeral bindings_OrderStatus_def)
  have a3: "validator 20 ''PaymentStatus'' (JStr s) =
     Inr (s \<in> set [''Pending'', ''Processing'', ''Completed'', ''Failed'', ''Refunded'', ''Cancelled''])"
    by (simp add: validator_def lookup_bindings allows_numeral bindings_PaymentStatus_def)
  have a4: "validator 20 ''PaymentMethod'' (JStr s) =
     Inr (s \<in> set [''CreditCard'', ''DebitCard'', ''BankTransfer'', ''PayPal'', ''Crypto'', ''Cash''])"
    by (simp add: validator_def lookup_bindings allows_numeral bindings_PaymentMethod_def)
  have a5: "validator 20 ''ProductCategory'' (JStr s) =
     Inr (s \<in> set [''Electronics'', ''Clothing'', ''Books'', ''Home'', ''Sports'', ''Other''])"
    by (simp add: validator_def lookup_bindings allows_numeral bindings_ProductCategory_def)
  from e1 e2 e3 e4 e5 a1 a2 a3 a4 a5 show ?thesis by blast
qed

theorem enum_literals_witness:
  "decode OrderStatus [Key ''status''] (JStr ''Shipped'') = Inr (JStr ''Shipped'')
   \<and> \<not> is_ok (decode Role [] (JStr ''Root''))
   \<and> validator 20 ''PaymentMethod'' (JStr ''Cheque'') = Inr False
   \<and> validator 20 ''PaymentMethod'' (JStr ''Cash'') = Inr True"
  using enum_literals [of "[Key ''status'']" "''Shipped''"] enum_literals [of "[]" "''Root''"]
    enum_literals [of "[]" "''Cheque''"] enum_literals [of "[]" "''Cash''"]
  by simp

subsection \<open>C8: all failing fields are reported\<close>

text \<open>
  C8.  When the decoding of a field of a class fails, the decoding of the record fails
  and its result holds every error of that field, each at or below the field's path;
  so every failing field is reported in the one result.  An \<open>Address\<close> with empty
  \<open>street\<close> and \<open>city\<close> yields both errors.
\<close>

theorem failing_fields_all_reported:
  "(f \<in> set fs \<and> decode_field kvs p f = Inl fes \<longrightarrow>
      scoped (p @ [Key (fst f)]) fes
    \<and> (\<exists>es. decode (Schema_Class n fs) p (JObj kvs) = Inl es \<and> set fes \<subseteq> set es))
   \<and> decode Address []
        (JObj [(''street'', JStr ''''), (''city'', JStr ''''), (''state'', JStr ''NY''),
               (''postalCode'', JStr ''10001''), (''country'', JStr ''US'')])
      = Inl [Error ConstraintViolation [Key ''street''] (Some ''Please enter a value''),
             Error ConstraintViolation [Key ''city''] (Some ''Please enter a value'')]"
proof -
  have g: "f \<in> set fs \<and> decode_field kvs p f = Inl fes \<longrightarrow>
      scoped (p @ [Key (fst f)]) fes
    \<and> (\<exists>es. decode (Schema_Class n fs) p (JObj kvs) = Inl es \<and> set fes \<subseteq> set es)"
    using failing_field_reported [of f fs kvs p fes n] decode_field_scoped [of kvs p f fes]
    by blast
  have a: "decode Address []
        (JObj [(''street'', JStr ''''), (''city'', JStr ''''), (''state'', JStr ''NY''),
               (''postalCode'', JStr ''10001''), (''country'', JStr ''US'')])
      = Inl [Error ConstraintViolation [Key ''street''] (Some ''Please enter a value''),
             Error ConstraintViolation [Key ''city''] (Some ''Please enter a value'')]"
    by (simp add: Address_def decode_eval)
  from g a show ?thesis by blast
qed

theorem failing_fields_all_reported_witness:
  "scoped [Key ''city''] [Error ConstraintViolation [Key ''city''] (Some ''Please enter a value'')]
   \<and> (\<exists>es. decode Address []
          (JObj [(''street'', JStr ''''), (''city'', JStr ''''), (''state'', JStr ''NY''),
                 (''postalCode'', JStr ''10001''), (''country'', JStr ''US'')]) = Inl es
        \<and> set [Error ConstraintViolation [Key ''city''] (Some ''Please enter a value'')] \<subseteq> set es)"
proof -
  let ?kvs = "[(''street'', JStr ''''), (''city'', JStr ''''), (''state'', JStr ''NY''),
                 (''postalCode'', JStr ''10001''), (''country'', JStr ''US'')]"
  let ?f = "class_fields Address ! 1"
  have m: "?f \<in> set (class_fields Address)" by (simp add: Address_def)
  have k: "fst ?f = ''city''" by (simp add: Address_def)
  have d: "decode_field ?kvs [] ?f =
      Inl [Error ConstraintViolation [Key ''city''] (Some ''Please enter a value'')]"
    by (simp add: Address_def decode_field_def decode_eval)
  have s: "Schema_Class ''Address'' (class_fields Address) = Address"
    by (rule class_shapes(1) [symmetric])
  from failing_fields_all_reported [of ?f "class_fields Address" ?kvs "[]"
      "[Error ConstraintViolation [Key ''city''] (Some ''Please enter a value'')]" "''Address''"]
    m d
  show ?thesis unfolding s k by simp
qed

subsection \<open>C9: case normalisation\<close>




subsection \<open>C10: the two catalogs are not equivalent as validators\<close>

text \<open>
  C10.  The arktype definition of \<open>Address\<close> accepts every record whose five keys
  hold strings, whatever the strings are, and rejects a record that holds a number
  under \<open>street\<close>, a record that lacks \<open>country\<close> and a value that is no record.  So it
  accepts the all-empty \<open>defaultAddress\<close>, which the \<open>Address\<close> class rejects with a
  constraint violation at each of the five fields.  Likewise a \<open>CartItem\<close> with
  \<open>quantity = -5\<close> is accepted by the arktype definition of \<open>CartItem\<close> and rejected by
  the \<open>CartItem\<close> class at \<open>quantity\<close>, which accepts the same record with quantity 5;
  a string under \<open>quantity\<close> is rejected by the arktype definition too.
\<close>

theorem shape_only_accepts_what_schema_rejects:
  "validator 20 ''Address''
     (JObj [(''street'', JStr a), (''city'', JStr b), (''state'', JStr c),
            (''postalCode'', JStr d), (''country'', JStr e)]) = Inr True
   \<and> validator 20 ''Address''
     (JObj [(''street'', JNum 5), (''city'', JStr ''NYC''), (''state'', JStr ''NY''),
            (''postalCode'', JStr ''10001''), (''country'', JStr ''US'')]) = Inr False
   \<and> validator 20 ''Address''
     (JObj [(''street'', JStr ''1 Main St''), (''city'', JStr ''NYC''), (''state'', JStr ''NY''),
            (''postalCode'', JStr ''10001'')]) = Inr False
   \<and> validator 20 ''Address'' (JStr ''1 Main St'') = Inr False
   \<and> validator 20 ''Address'' defaultAddress = Inr True
   \<and> decode Address [] defaultAddress
     = Inl [Error ConstraintViolation [Key ''street''] (Some ''Please enter a value''),
            Error ConstraintViolation [Key ''city''] (Some ''Please enter a value''),
            Error ConstraintViolation [Key ''state''] (Some ''Please enter a value''),
            Error ConstraintViolation [Key ''postalCode''] (Some ''Please enter a value''),
            Error ConstraintViolation [Key ''country''] (Some ''Please enter a value'')]
   \<and> validator 20 ''CartItem''
     (JObj [(''productId'', JStr ''p1''), (''productName'', JStr ''Pen''),
            (''quantity'', JNum (- 5)), (''unitPrice'', JNum 2)]) = Inr True
   \<and> decode CartItem []
     (JObj [(''productId'', JStr ''p1''), (''productName'', JStr ''Pen''),
            (''quantity'', JNum (- 5)), (''unitPrice'', JNum 2)])
     = Inl [Error ConstraintViolation [Key ''quantity'']
              (Some ''Quantity` must be a positive number'')]
   \<and> decode CartItem []
     (JObj [(''productId'', JStr ''p1''), (''productName'', JStr ''Pen''),
            (''quantity'', JNum 5), (''unitPrice'', JNum 2)])
     = Inr (JObj [(''productId'', JStr ''p1''), (''productName'', JStr ''Pen''),
            (''quantity'', JNum 5), (''unitPrice'', JNum 2)])
   \<and> validator 20 ''CartItem''
     (JObj [(''productId'', JStr ''p1''), (''productName'', JStr ''Pen''),
            (''quantity'', JStr ''5''), (''unitPrice'', JNum 2)]) = Inr False"
proof -
  have 1: "validator 20 ''Address''
     (JObj [(''street'', JStr a), (''city'', JStr b), (''state'', JStr c),
            (''postalCode'', JStr d), (''country'', JStr e)]) = Inr True"
    by (simp only: ark_eval bindings_Address_def)
  have 2: "validator 20 ''Address''
     (JObj [(''street'', JNum 5), (''city'', JStr ''NYC''), (''state'', JStr ''NY''),
            (''postalCode'', JStr ''10001''), (''country'', JStr ''US'')]) = Inr False"
    by (simp only: ark_eval bindings_Address_def)
  have 3: "validator 20 ''Address''
     (JObj [(''street'', JStr ''1 Main St''), (''city'', JStr ''NYC''), (''state'', JStr ''NY''),
            (''postalCode'', JStr ''10001'')]) = Inr False"
    by (simp only: ark_eval bindings_Address_def)
  have 4: "validator 20 ''Address'' (JStr ''1 Main St'') = Inr False"
    by (simp only: ark_eval bindings_Address_def)
  have 5: "validator 20 ''Address'' defaultAddress = Inr True"
    by (simp only: ark_eval bindings_Address_def defaultAddress_def)
  have 6: "decode Address [] defaultAddress
     = Inl [Error ConstraintViolation [Key ''street''] (Some ''Please enter a value''),
            Error ConstraintViolation [Key ''city''] (Some ''Please enter a value''),
            Error ConstraintViolation [Key ''state''] (Some ''Please enter a value''),
            Error ConstraintViolation [Key ''postalCode''] (Some ''Please enter a value''),
            Error ConstraintViolation [Key ''country''] (Some ''Please enter a value'')]"
    by (simp add: Address_def defaultAddress_def decode_eval)
  have 7: "validator 20 ''CartItem''
     (JObj [(''productId'', JStr ''p1''), (''productName'', JStr ''Pen''),
            (''quantity'', JNum (- 5)), (''unitPrice'', JNum 2)]) = Inr True"
    by (simp only: ark_eval bindings_CartItem_def)
  have 8: "decode CartItem []
     (JObj [(''productId'', JStr ''p1''), (''productName'', JStr ''Pen''),
            (''quantity'', JNum (- 5)), (''unitPrice'', JNum 2)])
     = Inl [Error ConstraintViolation [Key ''quantity'']
              (Some ''Quantity` must be a positive number'')]"
    by (simp add: CartItem_def decode_eval)
  have 9: "decode CartItem []
     (JObj [(''productId'', JStr ''p1''), (''productName'', JStr ''Pen''),
            (''quantity'', JNum 5), (''unitPrice'', JNum 2)])
     = Inr (JObj [(''productId'', JStr ''p1''), (''productName'', JStr ''Pen''),
            (''quantity'', JNum 5), (''unitPrice'', JNum 2)])"
    by (simp add: CartItem_def decode_eval)
  have 10: "validator 20 ''CartItem''
     (JObj [(''productId'', JStr ''p1''), (''productName'', JStr ''Pen''),
            (''quantity'', JStr ''5''), (''unitPrice'', JNum 2)]) = Inr False"
    by (simp only: ark_eval bindings_CartItem_def)
  from 1 2 3 4 5 6 7 8 9 10 show ?thesis by (simp only: simp_thms)
qed

end
